theory Spec2Isabelle
  imports Main "HOL-Library.AList" "HOL-Library.Sublist"
begin

section \<open>Python values, exceptions and the operations the handlers apply to them\<close>

text \<open>
  The tool handlers of \<^verbatim>\<open>src/server/tools\<close> are Python functions that call the Databricks
  SDK and reshape what it returns into a dictionary.  The SDK is external: the model takes
  its behaviour as a parameter and embeds the handlers over a small universe of Python
  values.

  An exception is modelled by its class name and by the text \<^verbatim>\<open>str(e)\<close>.  The exceptions of
  the model are instances of \<^verbatim>\<open>Exception\<close>, the class every handler catches;
  \<^verbatim>\<open>KeyboardInterrupt\<close>, \<^verbatim>\<open>SystemExit\<close> and \<^verbatim>\<open>GeneratorExit\<close> derive from
  \<^verbatim>\<open>BaseException\<close> only, are not caught by \<^verbatim>\<open>except Exception\<close> and are outside
  the model.
\<close>

datatype exn = Exn (exn_class: string) (exn_str: string)

text \<open>
  Values are duck-typed, as in the source: \<open>PObj cls attrs\<close> is an object of class \<open>cls\<close>
  with the attributes \<open>attrs\<close>; \<open>PFun r\<close> is a callable, given by what calling it does
  (return a value or raise).  A Python \<^verbatim>\<open>str\<close> is represented by its UTF-8 encoding, a
  dictionary by its items in insertion order, with string keys.
\<close>

datatype pyval =
    PNone
  | PBool bool
  | PInt int
  | PStr string
  | PBytes string
  | PList "pyval list"
  | PDict "(string \<times> pyval) list"
  | PObj string "(string \<times> pyval) list"
  | PFun "exn + pyval"

type_synonym pydict = "(string \<times> pyval) list"

text \<open>Sequencing of computations that may raise: the first exception propagates.\<close>

definition bind_exn :: "exn + 'a \<Rightarrow> ('a \<Rightarrow> exn + 'b) \<Rightarrow> exn + 'b" where
  "bind_exn m f = (case m of Inl e \<Rightarrow> Inl e | Inr x \<Rightarrow> f x)"

fun map_exn :: "('a \<Rightarrow> exn + 'b) \<Rightarrow> 'a list \<Rightarrow> exn + 'b list" where
  "map_exn f [] = Inr []"
| "map_exn f (x # xs) =
     (case f x of
        Inl e \<Rightarrow> Inl e
      | Inr y \<Rightarrow> (case map_exn f xs of Inl e \<Rightarrow> Inl e | Inr ys \<Rightarrow> Inr (y # ys)))"

text \<open>\<^verbatim>\<open>type(v).__name__\<close>, as it appears in the interpreter's error messages.\<close>

fun type_name :: "pyval \<Rightarrow> string" where
  "type_name PNone = ''NoneType''"
| "type_name (PBool b) = ''bool''"
| "type_name (PInt i) = ''int''"
| "type_name (PStr s) = ''str''"
| "type_name (PBytes s) = ''bytes''"
| "type_name (PList xs) = ''list''"
| "type_name (PDict d) = ''dict''"
| "type_name (PObj cls attrs) = cls"
| "type_name (PFun r) = ''method''"

definition quoted :: "string \<Rightarrow> string" where
  "quoted s = [CHR 0x27] @ s @ [CHR 0x27]"

definition AttributeError :: "pyval \<Rightarrow> string \<Rightarrow> exn" where
  "AttributeError v a =
     Exn ''AttributeError'' (quoted (type_name v) @ '' object has no attribute '' @ quoted a)"

definition not_iterable :: "pyval \<Rightarrow> exn" where
  "not_iterable v = Exn ''TypeError'' (quoted (type_name v) @ '' object is not iterable'')"

definition not_callable :: "pyval \<Rightarrow> exn" where
  "not_callable v = Exn ''TypeError'' (quoted (type_name v) @ '' object is not callable'')"

definition no_len :: "pyval \<Rightarrow> exn" where
  "no_len v = Exn ''TypeError'' (''object of type '' @ quoted (type_name v) @ '' has no len()'')"

text \<open>
  Truth value testing (\<^verbatim>\<open>if v:\<close>, \<^verbatim>\<open>x if v else y\<close>): \<^verbatim>\<open>None\<close>, \<^verbatim>\<open>False\<close>, zero and
  empty containers are false; objects are true.
\<close>

fun truthy :: "pyval \<Rightarrow> bool" where
  "truthy PNone = False"
| "truthy (PBool b) = b"
| "truthy (PInt i) = (i \<noteq> 0)"
| "truthy (PStr s) = (s \<noteq> [])"
| "truthy (PBytes s) = (s \<noteq> [])"
| "truthy (PList xs) = (xs \<noteq> [])"
| "truthy (PDict d) = (d \<noteq> [])"
| "truthy (PObj cls attrs) = True"
| "truthy (PFun r) = True"

text \<open>
  Attribute access \<^verbatim>\<open>v.a\<close>.  The attributes the handlers read are field names of SDK
  objects; none of them is an attribute of a built-in value, so on anything but an object
  the access raises \<^verbatim>\<open>AttributeError\<close>.
\<close>

fun getattr :: "pyval \<Rightarrow> string \<Rightarrow> exn + pyval" where
  "getattr (PObj cls attrs) a =
     (case map_of attrs a of Some v \<Rightarrow> Inr v | None \<Rightarrow> Inl (AttributeError (PObj cls attrs) a))"
| "getattr v a = Inl (AttributeError v a)"

text \<open>\<^verbatim>\<open>hasattr(v, a)\<close>: whether the access succeeds.\<close>

definition hasattr :: "pyval \<Rightarrow> string \<Rightarrow> bool" where
  "hasattr v a = (case getattr v a of Inl e \<Rightarrow> False | Inr x \<Rightarrow> True)"

text \<open>Calling a value: \<^verbatim>\<open>f(...)\<close>.\<close>

fun py_call :: "pyval \<Rightarrow> exn + pyval" where
  "py_call (PFun r) = r"
| "py_call v = Inl (not_callable v)"

text \<open>A method call \<^verbatim>\<open>v.m(...)\<close> on an object: look the attribute up, then call it.\<close>

definition call_method :: "pyval \<Rightarrow> string \<Rightarrow> exn + pyval" where
  "call_method v m = bind_exn (getattr v m) py_call"

text \<open>The code points of a string, each in its UTF-8 encoding.\<close>

definition continuation :: "char \<Rightarrow> bool" where
  "continuation c = (0x80 \<le> (of_char c :: nat) \<and> (of_char c :: nat) < 0xC0)"

function code_points :: "string \<Rightarrow> string list" where
  "code_points [] = []"
| "code_points (c # cs) = (c # takeWhile continuation cs) # code_points (dropWhile continuation cs)"
  by pat_completeness auto
termination
  by (relation "measure length") (auto simp: length_dropWhile_le less_Suc_eq_le)

text \<open>Iteration: \<^verbatim>\<open>list(v)\<close>, \<^verbatim>\<open>for x in v\<close> and comprehensions over \<open>v\<close>.\<close>

fun py_list :: "pyval \<Rightarrow> exn + pyval list" where
  "py_list (PList xs) = Inr xs"
| "py_list (PDict d) = Inr (map (\<lambda>kv. PStr (fst kv)) d)"
| "py_list (PStr s) = Inr (map PStr (code_points s))"
| "py_list (PBytes s) = Inr (map (\<lambda>c. PInt (of_char c)) s)"
| "py_list v = Inl (not_iterable v)"

text \<open>\<^verbatim>\<open>len(v)\<close>.\<close>

fun py_len :: "pyval \<Rightarrow> exn + pyval" where
  "py_len (PList xs) = Inr (PInt (int (length xs)))"
| "py_len (PDict d) = Inr (PInt (int (length d)))"
| "py_len (PStr s) = Inr (PInt (int (length (code_points s))))"
| "py_len (PBytes s) = Inr (PInt (int (length s)))"
| "py_len v = Inl (no_len v)"

text \<open>
  \<^verbatim>\<open>v.startswith(p)\<close> for a \<^verbatim>\<open>str\<close> argument \<open>p\<close>, as a truth value: a string answers
  by the prefix test, \<^verbatim>\<open>bytes\<close> refuse a \<^verbatim>\<open>str\<close> argument, an object answers by its own
  method, and no other value has the attribute.
\<close>

fun startswith :: "pyval \<Rightarrow> string \<Rightarrow> exn + bool" where
  "startswith (PStr s) p = Inr (prefix p s)"
| "startswith (PBytes s) p =
     Inl (Exn ''TypeError'' ''startswith first arg must be bytes or a tuple of bytes, not str'')"
| "startswith (PObj cls attrs) p =
     bind_exn (call_method (PObj cls attrs) ''startswith'') (\<lambda>r. Inr (truthy r))"
| "startswith v p = Inl (AttributeError v ''startswith'')"

text \<open>Well-formed UTF-8 (RFC 3629): what the strict \<^verbatim>\<open>utf-8\<close> codec accepts.\<close>

definition tail_byte :: "nat \<Rightarrow> bool" where
  "tail_byte b = (0x80 \<le> b \<and> b \<le> 0xBF)"

fun utf8_valid :: "nat list \<Rightarrow> bool" where
  "utf8_valid [] = True"
| "utf8_valid (a # bs) =
     (if a < 0x80 then utf8_valid bs
      else if 0xC2 \<le> a \<and> a \<le> 0xDF then
        (case bs of b # r \<Rightarrow> tail_byte b \<and> utf8_valid r | _ \<Rightarrow> False)
      else if 0xE0 \<le> a \<and> a \<le> 0xEF then
        (case bs of
           b # c # r \<Rightarrow>
             (if a = 0xE0 then 0xA0 \<le> b \<and> b \<le> 0xBF
              else if a = 0xED then 0x80 \<le> b \<and> b \<le> 0x9F
              else tail_byte b) \<and> tail_byte c \<and> utf8_valid r
         | _ \<Rightarrow> False)
      else if 0xF0 \<le> a \<and> a \<le> 0xF4 then
        (case bs of
           b # c # d # r \<Rightarrow>
             (if a = 0xF0 then 0x90 \<le> b \<and> b \<le> 0xBF
              else if a = 0xF4 then 0x80 \<le> b \<and> b \<le> 0x8F
              else tail_byte b) \<and> tail_byte c \<and> tail_byte d \<and> utf8_valid r
         | _ \<Rightarrow> False)
      else False)"

text \<open>
  \<^verbatim>\<open>v.decode('utf-8')\<close>.  The text of the \<^verbatim>\<open>UnicodeDecodeError\<close> names the offending
  byte; the only handler that decodes catches the exception, so the text is never observed
  and the model keeps its fixed part.
\<close>

fun decode_utf8 :: "pyval \<Rightarrow> exn + pyval" where
  "decode_utf8 (PBytes s) =
     (if utf8_valid (map of_char s) then Inr (PStr s)
      else Inl (Exn ''UnicodeDecodeError'' (quoted ''utf-8'' @ '' codec can'' @ [CHR 0x27] @ ''t decode byte'')))"
| "decode_utf8 (PObj cls attrs) = call_method (PObj cls attrs) ''decode''"
| "decode_utf8 v = Inl (AttributeError v ''decode'')"

text \<open>
  A dictionary display \<^verbatim>\<open>{'k1': e1, 'k2': e2, ...}\<close>: the value expressions are evaluated
  in order, and the first one that raises ends the evaluation.
\<close>

fun dict_items :: "(string \<times> (exn + pyval)) list \<Rightarrow> exn + pydict" where
  "dict_items [] = Inr []"
| "dict_items (kv # kvs) =
     (case snd kv of
        Inl e \<Rightarrow> Inl e
      | Inr v \<Rightarrow> (case dict_items kvs of Inl e \<Rightarrow> Inl e | Inr d \<Rightarrow> Inr ((fst kv, v) # d)))"

definition dict_lit :: "(string \<times> (exn + pyval)) list \<Rightarrow> exn + pyval" where
  "dict_lit kvs = (case dict_items kvs of Inl e \<Rightarrow> Inl e | Inr d \<Rightarrow> Inr (PDict d))"

text \<open>The recurring field expressions of the handlers.\<close>

definition attr_if :: "pyval \<Rightarrow> string \<Rightarrow> string \<Rightarrow> exn + pyval" where
  \<comment> \<open>\<^verbatim>\<open>obj.a.b if obj.a else None\<close>\<close>
  "attr_if obj a b =
     bind_exn (getattr obj a) (\<lambda>v. if truthy v then bind_exn (getattr obj a) (\<lambda>u. getattr u b) else Inr PNone)"

definition dict_if :: "pyval \<Rightarrow> string \<Rightarrow> exn + pyval" where
  \<comment> \<open>\<^verbatim>\<open>obj.a.dict() if obj.a else None\<close>\<close>
  "dict_if obj a =
     bind_exn (getattr obj a) (\<lambda>v. if truthy v then bind_exn (getattr obj a) (\<lambda>u. call_method u ''dict'') else Inr PNone)"

definition dicts_if :: "pyval \<Rightarrow> string \<Rightarrow> exn + pyval" where
  \<comment> \<open>\<^verbatim>\<open>[x.dict() for x in obj.a] if obj.a else None\<close>\<close>
  "dicts_if obj a =
     bind_exn (getattr obj a) (\<lambda>v. if truthy v
       then bind_exn (getattr obj a) (\<lambda>u. bind_exn (py_list u) (\<lambda>xs.
              bind_exn (map_exn (\<lambda>x. call_method x ''dict'') xs) (\<lambda>ds. Inr (PList ds))))
       else Inr PNone)"

definition items_if :: "pyval \<Rightarrow> string \<Rightarrow> (pyval \<Rightarrow> exn + pyval) \<Rightarrow> exn + pyval list" where
  \<comment> \<open>\<^verbatim>\<open>out = []; if obj.a: for x in obj.a: out.append(f(x))\<close>\<close>
  "items_if obj a f =
     bind_exn (getattr obj a) (\<lambda>v. if truthy v
       then bind_exn (getattr obj a) (\<lambda>u. bind_exn (py_list u) (\<lambda>xs. map_exn f xs))
       else Inr [])"

text \<open>Decimal text of an integer, as \<^verbatim>\<open>str\<close> and f-strings render it.\<close>

fun digits :: "nat \<Rightarrow> string" where
  "digits n = (if n < 10 then [''0123456789'' ! n] else digits (n div 10) @ [''0123456789'' ! (n mod 10)])"

definition str_int :: "int \<Rightarrow> string" where
  "str_int i = (if i < 0 then ''-'' @ digits (nat (- i)) else digits (nat i))"

text \<open>\<^verbatim>\<open>sep.join(xs)\<close>.\<close>

fun py_join :: "string \<Rightarrow> string list \<Rightarrow> string" where
  "py_join sep [] = []"
| "py_join sep [x] = x"
| "py_join sep (x # y # ys) = x @ sep @ py_join sep (y # ys)"

text \<open>
  A template of several lines (a triple-quoted f-string), given line by line: the lines
  are separated by newline characters.
\<close>

definition text_lines :: "string list \<Rightarrow> string" where
  "text_lines ls = py_join [CHR 0x0A] ls"

section \<open>The external world\<close>

text \<open>
  A call of an SDK method is the dotted path of the method below the client, the positional
  arguments and the keyword arguments.  The client answers a call by a value or by raising;
  for a method that returns an iterator the answer stands for the iterator, and the failure
  of its consumption is a failure of the call.  \<open>WorkspaceClient\<close> is the construction of
  the client, which fails where the ambient credentials are missing.  \<open>render\<close> is the
  interpreter's \<^verbatim>\<open>str\<close> on the values the model does not render itself (bytes, containers,
  objects), and \<open>dict_of_pairs\<close> its \<^verbatim>\<open>dict\<close> on the elements of an iterable that is not a
  mapping.
\<close>

type_synonym call = "string \<times> pyval list \<times> pydict"

type_synonym client = "call \<Rightarrow> exn + pyval"

record world =
  WorkspaceClient :: "exn + client"
  render :: "pyval \<Rightarrow> string"
  dict_of_pairs :: "pyval list \<Rightarrow> exn + pyval"

definition get_workspace_client :: "world \<Rightarrow> exn + client" where
  "get_workspace_client w = WorkspaceClient w"

text \<open>\<^verbatim>\<open>str(v)\<close>, which is also what an f-string puts in place of \<^verbatim>\<open>{v}\<close>.\<close>

fun py_str :: "world \<Rightarrow> pyval \<Rightarrow> string" where
  "py_str w PNone = ''None''"
| "py_str w (PBool b) = (if b then ''True'' else ''False'')"
| "py_str w (PInt i) = str_int i"
| "py_str w (PStr s) = s"
| "py_str w v = render w v"

text \<open>\<^verbatim>\<open>dict(v)\<close>: a copy of a mapping, or the mapping made of the pairs of an iterable.\<close>

fun py_dict :: "world \<Rightarrow> pyval \<Rightarrow> exn + pyval" where
  "py_dict w (PDict d) = Inr (PDict d)"
| "py_dict w v = bind_exn (py_list v) (dict_of_pairs w)"

section \<open>The handler boundary\<close>

text \<open>
  What a handler does is the envelope it returns and the calls it made on the client, in
  order.  The body of the \<^verbatim>\<open>try\<close> statement either returns an envelope or raises;
  \<open>try_except\<close> is the clause
  \<^verbatim>\<open>except Exception as e: return {'status': 'error', 'message': str(e)}\<close>.
\<close>

record outcome =
  envelope :: pyval
  calls :: "call list"

type_synonym attempt = "(exn + pyval) \<times> call list"

definition error_envelope :: "exn \<Rightarrow> pyval" where
  "error_envelope e = PDict [(''status'', PStr ''error''), (''message'', PStr (exn_str e))]"

definition try_except :: "attempt \<Rightarrow> outcome" where
  "try_except a =
     \<lparr>envelope = (case fst a of Inl e \<Rightarrow> error_envelope e | Inr v \<Rightarrow> v), calls = snd a\<rparr>"

definition with_client :: "world \<Rightarrow> (client \<Rightarrow> attempt) \<Rightarrow> attempt" where
  \<comment> \<open>\<^verbatim>\<open>client = get_workspace_client()\<close>, then the rest of the body\<close>
  "with_client w body = (case get_workspace_client w of Inl e \<Rightarrow> (Inl e, []) | Inr c \<Rightarrow> body c)"

definition invoke :: "client \<Rightarrow> call \<Rightarrow> (pyval \<Rightarrow> exn + pyval) \<Rightarrow> attempt" where
  \<comment> \<open>one call on the client, then the reshaping of its answer\<close>
  "invoke c k post = (bind_exn (c k) post, [k])"

definition success :: "exn + pyval" where
  "success = Inr (PStr ''success'')"

text \<open>
  A call on the client followed by more of the body, for the handlers that make a second
  call.
\<close>

definition invoke_then :: "client \<Rightarrow> call \<Rightarrow> (pyval \<Rightarrow> attempt) \<Rightarrow> attempt" where
  "invoke_then c k rest =
     (case c k of Inl e \<Rightarrow> (Inl e, [k]) | Inr x \<Rightarrow> (fst (rest x), k # snd (rest x)))"

text \<open>
  An inner \<^verbatim>\<open>try\<close> statement whose handler is \<^verbatim>\<open>except Exception: return v\<close>: whatever
  the inner body raises, the handler returns \<open>v\<close>.
\<close>

definition except_return :: "attempt \<Rightarrow> pyval \<Rightarrow> attempt" where
  "except_return a v = (case fst a of Inl e \<Rightarrow> (Inr v, snd a) | Inr x \<Rightarrow> (Inr x, snd a))"


text \<open>Parameters with the default \<^verbatim>\<open>None\<close> are options; this is the value the handler sees.\<close>

definition opt_str :: "string option \<Rightarrow> pyval" where
  "opt_str x = (case x of None \<Rightarrow> PNone | Some s \<Rightarrow> PStr s)"

definition opt_int :: "int option \<Rightarrow> pyval" where
  "opt_int x = (case x of None \<Rightarrow> PNone | Some i \<Rightarrow> PInt i)"

definition opt_list :: "pyval list option \<Rightarrow> pyval" where
  "opt_list x = (case x of None \<Rightarrow> PNone | Some xs \<Rightarrow> PList xs)"

text \<open>What an f-string puts in place of \<^verbatim>\<open>{x}\<close> for such a string parameter.\<close>

definition str_opt :: "string option \<Rightarrow> string" where
  "str_opt x = (case x of None \<Rightarrow> ''None'' | Some s \<Rightarrow> s)"

text \<open>
  The assignment \<^verbatim>\<open>d[k] = v\<close>: an existing key keeps its place, a new key goes last.
\<close>

definition setitem :: "pydict \<Rightarrow> string \<Rightarrow> pyval \<Rightarrow> pydict" where
  "setitem d k v = AList.update k v d"

section \<open>Compute tools (\<^verbatim>\<open>compute.py\<close>)\<close>

text \<open>\<^verbatim>\<open>list_clusters\<close> (lines 22--57)\<close>

definition list_clusters :: "world \<Rightarrow> outcome" where
  "list_clusters w = try_except (with_client w (\<lambda>client.
     invoke client (''clusters.list'', [], []) (\<lambda>answer.
     bind_exn (py_list answer) (\<lambda>clusters.
     bind_exn (map_exn (\<lambda>cluster. dict_lit [
          (''cluster_id'', getattr cluster ''cluster_id''),
          (''cluster_name'', getattr cluster ''cluster_name''),
          (''state'', attr_if cluster ''state'' ''name''),
          (''node_type_id'', getattr cluster ''node_type_id''),
          (''driver_node_type_id'', getattr cluster ''driver_node_type_id''),
          (''num_workers'', getattr cluster ''num_workers''),
          (''autoscale'', dict_if cluster ''autoscale''),
          (''spark_version'', getattr cluster ''spark_version''),
          (''creator_user_name'', getattr cluster ''creator_user_name''),
          (''start_time'', getattr cluster ''start_time''),
          (''terminated_time'', getattr cluster ''terminated_time''),
          (''last_state_loss_time'', getattr cluster ''last_state_loss_time''),
          (''last_activity_time'', getattr cluster ''last_activity_time'')]) clusters) (\<lambda>cluster_list.
     dict_lit [
        (''status'', success),
        (''clusters'', Inr (PList cluster_list)),
        (''count'', Inr (PInt (int (length cluster_list))))])))))"

text \<open>\<^verbatim>\<open>get_cluster\<close> (lines 60--106)\<close>

definition get_cluster :: "world \<Rightarrow> string \<Rightarrow> outcome" where
  "get_cluster w cluster_id = try_except (with_client w (\<lambda>client.
     invoke client (''clusters.get'', [PStr cluster_id], []) (\<lambda>cluster.
     dict_lit [
        (''status'', success),
        (''cluster'', dict_lit [
          (''cluster_id'', getattr cluster ''cluster_id''),
          (''cluster_name'', getattr cluster ''cluster_name''),
          (''state'', attr_if cluster ''state'' ''name''),
          (''state_message'', getattr cluster ''state_message''),
          (''node_type_id'', getattr cluster ''node_type_id''),
          (''driver_node_type_id'', getattr cluster ''driver_node_type_id''),
          (''num_workers'', getattr cluster ''num_workers''),
          (''autoscale'', dict_if cluster ''autoscale''),
          (''spark_version'', getattr cluster ''spark_version''),
          (''spark_conf'', getattr cluster ''spark_conf''),
          (''aws_attributes'', dict_if cluster ''aws_attributes''),
          (''azure_attributes'', dict_if cluster ''azure_attributes''),
          (''gcp_attributes'', dict_if cluster ''gcp_attributes''),
          (''cluster_source'', attr_if cluster ''cluster_source'' ''name''),
          (''creator_user_name'', getattr cluster ''creator_user_name''),
          (''start_time'', getattr cluster ''start_time''),
          (''terminated_time'', getattr cluster ''terminated_time''),
          (''last_state_loss_time'', getattr cluster ''last_state_loss_time''),
          (''last_activity_time'', getattr cluster ''last_activity_time''),
          (''cluster_memory_mb'', getattr cluster ''cluster_memory_mb''),
          (''cluster_cores'', getattr cluster ''cluster_cores''),
          (''default_tags'', getattr cluster ''default_tags''),
          (''custom_tags'', getattr cluster ''custom_tags''),
          (''init_scripts'', dicts_if cluster ''init_scripts''),
          (''enable_elastic_disk'', getattr cluster ''enable_elastic_disk''),
          (''disk_spec'', dict_if cluster ''disk_spec''),
          (''cluster_log_conf'', dict_if cluster ''cluster_log_conf'')])])))"

text \<open>\<^verbatim>\<open>create_cluster\<close> (lines 109--130)\<close>

definition create_cluster :: "world \<Rightarrow> pydict \<Rightarrow> outcome" where
  "create_cluster w cluster_config = try_except (with_client w (\<lambda>client.
     invoke client (''clusters.create'', [], cluster_config) (\<lambda>response.
     dict_lit [
        (''status'', success),
        (''cluster_id'', getattr response ''cluster_id''),
        (''message'', bind_exn (getattr response ''cluster_id'') (\<lambda>v0. Inr (PStr (''Cluster '' @ py_str w v0 @ '' creation initiated''))))])))"

text \<open>\<^verbatim>\<open>start_cluster\<close> (lines 133--151)\<close>

definition start_cluster :: "world \<Rightarrow> string \<Rightarrow> outcome" where
  "start_cluster w cluster_id = try_except (with_client w (\<lambda>client.
     invoke client (''clusters.start'', [PStr cluster_id], []) (\<lambda>answer.
     dict_lit [
        (''status'', success),
        (''message'', Inr (PStr (''Cluster '' @ cluster_id @ '' start initiated'')))])))"

text \<open>\<^verbatim>\<open>restart_cluster\<close> (lines 154--172)\<close>

definition restart_cluster :: "world \<Rightarrow> string \<Rightarrow> outcome" where
  "restart_cluster w cluster_id = try_except (with_client w (\<lambda>client.
     invoke client (''clusters.restart'', [PStr cluster_id], []) (\<lambda>answer.
     dict_lit [
        (''status'', success),
        (''message'', Inr (PStr (''Cluster '' @ cluster_id @ '' restart initiated'')))])))"

text \<open>\<^verbatim>\<open>terminate_cluster\<close> (lines 175--193)\<close>

definition terminate_cluster :: "world \<Rightarrow> string \<Rightarrow> outcome" where
  "terminate_cluster w cluster_id = try_except (with_client w (\<lambda>client.
     invoke client (''clusters.delete'', [PStr cluster_id], []) (\<lambda>answer.
     dict_lit [
        (''status'', success),
        (''message'', Inr (PStr (''Cluster '' @ cluster_id @ '' termination initiated'')))])))"

text \<open>\<^verbatim>\<open>delete_cluster\<close> (lines 196--214)\<close>

definition delete_cluster :: "world \<Rightarrow> string \<Rightarrow> outcome" where
  "delete_cluster w cluster_id = try_except (with_client w (\<lambda>client.
     invoke client (''clusters.permanent_delete'', [PStr cluster_id], []) (\<lambda>answer.
     dict_lit [
        (''status'', success),
        (''message'', Inr (PStr (''Cluster '' @ cluster_id @ '' permanent deletion initiated'')))])))"

text \<open>
  \<^verbatim>\<open>edit_cluster\<close> (lines 217--240).  The handler assigns to the mapping the caller passed;
  the second component is that mapping when the handler returns.
\<close>

definition edit_cluster :: "world \<Rightarrow> string \<Rightarrow> pydict \<Rightarrow> outcome \<times> pydict" where
  "edit_cluster w cluster_id cluster_config =
     (case get_workspace_client w of
        Inl e \<Rightarrow> (try_except (Inl e, []), cluster_config)
      | Inr client \<Rightarrow>
          (let cluster_config = setitem cluster_config ''cluster_id'' (PStr cluster_id) in
           (try_except (invoke client (''clusters.edit'', [], cluster_config) (\<lambda>answer.
              dict_lit [
                (''status'', success),
                (''message'', Inr (PStr (''Cluster '' @ cluster_id @ '' configuration updated'')))])),
            cluster_config)))"

text \<open>\<^verbatim>\<open>get_cluster_events\<close> (lines 243--286)\<close>

definition get_cluster_events :: "world \<Rightarrow> string \<Rightarrow> int option \<Rightarrow> int option \<Rightarrow> string \<Rightarrow> int \<Rightarrow> outcome" where
  "get_cluster_events w cluster_id start_time end_time order limit = try_except (with_client w (\<lambda>client.
     invoke client (''clusters.get_events'', [], [(''cluster_id'', PStr cluster_id), (''start_time'', opt_int start_time), (''end_time'', opt_int end_time), (''order'', PStr order), (''limit'', PInt limit)]) (\<lambda>events_response.
     bind_exn (items_if events_response ''events'' (\<lambda>event. dict_lit [
          (''cluster_id'', getattr event ''cluster_id''),
          (''timestamp'', getattr event ''timestamp''),
          (''type'', attr_if event ''type'' ''name''),
          (''details'', dict_if event ''details'')])) (\<lambda>events_list.
     dict_lit [
        (''status'', success),
        (''events'', Inr (PList events_list)),
        (''count'', Inr (PInt (int (length events_list)))),
        (''next_page'', getattr events_response ''next_page''),
        (''total_count'', getattr events_response ''total_count'')]))))"

text \<open>\<^verbatim>\<open>list_instance_pools\<close> (lines 291--329)\<close>

definition list_instance_pools :: "world \<Rightarrow> outcome" where
  "list_instance_pools w = try_except (with_client w (\<lambda>client.
     invoke client (''instance_pools.list'', [], []) (\<lambda>answer.
     bind_exn (py_list answer) (\<lambda>pools.
     bind_exn (map_exn (\<lambda>pool. dict_lit [
          (''instance_pool_id'', getattr pool ''instance_pool_id''),
          (''instance_pool_name'', getattr pool ''instance_pool_name''),
          (''state'', attr_if pool ''state'' ''name''),
          (''node_type_id'', getattr pool ''node_type_id''),
          (''min_idle_instances'', getattr pool ''min_idle_instances''),
          (''max_capacity'', getattr pool ''max_capacity''),
          (''idle_instance_autotermination_minutes'', getattr pool ''idle_instance_autotermination_minutes''),
          (''enable_elastic_disk'', getattr pool ''enable_elastic_disk''),
          (''disk_spec'', dict_if pool ''disk_spec''),
          (''preloaded_spark_versions'', getattr pool ''preloaded_spark_versions''),
          (''aws_attributes'', dict_if pool ''aws_attributes''),
          (''azure_attributes'', dict_if pool ''azure_attributes''),
          (''gcp_attributes'', dict_if pool ''gcp_attributes''),
          (''custom_tags'', getattr pool ''custom_tags''),
          (''default_tags'', getattr pool ''default_tags''),
          (''stats'', dict_if pool ''stats'')]) pools) (\<lambda>pool_list.
     dict_lit [
        (''status'', success),
        (''instance_pools'', Inr (PList pool_list)),
        (''count'', Inr (PInt (int (length pool_list))))])))))"

text \<open>\<^verbatim>\<open>get_instance_pool\<close> (lines 332--368)\<close>

definition get_instance_pool :: "world \<Rightarrow> string \<Rightarrow> outcome" where
  "get_instance_pool w instance_pool_id = try_except (with_client w (\<lambda>client.
     invoke client (''instance_pools.get'', [PStr instance_pool_id], []) (\<lambda>pool.
     dict_lit [
        (''status'', success),
        (''instance_pool'', dict_lit [
          (''instance_pool_id'', getattr pool ''instance_pool_id''),
          (''instance_pool_name'', getattr pool ''instance_pool_name''),
          (''state'', attr_if pool ''state'' ''name''),
          (''node_type_id'', getattr pool ''node_type_id''),
          (''min_idle_instances'', getattr pool ''min_idle_instances''),
          (''max_capacity'', getattr pool ''max_capacity''),
          (''idle_instance_autotermination_minutes'', getattr pool ''idle_instance_autotermination_minutes''),
          (''enable_elastic_disk'', getattr pool ''enable_elastic_disk''),
          (''disk_spec'', dict_if pool ''disk_spec''),
          (''preloaded_spark_versions'', getattr pool ''preloaded_spark_versions''),
          (''preloaded_docker_images'', dicts_if pool ''preloaded_docker_images''),
          (''aws_attributes'', dict_if pool ''aws_attributes''),
          (''azure_attributes'', dict_if pool ''azure_attributes''),
          (''gcp_attributes'', dict_if pool ''gcp_attributes''),
          (''custom_tags'', getattr pool ''custom_tags''),
          (''default_tags'', getattr pool ''default_tags''),
          (''stats'', dict_if pool ''stats'')])])))"

text \<open>\<^verbatim>\<open>create_instance_pool\<close> (lines 371--391)\<close>

definition create_instance_pool :: "world \<Rightarrow> pydict \<Rightarrow> outcome" where
  "create_instance_pool w pool_config = try_except (with_client w (\<lambda>client.
     invoke client (''instance_pools.create'', [], pool_config) (\<lambda>response.
     dict_lit [
        (''status'', success),
        (''instance_pool_id'', getattr response ''instance_pool_id''),
        (''message'', bind_exn (getattr response ''instance_pool_id'') (\<lambda>v0. Inr (PStr (''Instance pool '' @ py_str w v0 @ '' created successfully''))))])))"

text \<open>\<^verbatim>\<open>edit_instance_pool\<close> (lines 394--417), with the caller's mapping as for \<^verbatim>\<open>edit_cluster\<close>\<close>

definition edit_instance_pool :: "world \<Rightarrow> string \<Rightarrow> pydict \<Rightarrow> outcome \<times> pydict" where
  "edit_instance_pool w instance_pool_id pool_config =
     (case get_workspace_client w of
        Inl e \<Rightarrow> (try_except (Inl e, []), pool_config)
      | Inr client \<Rightarrow>
          (let pool_config = setitem pool_config ''instance_pool_id'' (PStr instance_pool_id) in
           (try_except (invoke client (''instance_pools.edit'', [], pool_config) (\<lambda>answer.
              dict_lit [
                (''status'', success),
                (''message'', Inr (PStr (''Instance pool '' @ instance_pool_id @ '' updated successfully'')))])),
            pool_config)))"

text \<open>\<^verbatim>\<open>delete_instance_pool\<close> (lines 420--438)\<close>

definition delete_instance_pool :: "world \<Rightarrow> string \<Rightarrow> outcome" where
  "delete_instance_pool w instance_pool_id = try_except (with_client w (\<lambda>client.
     invoke client (''instance_pools.delete'', [PStr instance_pool_id], []) (\<lambda>answer.
     dict_lit [
        (''status'', success),
        (''message'', Inr (PStr (''Instance pool '' @ instance_pool_id @ '' deleted successfully'')))])))"

text \<open>\<^verbatim>\<open>list_cluster_libraries\<close> (lines 443--474)\<close>

definition list_cluster_libraries :: "world \<Rightarrow> string \<Rightarrow> outcome" where
  "list_cluster_libraries w cluster_id = try_except (with_client w (\<lambda>client.
     invoke client (''libraries.cluster_status'', [PStr cluster_id], []) (\<lambda>libraries.
     bind_exn (items_if libraries ''library_statuses'' (\<lambda>lib_status. dict_lit [
          (''library'', dict_if lib_status ''library''),
          (''status'', attr_if lib_status ''status'' ''name''),
          (''messages'', getattr lib_status ''messages''),
          (''is_library_for_all_clusters'', getattr lib_status ''is_library_for_all_clusters'')])) (\<lambda>library_list.
     dict_lit [
        (''status'', success),
        (''cluster_id'', getattr libraries ''cluster_id''),
        (''libraries'', Inr (PList library_list)),
        (''count'', Inr (PInt (int (length library_list))))]))))"

text \<open>\<^verbatim>\<open>install_cluster_libraries\<close> (lines 477--498)\<close>

definition install_cluster_libraries :: "world \<Rightarrow> string \<Rightarrow> pyval list \<Rightarrow> outcome" where
  "install_cluster_libraries w cluster_id libraries = try_except (with_client w (\<lambda>client.
     invoke client (''libraries.install'', [], [(''cluster_id'', PStr cluster_id), (''libraries'', PList libraries)]) (\<lambda>answer.
     dict_lit [
        (''status'', success),
        (''message'', Inr (PStr (''Libraries installation initiated on cluster '' @ cluster_id))),
        (''libraries_count'', Inr (PInt (int (length libraries))))])))"

text \<open>\<^verbatim>\<open>uninstall_cluster_libraries\<close> (lines 501--522)\<close>

definition uninstall_cluster_libraries :: "world \<Rightarrow> string \<Rightarrow> pyval list \<Rightarrow> outcome" where
  "uninstall_cluster_libraries w cluster_id libraries = try_except (with_client w (\<lambda>client.
     invoke client (''libraries.uninstall'', [], [(''cluster_id'', PStr cluster_id), (''libraries'', PList libraries)]) (\<lambda>answer.
     dict_lit [
        (''status'', success),
        (''message'', Inr (PStr (''Libraries uninstallation initiated on cluster '' @ cluster_id))),
        (''libraries_count'', Inr (PInt (int (length libraries))))])))"

text \<open>\<^verbatim>\<open>list_all_cluster_libraries\<close> (lines 525--560)\<close>

definition list_all_cluster_libraries :: "world \<Rightarrow> outcome" where
  "list_all_cluster_libraries w = try_except (with_client w (\<lambda>client.
     invoke client (''libraries.all_cluster_statuses'', [], []) (\<lambda>answer.
     bind_exn (py_list answer) (\<lambda>all_statuses.
     bind_exn (map_exn (\<lambda>status.
        bind_exn (getattr status ''cluster_id'') (\<lambda>cluster_id.
        bind_exn (items_if status ''library_statuses'' (\<lambda>lib_status. dict_lit [
          (''library'', dict_if lib_status ''library''),
          (''status'', attr_if lib_status ''status'' ''name''),
          (''messages'', getattr lib_status ''messages''),
          (''is_library_for_all_clusters'', getattr lib_status ''is_library_for_all_clusters'')])) (\<lambda>library_statuses.
        Inr (PDict [(''cluster_id'', cluster_id), (''library_statuses'', PList library_statuses)]))))
        all_statuses) (\<lambda>cluster_libraries.
     dict_lit [
        (''status'', success),
        (''cluster_libraries'', Inr (PList cluster_libraries)),
        (''clusters_count'', Inr (PInt (int (length cluster_libraries))))])))))"

text \<open>\<^verbatim>\<open>list_cluster_policies\<close> (lines 565--595)\<close>

definition list_cluster_policies :: "world \<Rightarrow> outcome" where
  "list_cluster_policies w = try_except (with_client w (\<lambda>client.
     invoke client (''cluster_policies.list'', [], []) (\<lambda>answer.
     bind_exn (py_list answer) (\<lambda>policies.
     bind_exn (map_exn (\<lambda>policy. dict_lit [
          (''policy_id'', getattr policy ''policy_id''),
          (''name'', getattr policy ''name''),
          (''definition'', getattr policy ''definition''),
          (''created_at_timestamp'', getattr policy ''created_at_timestamp''),
          (''is_default'', getattr policy ''is_default''),
          (''max_clusters_per_user'', getattr policy ''max_clusters_per_user''),
          (''policy_family_id'', getattr policy ''policy_family_id''),
          (''policy_family_definition_overrides'', getattr policy ''policy_family_definition_overrides'')]) policies) (\<lambda>policy_list.
     dict_lit [
        (''status'', success),
        (''policies'', Inr (PList policy_list)),
        (''count'', Inr (PInt (int (length policy_list))))])))))"

text \<open>\<^verbatim>\<open>get_cluster_policy\<close> (lines 598--625)\<close>

definition get_cluster_policy :: "world \<Rightarrow> string \<Rightarrow> outcome" where
  "get_cluster_policy w policy_id = try_except (with_client w (\<lambda>client.
     invoke client (''cluster_policies.get'', [PStr policy_id], []) (\<lambda>policy.
     dict_lit [
        (''status'', success),
        (''policy'', dict_lit [
          (''policy_id'', getattr policy ''policy_id''),
          (''name'', getattr policy ''name''),
          (''definition'', getattr policy ''definition''),
          (''created_at_timestamp'', getattr policy ''created_at_timestamp''),
          (''is_default'', getattr policy ''is_default''),
          (''max_clusters_per_user'', getattr policy ''max_clusters_per_user''),
          (''policy_family_id'', getattr policy ''policy_family_id''),
          (''policy_family_definition_overrides'', getattr policy ''policy_family_definition_overrides'')])])))"

text \<open>\<^verbatim>\<open>create_cluster_policy\<close> (lines 628--648)\<close>

definition create_cluster_policy :: "world \<Rightarrow> pydict \<Rightarrow> outcome" where
  "create_cluster_policy w policy_config = try_except (with_client w (\<lambda>client.
     invoke client (''cluster_policies.create'', [], policy_config) (\<lambda>response.
     dict_lit [
        (''status'', success),
        (''policy_id'', getattr response ''policy_id''),
        (''message'', bind_exn (getattr response ''policy_id'') (\<lambda>v0. Inr (PStr (''Cluster policy '' @ py_str w v0 @ '' created successfully''))))])))"

text \<open>\<^verbatim>\<open>edit_cluster_policy\<close> (lines 651--674), with the caller's mapping as for \<^verbatim>\<open>edit_cluster\<close>\<close>

definition edit_cluster_policy :: "world \<Rightarrow> string \<Rightarrow> pydict \<Rightarrow> outcome \<times> pydict" where
  "edit_cluster_policy w policy_id policy_config =
     (case get_workspace_client w of
        Inl e \<Rightarrow> (try_except (Inl e, []), policy_config)
      | Inr client \<Rightarrow>
          (let policy_config = setitem policy_config ''policy_id'' (PStr policy_id) in
           (try_except (invoke client (''cluster_policies.edit'', [], policy_config) (\<lambda>answer.
              dict_lit [
                (''status'', success),
                (''message'', Inr (PStr (''Cluster policy '' @ policy_id @ '' updated successfully'')))])),
            policy_config)))"

text \<open>\<^verbatim>\<open>delete_cluster_policy\<close> (lines 677--695)\<close>

definition delete_cluster_policy :: "world \<Rightarrow> string \<Rightarrow> outcome" where
  "delete_cluster_policy w policy_id = try_except (with_client w (\<lambda>client.
     invoke client (''cluster_policies.delete'', [PStr policy_id], []) (\<lambda>answer.
     dict_lit [
        (''status'', success),
        (''message'', Inr (PStr (''Cluster policy '' @ policy_id @ '' deleted successfully'')))])))"

text \<open>\<^verbatim>\<open>list_node_types\<close> (lines 700--735)\<close>

definition list_node_types :: "world \<Rightarrow> outcome" where
  "list_node_types w = try_except (with_client w (\<lambda>client.
     invoke client (''clusters.list_node_types'', [], []) (\<lambda>node_types.
     bind_exn (items_if node_types ''node_types'' (\<lambda>node_type. dict_lit [
          (''node_type_id'', getattr node_type ''node_type_id''),
          (''memory_mb'', getattr node_type ''memory_mb''),
          (''num_cores'', getattr node_type ''num_cores''),
          (''description'', getattr node_type ''description''),
          (''instance_type_id'', getattr node_type ''instance_type_id''),
          (''is_deprecated'', getattr node_type ''is_deprecated''),
          (''category'', getattr node_type ''category''),
          (''support_ebs_volumes'', getattr node_type ''support_ebs_volumes''),
          (''support_cluster_tags'', getattr node_type ''support_cluster_tags''),
          (''support_port_forwarding'', getattr node_type ''support_port_forwarding''),
          (''display_order'', getattr node_type ''display_order''),
          (''node_info'', dict_if node_type ''node_info'')])) (\<lambda>node_types_list.
     dict_lit [
        (''status'', success),
        (''node_types'', Inr (PList node_types_list)),
        (''count'', Inr (PInt (int (length node_types_list))))]))))"

text \<open>\<^verbatim>\<open>list_spark_versions\<close> (lines 738--763)\<close>

definition list_spark_versions :: "world \<Rightarrow> outcome" where
  "list_spark_versions w = try_except (with_client w (\<lambda>client.
     invoke client (''clusters.spark_versions'', [], []) (\<lambda>spark_versions.
     bind_exn (items_if spark_versions ''versions'' (\<lambda>version. dict_lit [
          (''key'', getattr version ''key''),
          (''name'', getattr version ''name'')])) (\<lambda>versions_list.
     dict_lit [
        (''status'', success),
        (''spark_versions'', Inr (PList versions_list)),
        (''count'', Inr (PInt (int (length versions_list))))]))))"

section \<open>Governance tools (\<^verbatim>\<open>governance.py\<close>)\<close>

text \<open>
  \<^verbatim>\<open>list_system_schemas\<close> (lines 19--67).  The listing and the reshaping stand in an inner
  \<^verbatim>\<open>try\<close> statement whose handler returns a fixed list of schemas.
\<close>

definition known_system_schemas :: pyval where
  "known_system_schemas = PDict [
     (''status'', PStr ''success''),
     (''system_schemas'', PList [
        PDict [(''name'', PStr ''access''), (''description'', PStr ''Audit logs and access information'')],
        PDict [(''name'', PStr ''billing''), (''description'', PStr ''Billing and usage information'')],
        PDict [(''name'', PStr ''compute''), (''description'', PStr ''Compute resource information'')],
        PDict [(''name'', PStr ''storage''), (''description'', PStr ''Storage usage information'')],
        PDict [(''name'', PStr ''marketplace''), (''description'', PStr ''Marketplace information'')],
        PDict [(''name'', PStr ''information_schema''), (''description'', PStr ''Information schema metadata'')]]),
     (''count'', PInt 6),
     (''message'', PStr ''Standard system schemas listed'')]"

definition list_system_schemas :: "world \<Rightarrow> outcome" where
  "list_system_schemas w = try_except (with_client w (\<lambda>client.
     except_return
       (invoke client (''schemas.list'', [], [(''catalog_name'', PStr ''system'')]) (\<lambda>answer.
        bind_exn (py_list answer) (\<lambda>schemas.
        bind_exn (map_exn (\<lambda>schema. dict_lit [
            (''name'', getattr schema ''name''),
            (''catalog_name'', getattr schema ''catalog_name''),
            (''comment'', getattr schema ''comment''),
            (''full_name'', getattr schema ''full_name''),
            (''owner'', getattr schema ''owner''),
            (''created_at'', getattr schema ''created_at''),
            (''updated_at'', getattr schema ''updated_at'')]) schemas) (\<lambda>schema_list.
        dict_lit [
          (''status'', success),
          (''system_schemas'', Inr (PList schema_list)),
          (''count'', Inr (PInt (int (length schema_list)))),
          (''message'', Inr (PStr ''System schemas retrieved successfully''))]))))
       known_system_schemas))"

text \<open>
  The handlers below submit a statement through
  \<^verbatim>\<open>client.statement_execution.execute_statement(statement=query, warehouse_id=None)\<close>.
\<close>

definition execute_statement :: "string \<Rightarrow> call" where
  "execute_statement query =
     (''statement_execution.execute_statement'', [], [(''statement'', PStr query), (''warehouse_id'', PNone)])"

text \<open>\<^verbatim>\<open>query_audit_logs\<close> (lines 69--135); the text of the query is built in lines 86--116.\<close>

definition audit_logs_conditions :: "string \<Rightarrow> string \<Rightarrow> string option \<Rightarrow> string option \<Rightarrow> string list" where
  "audit_logs_conditions start_date end_date service_name action_name =
     (let where_conditions = [
            ''event_date >= '' @ quoted start_date,
            ''event_date <= '' @ quoted end_date];
          where_conditions =
            (if truthy (opt_str service_name)
             then where_conditions @ [''service_name = '' @ quoted (str_opt service_name)]
             else where_conditions);
          where_conditions =
            (if truthy (opt_str action_name)
             then where_conditions @ [''action_name = '' @ quoted (str_opt action_name)]
             else where_conditions)
      in where_conditions)"

definition audit_logs_query :: "string \<Rightarrow> string \<Rightarrow> string option \<Rightarrow> string option \<Rightarrow> int \<Rightarrow> string" where
  "audit_logs_query start_date end_date service_name action_name limit =
     (let where_clause = py_join '' AND '' (audit_logs_conditions start_date end_date service_name action_name)
      in text_lines [
       '''',
       ''            SELECT '',
       ''                event_time,'',
       ''                event_date,'',
       ''                workspace_id,'',
       ''                account_id,'',
       ''                user_identity,'',
       ''                service_name,'',
       ''                action_name,'',
       ''                request_id,'',
       ''                response,'',
       ''                source_ip_address,'',
       ''                user_agent'',
       ''            FROM system.access.audit'',
       ''            WHERE '' @ where_clause,
       ''            ORDER BY event_time DESC'',
       ''            LIMIT '' @ str_int limit,
       ''            ''])"

definition query_audit_logs :: "world \<Rightarrow> string \<Rightarrow> string \<Rightarrow> string option \<Rightarrow> string option \<Rightarrow> int \<Rightarrow> outcome" where
  "query_audit_logs w start_date end_date service_name action_name limit = try_except (with_client w (\<lambda>client.
     invoke client (execute_statement (audit_logs_query start_date end_date service_name action_name limit)) (\<lambda>result.
     dict_lit [
        (''status'', success),
        (''query'', Inr (PStr (audit_logs_query start_date end_date service_name action_name limit))),
        (''start_date'', Inr (PStr start_date)),
        (''end_date'', Inr (PStr end_date)),
        (''service_name'', Inr (opt_str service_name)),
        (''action_name'', Inr (opt_str action_name)),
        (''statement_id'', getattr result ''statement_id''),
        (''message'', Inr (PStr ''Audit log query executed successfully''))])))"

text \<open>
  \<^verbatim>\<open>query_table_lineage\<close> (lines 137--196).  With neither direction asked for, the handler
  returns an error envelope of its own before any statement is built.
\<close>

definition lineage_conditions :: "string \<Rightarrow> bool \<Rightarrow> bool \<Rightarrow> string list" where
  "lineage_conditions table_name upstream downstream =
     (let lineage_conditions = [];
          lineage_conditions =
            (if upstream
             then lineage_conditions @ [''target_table_full_name = '' @ quoted table_name]
             else lineage_conditions);
          lineage_conditions =
            (if downstream
             then lineage_conditions @ [''source_table_full_name = '' @ quoted table_name]
             else lineage_conditions)
      in lineage_conditions)"

definition table_lineage_query :: "string \<Rightarrow> bool \<Rightarrow> bool \<Rightarrow> string" where
  "table_lineage_query table_name upstream downstream =
     (let where_clause = py_join '' OR '' (lineage_conditions table_name upstream downstream)
      in text_lines [
       '''',
       ''            SELECT '',
       ''                source_table_full_name,'',
       ''                target_table_full_name,'',
       ''                source_table_catalog,'',
       ''                source_table_schema,'',
       ''                source_table_name,'',
       ''                target_table_catalog,'',
       ''                target_table_schema,'',
       ''                target_table_name,'',
       ''                created_at,'',
       ''                created_by'',
       ''            FROM system.access.table_lineage'',
       ''            WHERE '' @ where_clause,
       ''            ORDER BY created_at DESC'',
       ''            ''])"

definition query_table_lineage :: "world \<Rightarrow> string \<Rightarrow> bool \<Rightarrow> bool \<Rightarrow> outcome" where
  "query_table_lineage w table_name upstream downstream = try_except (with_client w (\<lambda>client.
     if lineage_conditions table_name upstream downstream = []
     then (Inr (PDict [
             (''status'', PStr ''error''),
             (''message'', PStr ''Must specify upstream or downstream lineage'')]), [])
     else
     invoke client (execute_statement (table_lineage_query table_name upstream downstream)) (\<lambda>result.
     dict_lit [
        (''status'', success),
        (''table_name'', Inr (PStr table_name)),
        (''query'', Inr (PStr (table_lineage_query table_name upstream downstream))),
        (''upstream'', Inr (PBool upstream)),
        (''downstream'', Inr (PBool downstream)),
        (''statement_id'', getattr result ''statement_id''),
        (''message'', Inr (PStr ''Table lineage query executed successfully''))])))"

text \<open>\<^verbatim>\<open>query_column_lineage\<close> (lines 198--249)\<close>

definition column_lineage_conditions :: "string \<Rightarrow> string option \<Rightarrow> string list" where
  "column_lineage_conditions table_name column_name =
     (let where_conditions = [
            ''(source_table_full_name = '' @ quoted table_name @ '' OR target_table_full_name = '' @ quoted table_name @ '')''];
          where_conditions =
            (if truthy (opt_str column_name)
             then where_conditions @ [
               ''(source_column_name = '' @ quoted (str_opt column_name) @ '' OR target_column_name = '' @ quoted (str_opt column_name) @ '')'']
             else where_conditions)
      in where_conditions)"

definition column_lineage_query :: "string \<Rightarrow> string option \<Rightarrow> string" where
  "column_lineage_query table_name column_name =
     (let where_clause = py_join '' AND '' (column_lineage_conditions table_name column_name)
      in text_lines [
       '''',
       ''            SELECT '',
       ''                source_table_full_name,'',
       ''                source_column_name,'',
       ''                target_table_full_name,'',
       ''                target_column_name,'',
       ''                created_at,'',
       ''                created_by'',
       ''            FROM system.access.column_lineage'',
       ''            WHERE '' @ where_clause,
       ''            ORDER BY created_at DESC'',
       ''            ''])"

definition query_column_lineage :: "world \<Rightarrow> string \<Rightarrow> string option \<Rightarrow> outcome" where
  "query_column_lineage w table_name column_name = try_except (with_client w (\<lambda>client.
     invoke client (execute_statement (column_lineage_query table_name column_name)) (\<lambda>result.
     dict_lit [
        (''status'', success),
        (''table_name'', Inr (PStr table_name)),
        (''column_name'', Inr (opt_str column_name)),
        (''query'', Inr (PStr (column_lineage_query table_name column_name))),
        (''statement_id'', getattr result ''statement_id''),
        (''message'', Inr (PStr ''Column lineage query executed successfully''))])))"

text \<open>\<^verbatim>\<open>query_table_usage\<close> (lines 253--303)\<close>

definition table_usage_query :: "string \<Rightarrow> int \<Rightarrow> string" where
  "table_usage_query table_name days =
     text_lines [
       '''',
       ''            SELECT '',
       ''                table_name,'',
       ''                read_count,'',
       ''                write_count,'',
       ''                last_accessed,'',
       ''                accessed_by_users'',
       ''            FROM ('',
       ''                SELECT '',
       ''                    '' @ quoted table_name @ '' as table_name,'',
       ''                    COUNT(CASE WHEN action_name LIKE '' @ quoted ''%READ%'' @ '' THEN 1 END) as read_count,'',
       ''                    COUNT(CASE WHEN action_name LIKE '' @ quoted ''%WRITE%'' @ '' THEN 1 END) as write_count,'',
       ''                    MAX(event_time) as last_accessed,'',
       ''                    COUNT(DISTINCT user_identity.email) as accessed_by_users'',
       ''                FROM system.access.audit'',
       ''                WHERE event_date >= DATE_SUB(CURRENT_DATE(), '' @ str_int days @ '')'',
       ''                AND (request_params.table_full_name = '' @ quoted table_name @ '' '',
       ''                     OR request_params.table_full_name LIKE '' @ quoted (''%'' @ table_name @ ''%'') @ '')'',
       ''            )'',
       ''            '']"

definition query_table_usage :: "world \<Rightarrow> string \<Rightarrow> int \<Rightarrow> outcome" where
  "query_table_usage w table_name days = try_except (with_client w (\<lambda>client.
     invoke client (execute_statement (table_usage_query table_name days)) (\<lambda>result.
     dict_lit [
        (''status'', success),
        (''table_name'', Inr (PStr table_name)),
        (''days'', Inr (PInt days)),
        (''query'', Inr (PStr (table_usage_query table_name days))),
        (''statement_id'', getattr result ''statement_id''),
        (''message'', Inr (PStr ''Table usage query executed successfully''))])))"

text \<open>\<^verbatim>\<open>query_workspace_objects\<close> (lines 305--357)\<close>

definition workspace_objects_conditions :: "string option \<Rightarrow> int \<Rightarrow> string list" where
  "workspace_objects_conditions object_type created_days =
     (let where_conditions = [
            ''event_date >= DATE_SUB(CURRENT_DATE(), '' @ str_int created_days @ '')'',
            ''action_name = '' @ quoted ''create''];
          where_conditions =
            (if truthy (opt_str object_type)
             then where_conditions @ [''request_params.object_type = '' @ quoted (str_opt object_type)]
             else where_conditions)
      in where_conditions)"

definition workspace_objects_query :: "string option \<Rightarrow> int \<Rightarrow> string" where
  "workspace_objects_query object_type created_days =
     (let where_clause = py_join '' AND '' (workspace_objects_conditions object_type created_days)
      in text_lines [
       '''',
       ''            SELECT '',
       ''                event_time,'',
       ''                user_identity.email as creator,'',
       ''                request_params.object_type,'',
       ''                request_params.path,'',
       ''                request_params.object_id,'',
       ''                service_name'',
       ''            FROM system.access.audit'',
       ''            WHERE '' @ where_clause,
       ''            ORDER BY event_time DESC'',
       ''            ''])"

definition query_workspace_objects :: "world \<Rightarrow> string option \<Rightarrow> int \<Rightarrow> outcome" where
  "query_workspace_objects w object_type created_days = try_except (with_client w (\<lambda>client.
     invoke client (execute_statement (workspace_objects_query object_type created_days)) (\<lambda>result.
     dict_lit [
        (''status'', success),
        (''object_type'', Inr (opt_str object_type)),
        (''created_days'', Inr (PInt created_days)),
        (''query'', Inr (PStr (workspace_objects_query object_type created_days))),
        (''statement_id'', getattr result ''statement_id''),
        (''message'', Inr (PStr ''Workspace objects query executed successfully''))])))"

text \<open>\<^verbatim>\<open>query_permissions_changes\<close> (lines 361--415)\<close>

definition permissions_changes_conditions :: "string option \<Rightarrow> int \<Rightarrow> string list" where
  "permissions_changes_conditions principal' days =
     (let where_conditions = [
            ''event_date >= DATE_SUB(CURRENT_DATE(), '' @ str_int days @ '')'',
            ''action_name IN ('' @ quoted ''grant'' @ '', '' @ quoted ''revoke'' @ '', ''
              @ quoted ''update_permissions'' @ '', '' @ quoted ''set_permissions'' @ '')''];
          where_conditions =
            (if truthy (opt_str principal')
             then where_conditions @ [
               ''(user_identity.email = '' @ quoted (str_opt principal') @ '' OR request_params.principal_name = '' @ quoted (str_opt principal') @ '')'']
             else where_conditions)
      in where_conditions)"

definition permissions_changes_query :: "string option \<Rightarrow> int \<Rightarrow> string" where
  "permissions_changes_query principal' days =
     (let where_clause = py_join '' AND '' (permissions_changes_conditions principal' days)
      in text_lines [
       '''',
       ''            SELECT '',
       ''                event_time,'',
       ''                user_identity.email as changed_by,'',
       ''                action_name,'',
       ''                request_params.principal_name as affected_principal,'',
       ''                request_params.permission_level,'',
       ''                request_params.object_type,'',
       ''                request_params.object_id,'',
       ''                service_name'',
       ''            FROM system.access.audit'',
       ''            WHERE '' @ where_clause,
       ''            ORDER BY event_time DESC'',
       ''            ''])"

definition query_permissions_changes :: "world \<Rightarrow> string option \<Rightarrow> int \<Rightarrow> outcome" where
  "query_permissions_changes w principal' days = try_except (with_client w (\<lambda>client.
     invoke client (execute_statement (permissions_changes_query principal' days)) (\<lambda>result.
     dict_lit [
        (''status'', success),
        (''principal'', Inr (opt_str principal')),
        (''days'', Inr (PInt days)),
        (''query'', Inr (PStr (permissions_changes_query principal' days))),
        (''statement_id'', getattr result ''statement_id''),
        (''message'', Inr (PStr ''Permission changes query executed successfully''))])))"

text \<open>\<^verbatim>\<open>query_compute_usage\<close> (lines 419--476)\<close>

definition compute_usage_conditions :: "string \<Rightarrow> string \<Rightarrow> string option \<Rightarrow> string list" where
  "compute_usage_conditions start_date end_date cluster_id =
     (let where_conditions = [
            ''usage_date >= '' @ quoted start_date,
            ''usage_date <= '' @ quoted end_date];
          where_conditions =
            (if truthy (opt_str cluster_id)
             then where_conditions @ [''cluster_id = '' @ quoted (str_opt cluster_id)]
             else where_conditions)
      in where_conditions)"

definition compute_usage_query :: "string \<Rightarrow> string \<Rightarrow> string option \<Rightarrow> string" where
  "compute_usage_query start_date end_date cluster_id =
     (let where_clause = py_join '' AND '' (compute_usage_conditions start_date end_date cluster_id)
      in text_lines [
       '''',
       ''            SELECT '',
       ''                usage_date,'',
       ''                cluster_id,'',
       ''                cluster_name,'',
       ''                node_type,'',
       ''                usage_quantity,'',
       ''                usage_unit,'',
       ''                list_price,'',
       ''                usage_metadata'',
       ''            FROM system.billing.usage'',
       ''            WHERE '' @ where_clause,
       ''            AND usage_metadata.cluster_id IS NOT NULL'',
       ''            ORDER BY usage_date DESC, usage_quantity DESC'',
       ''            ''])"

definition query_compute_usage :: "world \<Rightarrow> string \<Rightarrow> string \<Rightarrow> string option \<Rightarrow> outcome" where
  "query_compute_usage w start_date end_date cluster_id = try_except (with_client w (\<lambda>client.
     invoke client (execute_statement (compute_usage_query start_date end_date cluster_id)) (\<lambda>result.
     dict_lit [
        (''status'', success),
        (''start_date'', Inr (PStr start_date)),
        (''end_date'', Inr (PStr end_date)),
        (''cluster_id'', Inr (opt_str cluster_id)),
        (''query'', Inr (PStr (compute_usage_query start_date end_date cluster_id))),
        (''statement_id'', getattr result ''statement_id''),
        (''message'', Inr (PStr ''Compute usage query executed successfully''))])))"

text \<open>\<^verbatim>\<open>query_storage_usage\<close> (lines 478--522)\<close>

definition storage_usage_query :: "string \<Rightarrow> string \<Rightarrow> string" where
  "storage_usage_query start_date end_date =
     text_lines [
       '''',
       ''            SELECT '',
       ''                usage_date,'',
       ''                storage_type,'',
       ''                SUM(usage_quantity) as total_storage_tb,'',
       ''                SUM(list_price) as total_cost_usd,'',
       ''                COUNT(*) as usage_records'',
       ''            FROM system.billing.usage'',
       ''            WHERE usage_date >= '' @ quoted start_date,
       ''            AND usage_date <= '' @ quoted end_date,
       ''            AND usage_metadata.storage_type IS NOT NULL'',
       ''            GROUP BY usage_date, storage_type'',
       ''            ORDER BY usage_date DESC, total_storage_tb DESC'',
       ''            '']"

definition query_storage_usage :: "world \<Rightarrow> string \<Rightarrow> string \<Rightarrow> outcome" where
  "query_storage_usage w start_date end_date = try_except (with_client w (\<lambda>client.
     invoke client (execute_statement (storage_usage_query start_date end_date)) (\<lambda>result.
     dict_lit [
        (''status'', success),
        (''start_date'', Inr (PStr start_date)),
        (''end_date'', Inr (PStr end_date)),
        (''query'', Inr (PStr (storage_usage_query start_date end_date))),
        (''statement_id'', getattr result ''statement_id''),
        (''message'', Inr (PStr ''Storage usage query executed successfully''))])))"

text \<open>
  \<^verbatim>\<open>list_quality_monitors\<close> (lines 526--567).  The loop skips the monitors outside the
  catalog asked for; the test reads \<^verbatim>\<open>monitor.table_name.startswith(...)\<close> and is made only
  when a catalog is given.
\<close>

fun quality_monitors_loop :: "string option \<Rightarrow> pyval list \<Rightarrow> exn + pyval list" where
  "quality_monitors_loop catalog_name [] = Inr []"
| "quality_monitors_loop catalog_name (monitor # monitors) =
     bind_exn
       (if truthy (opt_str catalog_name)
        then bind_exn (getattr monitor ''table_name'') (\<lambda>table_name.
             bind_exn (startswith table_name (str_opt catalog_name @ ''.'')) (\<lambda>b. Inr (\<not> b)))
        else Inr False) (\<lambda>skip.
     if skip then quality_monitors_loop catalog_name monitors
     else
       bind_exn (dict_lit [
          (''table_name'', getattr monitor ''table_name''),
          (''monitor_version'', getattr monitor ''monitor_version''),
          (''status'', getattr monitor ''status''),
          (''profile_type'', getattr monitor ''profile_type''),
          (''output_schema_name'', getattr monitor ''output_schema_name''),
          (''created_by'', getattr monitor ''created_by''),
          (''created_time'', getattr monitor ''created_time''),
          (''updated_by'', getattr monitor ''updated_by''),
          (''updated_time'', getattr monitor ''updated_time'')]) (\<lambda>monitor_info.
       bind_exn (quality_monitors_loop catalog_name monitors) (\<lambda>monitor_list.
       Inr (monitor_info # monitor_list))))"

definition list_quality_monitors :: "world \<Rightarrow> string option \<Rightarrow> outcome" where
  "list_quality_monitors w catalog_name = try_except (with_client w (\<lambda>client.
     invoke client (''quality_monitors.list'', [], []) (\<lambda>answer.
     bind_exn (py_list answer) (\<lambda>monitors.
     bind_exn (quality_monitors_loop catalog_name monitors) (\<lambda>monitor_list.
     dict_lit [
        (''status'', success),
        (''catalog_name'', Inr (opt_str catalog_name)),
        (''monitors'', Inr (PList monitor_list)),
        (''count'', Inr (PInt (int (length monitor_list))))])))))"

text \<open>\<^verbatim>\<open>get_quality_monitor_status\<close> (lines 570--601)\<close>

definition get_quality_monitor_status :: "world \<Rightarrow> string \<Rightarrow> outcome" where
  "get_quality_monitor_status w table_name = try_except (with_client w (\<lambda>client.
     invoke client (''quality_monitors.get'', [PStr table_name], []) (\<lambda>monitor.
     dict_lit [
        (''status'', success),
        (''monitor'', dict_lit [
          (''table_name'', getattr monitor ''table_name''),
          (''monitor_version'', getattr monitor ''monitor_version''),
          (''status'', getattr monitor ''status''),
          (''profile_type'', getattr monitor ''profile_type''),
          (''output_schema_name'', getattr monitor ''output_schema_name''),
          (''created_by'', getattr monitor ''created_by''),
          (''created_time'', getattr monitor ''created_time''),
          (''updated_by'', getattr monitor ''updated_by''),
          (''updated_time'', getattr monitor ''updated_time''),
          (''drift_metrics_table_name'', getattr monitor ''drift_metrics_table_name''),
          (''profile_metrics_table_name'', getattr monitor ''profile_metrics_table_name'')])])))"

section \<open>MLflow tools (\<^verbatim>\<open>mlflow.py\<close>)\<close>

text \<open>\<^verbatim>\<open>list_models\<close> (lines 20--49)\<close>

definition list_models :: "world \<Rightarrow> outcome" where
  "list_models w = try_except (with_client w (\<lambda>client.
     invoke client (''model_registry.list_models'', [], []) (\<lambda>answer.
     bind_exn (py_list answer) (\<lambda>models.
     bind_exn (map_exn (\<lambda>model. dict_lit [
          (''name'', getattr model ''name''),
          (''creation_timestamp'', getattr model ''creation_timestamp''),
          (''last_updated_timestamp'', getattr model ''last_updated_timestamp''),
          (''user_id'', getattr model ''user_id''),
          (''description'', getattr model ''description''),
          (''latest_versions'', dicts_if model ''latest_versions''),
          (''tags'', dicts_if model ''tags'')]) models) (\<lambda>model_list.
     dict_lit [
        (''status'', success),
        (''models'', Inr (PList model_list)),
        (''count'', Inr (PInt (int (length model_list))))])))))"

text \<open>\<^verbatim>\<open>get_model\<close> (lines 52--78)\<close>

definition get_model :: "world \<Rightarrow> string \<Rightarrow> outcome" where
  "get_model w model_name = try_except (with_client w (\<lambda>client.
     invoke client (''model_registry.get_model'', [PStr model_name], []) (\<lambda>model.
     dict_lit [
        (''status'', success),
        (''model'', dict_lit [
          (''name'', getattr model ''name''),
          (''creation_timestamp'', getattr model ''creation_timestamp''),
          (''last_updated_timestamp'', getattr model ''last_updated_timestamp''),
          (''user_id'', getattr model ''user_id''),
          (''description'', getattr model ''description''),
          (''latest_versions'', dicts_if model ''latest_versions''),
          (''tags'', dicts_if model ''tags'')])])))"

text \<open>\<^verbatim>\<open>create_model\<close> (lines 81--110)\<close>

definition create_model :: "world \<Rightarrow> string \<Rightarrow> string option \<Rightarrow> pyval list option \<Rightarrow> outcome" where
  "create_model w model_name description tags = try_except (with_client w (\<lambda>client.
     (let create_config = [(''name'', PStr model_name)];
          create_config = (if truthy (opt_str description) then setitem create_config ''description'' (opt_str description) else create_config);
          create_config = (if truthy (opt_list tags) then setitem create_config ''tags'' (opt_list tags) else create_config)
      in
     invoke client (''model_registry.create_model'', [], create_config) (\<lambda>model.
     dict_lit [
        (''status'', success),
        (''model_name'', getattr model ''name''),
        (''creation_timestamp'', getattr model ''creation_timestamp''),
        (''message'', Inr (PStr (''Model '' @ model_name @ '' created successfully'')))]))))"

text \<open>\<^verbatim>\<open>update_model\<close> (lines 113--138)\<close>

definition update_model :: "world \<Rightarrow> string \<Rightarrow> string option \<Rightarrow> outcome" where
  "update_model w model_name description = try_except (with_client w (\<lambda>client.
     (let update_config = [(''name'', PStr model_name)];
          update_config = (if truthy (opt_str description) then setitem update_config ''description'' (opt_str description) else update_config)
      in
     invoke client (''model_registry.update_model'', [], update_config) (\<lambda>answer.
     dict_lit [
        (''status'', success),
        (''model_name'', Inr (PStr model_name)),
        (''message'', Inr (PStr (''Model '' @ model_name @ '' updated successfully'')))]))))"

text \<open>\<^verbatim>\<open>delete_model\<close> (lines 141--160)\<close>

definition delete_model :: "world \<Rightarrow> string \<Rightarrow> outcome" where
  "delete_model w model_name = try_except (with_client w (\<lambda>client.
     invoke client (''model_registry.delete_model'', [PStr model_name], []) (\<lambda>answer.
     dict_lit [
        (''status'', success),
        (''model_name'', Inr (PStr model_name)),
        (''message'', Inr (PStr (''Model '' @ model_name @ '' deleted successfully'')))])))"

text \<open>\<^verbatim>\<open>list_model_versions\<close> (lines 165--203)\<close>

definition list_model_versions :: "world \<Rightarrow> string \<Rightarrow> outcome" where
  "list_model_versions w model_name = try_except (with_client w (\<lambda>client.
     invoke client (''model_registry.list_model_versions'', [PStr model_name], []) (\<lambda>answer.
     bind_exn (py_list answer) (\<lambda>versions.
     bind_exn (map_exn (\<lambda>version. dict_lit [
          (''name'', getattr version ''name''),
          (''version'', getattr version ''version''),
          (''creation_timestamp'', getattr version ''creation_timestamp''),
          (''last_updated_timestamp'', getattr version ''last_updated_timestamp''),
          (''user_id'', getattr version ''user_id''),
          (''description'', getattr version ''description''),
          (''source'', getattr version ''source''),
          (''run_id'', getattr version ''run_id''),
          (''status'', getattr version ''status''),
          (''status_message'', getattr version ''status_message''),
          (''current_stage'', getattr version ''current_stage''),
          (''tags'', dicts_if version ''tags'')]) versions) (\<lambda>version_list.
     dict_lit [
        (''status'', success),
        (''model_name'', Inr (PStr model_name)),
        (''versions'', Inr (PList version_list)),
        (''count'', Inr (PInt (int (length version_list))))])))))"

text \<open>\<^verbatim>\<open>get_model_version\<close> (lines 206--238)\<close>

definition get_model_version :: "world \<Rightarrow> string \<Rightarrow> string \<Rightarrow> outcome" where
  "get_model_version w model_name version = try_except (with_client w (\<lambda>client.
     invoke client (''model_registry.get_model_version'', [PStr model_name, PStr version], []) (\<lambda>model_version.
     dict_lit [
        (''status'', success),
        (''model_version'', dict_lit [
          (''name'', getattr model_version ''name''),
          (''version'', getattr model_version ''version''),
          (''creation_timestamp'', getattr model_version ''creation_timestamp''),
          (''last_updated_timestamp'', getattr model_version ''last_updated_timestamp''),
          (''user_id'', getattr model_version ''user_id''),
          (''description'', getattr model_version ''description''),
          (''source'', getattr model_version ''source''),
          (''run_id'', getattr model_version ''run_id''),
          (''status'', getattr model_version ''status''),
          (''status_message'', getattr model_version ''status_message''),
          (''current_stage'', getattr model_version ''current_stage''),
          (''tags'', dicts_if model_version ''tags'')])])))"

text \<open>\<^verbatim>\<open>create_model_version\<close> (lines 241--278)\<close>

definition create_model_version :: "world \<Rightarrow> string \<Rightarrow> string \<Rightarrow> string option \<Rightarrow> string option \<Rightarrow> pyval list option \<Rightarrow> outcome" where
  "create_model_version w model_name source run_id description tags = try_except (with_client w (\<lambda>client.
     (let create_config = [(''name'', PStr model_name), (''source'', PStr source)];
          create_config = (if truthy (opt_str run_id) then setitem create_config ''run_id'' (opt_str run_id) else create_config);
          create_config = (if truthy (opt_str description) then setitem create_config ''description'' (opt_str description) else create_config);
          create_config = (if truthy (opt_list tags) then setitem create_config ''tags'' (opt_list tags) else create_config)
      in
     invoke client (''model_registry.create_model_version'', [], create_config) (\<lambda>version.
     dict_lit [
        (''status'', success),
        (''model_name'', Inr (PStr model_name)),
        (''version'', getattr version ''version''),
        (''source'', Inr (PStr source)),
        (''message'', bind_exn (getattr version ''version'') (\<lambda>v0. Inr (PStr (''Model version '' @ py_str w v0 @ '' created successfully for '' @ model_name))))]))))"

text \<open>
  \<^verbatim>\<open>update_model_version\<close> (lines 281--321): the update, then the stage transition as a
  second call when a stage is given.
\<close>

definition update_model_version :: "world \<Rightarrow> string \<Rightarrow> string \<Rightarrow> string option \<Rightarrow> string option \<Rightarrow> outcome" where
  "update_model_version w model_name version description stage = try_except (with_client w (\<lambda>client.
     (let update_config = [(''name'', PStr model_name), (''version'', PStr version)];
          update_config = (if truthy (opt_str description) then setitem update_config ''description'' (opt_str description) else update_config);
          result = dict_lit [
            (''status'', success),
            (''model_name'', Inr (PStr model_name)),
            (''version'', Inr (PStr version)),
            (''stage'', Inr (opt_str stage)),
            (''message'', Inr (PStr (''Model version '' @ version @ '' updated successfully for '' @ model_name)))]
      in
     invoke_then client (''model_registry.update_model_version'', [], update_config) (\<lambda>answer.
     if truthy (opt_str stage)
     then invoke client (''model_registry.transition_model_version_stage'', [],
            [(''name'', PStr model_name), (''version'', PStr version), (''stage'', opt_str stage)]) (\<lambda>answer. result)
     else (result, [])))))"

text \<open>\<^verbatim>\<open>delete_model_version\<close> (lines 324--345)\<close>

definition delete_model_version :: "world \<Rightarrow> string \<Rightarrow> string \<Rightarrow> outcome" where
  "delete_model_version w model_name version = try_except (with_client w (\<lambda>client.
     invoke client (''model_registry.delete_model_version'', [PStr model_name, PStr version], []) (\<lambda>answer.
     dict_lit [
        (''status'', success),
        (''model_name'', Inr (PStr model_name)),
        (''version'', Inr (PStr version)),
        (''message'', Inr (PStr (''Model version '' @ version @ '' deleted successfully from '' @ model_name)))])))"

text \<open>\<^verbatim>\<open>transition_model_version_stage\<close> (lines 348--381)\<close>

definition transition_model_version_stage :: "world \<Rightarrow> string \<Rightarrow> string \<Rightarrow> string \<Rightarrow> bool \<Rightarrow> outcome" where
  "transition_model_version_stage w model_name version stage archive_existing_versions = try_except (with_client w (\<lambda>client.
     (let transition_config = [(''name'', PStr model_name), (''version'', PStr version), (''stage'', PStr stage), (''archive_existing_versions'', PBool archive_existing_versions)]
      in
     invoke client (''model_registry.transition_model_version_stage'', [], transition_config) (\<lambda>version_result.
     dict_lit [
        (''status'', success),
        (''model_name'', Inr (PStr model_name)),
        (''version'', Inr (PStr version)),
        (''stage'', Inr (PStr stage)),
        (''current_stage'', getattr version_result ''current_stage''),
        (''message'', Inr (PStr (''Model version '' @ version @ '' transitioned to '' @ stage @ '' stage for '' @ model_name)))]))))"

text \<open>\<^verbatim>\<open>list_experiments\<close> (lines 386--415)\<close>

definition list_experiments :: "world \<Rightarrow> outcome" where
  "list_experiments w = try_except (with_client w (\<lambda>client.
     invoke client (''experiments.list_experiments'', [], []) (\<lambda>answer.
     bind_exn (py_list answer) (\<lambda>experiments.
     bind_exn (map_exn (\<lambda>experiment. dict_lit [
          (''experiment_id'', getattr experiment ''experiment_id''),
          (''name'', getattr experiment ''name''),
          (''artifact_location'', getattr experiment ''artifact_location''),
          (''lifecycle_stage'', getattr experiment ''lifecycle_stage''),
          (''last_update_time'', getattr experiment ''last_update_time''),
          (''creation_time'', getattr experiment ''creation_time''),
          (''tags'', dicts_if experiment ''tags'')]) experiments) (\<lambda>experiment_list.
     dict_lit [
        (''status'', success),
        (''experiments'', Inr (PList experiment_list)),
        (''count'', Inr (PInt (int (length experiment_list))))])))))"

text \<open>\<^verbatim>\<open>get_experiment\<close> (lines 418--444)\<close>

definition get_experiment :: "world \<Rightarrow> string \<Rightarrow> outcome" where
  "get_experiment w experiment_id = try_except (with_client w (\<lambda>client.
     invoke client (''experiments.get_experiment'', [PStr experiment_id], []) (\<lambda>experiment.
     dict_lit [
        (''status'', success),
        (''experiment'', dict_lit [
          (''experiment_id'', getattr experiment ''experiment_id''),
          (''name'', getattr experiment ''name''),
          (''artifact_location'', getattr experiment ''artifact_location''),
          (''lifecycle_stage'', getattr experiment ''lifecycle_stage''),
          (''last_update_time'', getattr experiment ''last_update_time''),
          (''creation_time'', getattr experiment ''creation_time''),
          (''tags'', dicts_if experiment ''tags'')])])))"

text \<open>\<^verbatim>\<open>create_experiment\<close> (lines 447--476)\<close>

definition create_experiment :: "world \<Rightarrow> string \<Rightarrow> string option \<Rightarrow> pyval list option \<Rightarrow> outcome" where
  "create_experiment w name artifact_location tags = try_except (with_client w (\<lambda>client.
     (let create_config = [(''name'', PStr name)];
          create_config = (if truthy (opt_str artifact_location) then setitem create_config ''artifact_location'' (opt_str artifact_location) else create_config);
          create_config = (if truthy (opt_list tags) then setitem create_config ''tags'' (opt_list tags) else create_config)
      in
     invoke client (''experiments.create_experiment'', [], create_config) (\<lambda>experiment_id.
     dict_lit [
        (''status'', success),
        (''experiment_id'', Inr (experiment_id)),
        (''name'', Inr (PStr name)),
        (''message'', Inr (PStr (''Experiment '' @ name @ '' created successfully'')))]))))"

text \<open>\<^verbatim>\<open>update_experiment\<close> (lines 479--505)\<close>

definition update_experiment :: "world \<Rightarrow> string \<Rightarrow> string option \<Rightarrow> outcome" where
  "update_experiment w experiment_id new_name = try_except (with_client w (\<lambda>client.
     (let update_config = [(''experiment_id'', PStr experiment_id)];
          update_config = (if truthy (opt_str new_name) then setitem update_config ''new_name'' (opt_str new_name) else update_config)
      in
     invoke client (''experiments.update_experiment'', [], update_config) (\<lambda>answer.
     dict_lit [
        (''status'', success),
        (''experiment_id'', Inr (PStr experiment_id)),
        (''new_name'', Inr (opt_str new_name)),
        (''message'', Inr (PStr (''Experiment '' @ experiment_id @ '' updated successfully'')))]))))"

text \<open>\<^verbatim>\<open>delete_experiment\<close> (lines 508--527)\<close>

definition delete_experiment :: "world \<Rightarrow> string \<Rightarrow> outcome" where
  "delete_experiment w experiment_id = try_except (with_client w (\<lambda>client.
     invoke client (''experiments.delete_experiment'', [PStr experiment_id], []) (\<lambda>answer.
     dict_lit [
        (''status'', success),
        (''experiment_id'', Inr (PStr experiment_id)),
        (''message'', Inr (PStr (''Experiment '' @ experiment_id @ '' deleted successfully'')))])))"

text \<open>\<^verbatim>\<open>restore_experiment\<close> (lines 530--549)\<close>

definition restore_experiment :: "world \<Rightarrow> string \<Rightarrow> outcome" where
  "restore_experiment w experiment_id = try_except (with_client w (\<lambda>client.
     invoke client (''experiments.restore_experiment'', [PStr experiment_id], []) (\<lambda>answer.
     dict_lit [
        (''status'', success),
        (''experiment_id'', Inr (PStr experiment_id)),
        (''message'', Inr (PStr (''Experiment '' @ experiment_id @ '' restored successfully'')))])))"

text \<open>\<^verbatim>\<open>search_runs\<close> (lines 554--608)\<close>

definition search_runs :: "world \<Rightarrow> pyval list \<Rightarrow> string option \<Rightarrow> string \<Rightarrow> int \<Rightarrow> outcome" where
  "search_runs w experiment_ids filter_string run_view_type max_results = try_except (with_client w (\<lambda>client.
     (let search_config = [(''experiment_ids'', PList experiment_ids), (''max_results'', PInt max_results)];
          search_config = (if truthy (opt_str filter_string) then setitem search_config ''filter'' (opt_str filter_string) else search_config);
          search_config = (if truthy (PStr run_view_type) then setitem search_config ''run_view_type'' (PStr run_view_type) else search_config)
      in
     invoke client (''experiments.search_runs'', [], search_config) (\<lambda>runs_response.
     bind_exn (items_if runs_response ''runs'' (\<lambda>run. dict_lit [
          (''run_id'', attr_if run ''info'' ''run_id''),
          (''run_uuid'', attr_if run ''info'' ''run_uuid''),
          (''experiment_id'', attr_if run ''info'' ''experiment_id''),
          (''user_id'', attr_if run ''info'' ''user_id''),
          (''status'', attr_if run ''info'' ''status''),
          (''start_time'', attr_if run ''info'' ''start_time''),
          (''end_time'', attr_if run ''info'' ''end_time''),
          (''artifact_uri'', attr_if run ''info'' ''artifact_uri''),
          (''lifecycle_stage'', attr_if run ''info'' ''lifecycle_stage''),
          (''run_name'', attr_if run ''info'' ''run_name''),
          (''tags'', attr_if run ''data'' ''tags''),
          (''params'', attr_if run ''data'' ''params''),
          (''metrics'', attr_if run ''data'' ''metrics'')])) (\<lambda>run_list.
     dict_lit [
        (''status'', success),
        (''experiment_ids'', Inr (PList experiment_ids)),
        (''runs'', Inr (PList run_list)),
        (''count'', Inr (PInt (int (length run_list)))),
        (''next_page_token'', (if hasattr runs_response ''next_page_token'' then getattr runs_response ''next_page_token'' else Inr PNone))])))))"

text \<open>\<^verbatim>\<open>get_run\<close> (lines 611--643)\<close>

definition get_run :: "world \<Rightarrow> string \<Rightarrow> outcome" where
  "get_run w run_id = try_except (with_client w (\<lambda>client.
     invoke client (''experiments.get_run'', [PStr run_id], []) (\<lambda>run.
     dict_lit [
        (''status'', success),
        (''run'', dict_lit [
          (''run_id'', attr_if run ''info'' ''run_id''),
          (''run_uuid'', attr_if run ''info'' ''run_uuid''),
          (''experiment_id'', attr_if run ''info'' ''experiment_id''),
          (''user_id'', attr_if run ''info'' ''user_id''),
          (''status'', attr_if run ''info'' ''status''),
          (''start_time'', attr_if run ''info'' ''start_time''),
          (''end_time'', attr_if run ''info'' ''end_time''),
          (''artifact_uri'', attr_if run ''info'' ''artifact_uri''),
          (''lifecycle_stage'', attr_if run ''info'' ''lifecycle_stage''),
          (''run_name'', attr_if run ''info'' ''run_name''),
          (''tags'', attr_if run ''data'' ''tags''),
          (''params'', attr_if run ''data'' ''params''),
          (''metrics'', attr_if run ''data'' ''metrics'')])])))"

text \<open>\<^verbatim>\<open>delete_run\<close> (lines 646--665)\<close>

definition delete_run :: "world \<Rightarrow> string \<Rightarrow> outcome" where
  "delete_run w run_id = try_except (with_client w (\<lambda>client.
     invoke client (''experiments.delete_run'', [PStr run_id], []) (\<lambda>answer.
     dict_lit [
        (''status'', success),
        (''run_id'', Inr (PStr run_id)),
        (''message'', Inr (PStr (''Run '' @ run_id @ '' deleted successfully'')))])))"

text \<open>\<^verbatim>\<open>restore_run\<close> (lines 668--687)\<close>

definition restore_run :: "world \<Rightarrow> string \<Rightarrow> outcome" where
  "restore_run w run_id = try_except (with_client w (\<lambda>client.
     invoke client (''experiments.restore_run'', [PStr run_id], []) (\<lambda>answer.
     dict_lit [
        (''status'', success),
        (''run_id'', Inr (PStr run_id)),
        (''message'', Inr (PStr (''Run '' @ run_id @ '' restored successfully'')))])))"

section \<open>Security tools (\<^verbatim>\<open>security.py\<close>)\<close>

text \<open>\<^verbatim>\<open>list_secret_scopes\<close> (lines 20--44)\<close>

definition list_secret_scopes :: "world \<Rightarrow> outcome" where
  "list_secret_scopes w = try_except (with_client w (\<lambda>client.
     invoke client (''secrets.list_scopes'', [], []) (\<lambda>answer.
     bind_exn (py_list answer) (\<lambda>scopes.
     bind_exn (map_exn (\<lambda>scope. dict_lit [
          (''name'', getattr scope ''name''),
          (''backend_type'', attr_if scope ''backend_type'' ''name'')]) scopes) (\<lambda>scope_list.
     dict_lit [
        (''status'', success),
        (''scopes'', Inr (PList scope_list)),
        (''count'', Inr (PInt (int (length scope_list))))])))))"

text \<open>\<^verbatim>\<open>create_secret_scope\<close> (lines 47--68)\<close>

definition create_secret_scope :: "world \<Rightarrow> string \<Rightarrow> string \<Rightarrow> outcome" where
  "create_secret_scope w scope_name backend_type = try_except (with_client w (\<lambda>client.
     invoke client (''secrets.create_scope'', [], [(''scope'', PStr scope_name), (''backend_type'', PStr backend_type)]) (\<lambda>answer.
     dict_lit [
        (''status'', success),
        (''scope_name'', Inr (PStr scope_name)),
        (''backend_type'', Inr (PStr backend_type)),
        (''message'', Inr (PStr (''Secret scope '' @ scope_name @ '' created successfully'')))])))"

text \<open>\<^verbatim>\<open>delete_secret_scope\<close> (lines 71--90)\<close>

definition delete_secret_scope :: "world \<Rightarrow> string \<Rightarrow> outcome" where
  "delete_secret_scope w scope_name = try_except (with_client w (\<lambda>client.
     invoke client (''secrets.delete_scope'', [], [(''scope'', PStr scope_name)]) (\<lambda>answer.
     dict_lit [
        (''status'', success),
        (''scope_name'', Inr (PStr scope_name)),
        (''message'', Inr (PStr (''Secret scope '' @ scope_name @ '' deleted successfully'')))])))"

text \<open>\<^verbatim>\<open>list_secrets\<close> (lines 93--121)\<close>

definition list_secrets :: "world \<Rightarrow> string \<Rightarrow> outcome" where
  "list_secrets w scope_name = try_except (with_client w (\<lambda>client.
     invoke client (''secrets.list_secrets'', [], [(''scope'', PStr scope_name)]) (\<lambda>answer.
     bind_exn (py_list answer) (\<lambda>secrets.
     bind_exn (map_exn (\<lambda>secret. dict_lit [
          (''key'', getattr secret ''key''),
          (''last_updated_timestamp'', getattr secret ''last_updated_timestamp'')]) secrets) (\<lambda>secret_list.
     dict_lit [
        (''status'', success),
        (''scope_name'', Inr (PStr scope_name)),
        (''secrets'', Inr (PList secret_list)),
        (''count'', Inr (PInt (int (length secret_list))))])))))"

text \<open>\<^verbatim>\<open>put_secret\<close> (lines 124--146)\<close>

definition put_secret :: "world \<Rightarrow> string \<Rightarrow> string \<Rightarrow> string \<Rightarrow> outcome" where
  "put_secret w scope_name key value = try_except (with_client w (\<lambda>client.
     invoke client (''secrets.put_secret'', [], [(''scope'', PStr scope_name), (''key'', PStr key), (''string_value'', PStr value)]) (\<lambda>answer.
     dict_lit [
        (''status'', success),
        (''scope_name'', Inr (PStr scope_name)),
        (''key'', Inr (PStr key)),
        (''message'', Inr (PStr (''Secret '' @ key @ '' created/updated successfully in scope '' @ scope_name)))])))"

text \<open>\<^verbatim>\<open>delete_secret\<close> (lines 149--170)\<close>

definition delete_secret :: "world \<Rightarrow> string \<Rightarrow> string \<Rightarrow> outcome" where
  "delete_secret w scope_name key = try_except (with_client w (\<lambda>client.
     invoke client (''secrets.delete_secret'', [], [(''scope'', PStr scope_name), (''key'', PStr key)]) (\<lambda>answer.
     dict_lit [
        (''status'', success),
        (''scope_name'', Inr (PStr scope_name)),
        (''key'', Inr (PStr key)),
        (''message'', Inr (PStr (''Secret '' @ key @ '' deleted successfully from scope '' @ scope_name)))])))"

text \<open>\<^verbatim>\<open>get_secret_acl\<close> (lines 173--194)\<close>

definition get_secret_acl :: "world \<Rightarrow> string \<Rightarrow> string \<Rightarrow> outcome" where
  "get_secret_acl w scope_name principal' = try_except (with_client w (\<lambda>client.
     invoke client (''secrets.get_acl'', [], [(''scope'', PStr scope_name), (''principal'', PStr principal')]) (\<lambda>acl.
     dict_lit [
        (''status'', success),
        (''scope_name'', Inr (PStr scope_name)),
        (''principal'', Inr (PStr principal')),
        (''permission'', attr_if acl ''permission'' ''name'')])))"

text \<open>\<^verbatim>\<open>list_secret_acls\<close> (lines 197--225)\<close>

definition list_secret_acls :: "world \<Rightarrow> string \<Rightarrow> outcome" where
  "list_secret_acls w scope_name = try_except (with_client w (\<lambda>client.
     invoke client (''secrets.list_acls'', [], [(''scope'', PStr scope_name)]) (\<lambda>answer.
     bind_exn (py_list answer) (\<lambda>acls.
     bind_exn (map_exn (\<lambda>acl. dict_lit [
          (''principal'', getattr acl ''principal''),
          (''permission'', attr_if acl ''permission'' ''name'')]) acls) (\<lambda>acl_list.
     dict_lit [
        (''status'', success),
        (''scope_name'', Inr (PStr scope_name)),
        (''acls'', Inr (PList acl_list)),
        (''count'', Inr (PInt (int (length acl_list))))])))))"

text \<open>\<^verbatim>\<open>put_secret_acl\<close> (lines 228--251)\<close>

definition put_secret_acl :: "world \<Rightarrow> string \<Rightarrow> string \<Rightarrow> string \<Rightarrow> outcome" where
  "put_secret_acl w scope_name principal' permission = try_except (with_client w (\<lambda>client.
     invoke client (''secrets.put_acl'', [], [(''scope'', PStr scope_name), (''principal'', PStr principal'), (''permission'', PStr permission)]) (\<lambda>answer.
     dict_lit [
        (''status'', success),
        (''scope_name'', Inr (PStr scope_name)),
        (''principal'', Inr (PStr principal')),
        (''permission'', Inr (PStr permission)),
        (''message'', Inr (PStr (''ACL for '' @ principal' @ '' set to '' @ permission @ '' on scope '' @ scope_name)))])))"

text \<open>\<^verbatim>\<open>delete_secret_acl\<close> (lines 254--275)\<close>

definition delete_secret_acl :: "world \<Rightarrow> string \<Rightarrow> string \<Rightarrow> outcome" where
  "delete_secret_acl w scope_name principal' = try_except (with_client w (\<lambda>client.
     invoke client (''secrets.delete_acl'', [], [(''scope'', PStr scope_name), (''principal'', PStr principal')]) (\<lambda>answer.
     dict_lit [
        (''status'', success),
        (''scope_name'', Inr (PStr scope_name)),
        (''principal'', Inr (PStr principal')),
        (''message'', Inr (PStr (''ACL for '' @ principal' @ '' deleted from scope '' @ scope_name)))])))"

text \<open>\<^verbatim>\<open>list_users\<close> (lines 280--308)\<close>

definition list_users :: "world \<Rightarrow> outcome" where
  "list_users w = try_except (with_client w (\<lambda>client.
     invoke client (''users.list'', [], []) (\<lambda>answer.
     bind_exn (py_list answer) (\<lambda>users.
     bind_exn (map_exn (\<lambda>user. dict_lit [
          (''id'', getattr user ''id''),
          (''user_name'', getattr user ''user_name''),
          (''display_name'', getattr user ''display_name''),
          (''active'', getattr user ''active''),
          (''emails'', dicts_if user ''emails''),
          (''groups'', dicts_if user ''groups'')]) users) (\<lambda>user_list.
     dict_lit [
        (''status'', success),
        (''users'', Inr (PList user_list)),
        (''count'', Inr (PInt (int (length user_list))))])))))"

text \<open>\<^verbatim>\<open>get_user\<close> (lines 311--338)\<close>

definition get_user :: "world \<Rightarrow> string \<Rightarrow> outcome" where
  "get_user w user_id = try_except (with_client w (\<lambda>client.
     invoke client (''users.get'', [PStr user_id], []) (\<lambda>user.
     dict_lit [
        (''status'', success),
        (''user'', dict_lit [
          (''id'', getattr user ''id''),
          (''user_name'', getattr user ''user_name''),
          (''display_name'', getattr user ''display_name''),
          (''active'', getattr user ''active''),
          (''emails'', dicts_if user ''emails''),
          (''groups'', dicts_if user ''groups''),
          (''roles'', dicts_if user ''roles''),
          (''schemas'', getattr user ''schemas'')])])))"

text \<open>\<^verbatim>\<open>create_user\<close> (lines 341--361)\<close>

definition create_user :: "world \<Rightarrow> pydict \<Rightarrow> outcome" where
  "create_user w user_config = try_except (with_client w (\<lambda>client.
     invoke client (''users.create'', [], user_config) (\<lambda>user.
     dict_lit [
        (''status'', success),
        (''user_id'', getattr user ''id''),
        (''user_name'', getattr user ''user_name''),
        (''message'', bind_exn (getattr user ''user_name'') (\<lambda>v0. Inr (PStr (''User '' @ py_str w v0 @ '' created successfully''))))])))"

text \<open>\<^verbatim>\<open>update_user\<close> (lines 364--384)\<close>

definition update_user :: "world \<Rightarrow> string \<Rightarrow> pydict \<Rightarrow> outcome" where
  "update_user w user_id user_config = try_except (with_client w (\<lambda>client.
     invoke client (''users.patch'', [PStr user_id], user_config) (\<lambda>answer.
     dict_lit [
        (''status'', success),
        (''user_id'', Inr (PStr user_id)),
        (''message'', Inr (PStr (''User '' @ user_id @ '' updated successfully'')))])))"

text \<open>\<^verbatim>\<open>delete_user\<close> (lines 387--406)\<close>

definition delete_user :: "world \<Rightarrow> string \<Rightarrow> outcome" where
  "delete_user w user_id = try_except (with_client w (\<lambda>client.
     invoke client (''users.delete'', [PStr user_id], []) (\<lambda>answer.
     dict_lit [
        (''status'', success),
        (''user_id'', Inr (PStr user_id)),
        (''message'', Inr (PStr (''User '' @ user_id @ '' deleted successfully'')))])))"

text \<open>\<^verbatim>\<open>list_groups\<close> (lines 411--437)\<close>

definition list_groups :: "world \<Rightarrow> outcome" where
  "list_groups w = try_except (with_client w (\<lambda>client.
     invoke client (''groups.list'', [], []) (\<lambda>answer.
     bind_exn (py_list answer) (\<lambda>groups.
     bind_exn (map_exn (\<lambda>group. dict_lit [
          (''id'', getattr group ''id''),
          (''display_name'', getattr group ''display_name''),
          (''members'', dicts_if group ''members''),
          (''groups'', dicts_if group ''groups'')]) groups) (\<lambda>group_list.
     dict_lit [
        (''status'', success),
        (''groups'', Inr (PList group_list)),
        (''count'', Inr (PInt (int (length group_list))))])))))"

text \<open>\<^verbatim>\<open>get_group\<close> (lines 440--465)\<close>

definition get_group :: "world \<Rightarrow> string \<Rightarrow> outcome" where
  "get_group w group_id = try_except (with_client w (\<lambda>client.
     invoke client (''groups.get'', [PStr group_id], []) (\<lambda>group.
     dict_lit [
        (''status'', success),
        (''group'', dict_lit [
          (''id'', getattr group ''id''),
          (''display_name'', getattr group ''display_name''),
          (''members'', dicts_if group ''members''),
          (''groups'', dicts_if group ''groups''),
          (''roles'', dicts_if group ''roles''),
          (''schemas'', getattr group ''schemas'')])])))"

text \<open>\<^verbatim>\<open>create_group\<close> (lines 468--488)\<close>

definition create_group :: "world \<Rightarrow> pydict \<Rightarrow> outcome" where
  "create_group w group_config = try_except (with_client w (\<lambda>client.
     invoke client (''groups.create'', [], group_config) (\<lambda>group.
     dict_lit [
        (''status'', success),
        (''group_id'', getattr group ''id''),
        (''display_name'', getattr group ''display_name''),
        (''message'', bind_exn (getattr group ''display_name'') (\<lambda>v0. Inr (PStr (''Group '' @ py_str w v0 @ '' created successfully''))))])))"

text \<open>\<^verbatim>\<open>update_group\<close> (lines 491--511)\<close>

definition update_group :: "world \<Rightarrow> string \<Rightarrow> pydict \<Rightarrow> outcome" where
  "update_group w group_id group_config = try_except (with_client w (\<lambda>client.
     invoke client (''groups.patch'', [PStr group_id], group_config) (\<lambda>answer.
     dict_lit [
        (''status'', success),
        (''group_id'', Inr (PStr group_id)),
        (''message'', Inr (PStr (''Group '' @ group_id @ '' updated successfully'')))])))"

text \<open>\<^verbatim>\<open>delete_group\<close> (lines 514--533)\<close>

definition delete_group :: "world \<Rightarrow> string \<Rightarrow> outcome" where
  "delete_group w group_id = try_except (with_client w (\<lambda>client.
     invoke client (''groups.delete'', [PStr group_id], []) (\<lambda>answer.
     dict_lit [
        (''status'', success),
        (''group_id'', Inr (PStr group_id)),
        (''message'', Inr (PStr (''Group '' @ group_id @ '' deleted successfully'')))])))"

text \<open>\<^verbatim>\<open>list_service_principals\<close> (lines 538--565)\<close>

definition list_service_principals :: "world \<Rightarrow> outcome" where
  "list_service_principals w = try_except (with_client w (\<lambda>client.
     invoke client (''service_principals.list'', [], []) (\<lambda>answer.
     bind_exn (py_list answer) (\<lambda>service_principals.
     bind_exn (map_exn (\<lambda>sp. dict_lit [
          (''id'', getattr sp ''id''),
          (''application_id'', getattr sp ''application_id''),
          (''display_name'', getattr sp ''display_name''),
          (''active'', getattr sp ''active''),
          (''groups'', dicts_if sp ''groups'')]) service_principals) (\<lambda>sp_list.
     dict_lit [
        (''status'', success),
        (''service_principals'', Inr (PList sp_list)),
        (''count'', Inr (PInt (int (length sp_list))))])))))"

text \<open>\<^verbatim>\<open>get_service_principal\<close> (lines 568--594)\<close>

definition get_service_principal :: "world \<Rightarrow> string \<Rightarrow> outcome" where
  "get_service_principal w sp_id = try_except (with_client w (\<lambda>client.
     invoke client (''service_principals.get'', [PStr sp_id], []) (\<lambda>sp.
     dict_lit [
        (''status'', success),
        (''service_principal'', dict_lit [
          (''id'', getattr sp ''id''),
          (''application_id'', getattr sp ''application_id''),
          (''display_name'', getattr sp ''display_name''),
          (''active'', getattr sp ''active''),
          (''groups'', dicts_if sp ''groups''),
          (''roles'', dicts_if sp ''roles''),
          (''schemas'', getattr sp ''schemas'')])])))"

text \<open>\<^verbatim>\<open>create_service_principal\<close> (lines 597--618)\<close>

definition create_service_principal :: "world \<Rightarrow> pydict \<Rightarrow> outcome" where
  "create_service_principal w sp_config = try_except (with_client w (\<lambda>client.
     invoke client (''service_principals.create'', [], sp_config) (\<lambda>sp.
     dict_lit [
        (''status'', success),
        (''service_principal_id'', getattr sp ''id''),
        (''application_id'', getattr sp ''application_id''),
        (''display_name'', getattr sp ''display_name''),
        (''message'', bind_exn (getattr sp ''display_name'') (\<lambda>v0. Inr (PStr (''Service principal '' @ py_str w v0 @ '' created successfully''))))])))"

text \<open>\<^verbatim>\<open>update_service_principal\<close> (lines 621--641)\<close>

definition update_service_principal :: "world \<Rightarrow> string \<Rightarrow> pydict \<Rightarrow> outcome" where
  "update_service_principal w sp_id sp_config = try_except (with_client w (\<lambda>client.
     invoke client (''service_principals.patch'', [PStr sp_id], sp_config) (\<lambda>answer.
     dict_lit [
        (''status'', success),
        (''service_principal_id'', Inr (PStr sp_id)),
        (''message'', Inr (PStr (''Service principal '' @ sp_id @ '' updated successfully'')))])))"

text \<open>\<^verbatim>\<open>delete_service_principal\<close> (lines 644--663)\<close>

definition delete_service_principal :: "world \<Rightarrow> string \<Rightarrow> outcome" where
  "delete_service_principal w sp_id = try_except (with_client w (\<lambda>client.
     invoke client (''service_principals.delete'', [PStr sp_id], []) (\<lambda>answer.
     dict_lit [
        (''status'', success),
        (''service_principal_id'', Inr (PStr sp_id)),
        (''message'', Inr (PStr (''Service principal '' @ sp_id @ '' deleted successfully'')))])))"

text \<open>\<^verbatim>\<open>list_tokens\<close> (lines 668--694)\<close>

definition list_tokens :: "world \<Rightarrow> outcome" where
  "list_tokens w = try_except (with_client w (\<lambda>client.
     invoke client (''tokens.list'', [], []) (\<lambda>answer.
     bind_exn (py_list answer) (\<lambda>tokens.
     bind_exn (map_exn (\<lambda>token. dict_lit [
          (''token_id'', getattr token ''token_id''),
          (''creation_time'', getattr token ''creation_time''),
          (''expiry_time'', getattr token ''expiry_time''),
          (''comment'', getattr token ''comment'')]) tokens) (\<lambda>token_list.
     dict_lit [
        (''status'', success),
        (''tokens'', Inr (PList token_list)),
        (''count'', Inr (PInt (int (length token_list))))])))))"

text \<open>\<^verbatim>\<open>create_token\<close> (lines 697--728)\<close>

definition create_token :: "world \<Rightarrow> string option \<Rightarrow> int option \<Rightarrow> outcome" where
  "create_token w comment lifetime_seconds = try_except (with_client w (\<lambda>client.
     (let token_config = [];
          token_config = (if truthy (opt_str comment) then setitem token_config ''comment'' (opt_str comment) else token_config);
          token_config = (if truthy (opt_int lifetime_seconds) then setitem token_config ''lifetime_seconds'' (opt_int lifetime_seconds) else token_config)
      in
     invoke client (''tokens.create'', [], token_config) (\<lambda>token.
     dict_lit [
        (''status'', success),
        (''token_id'', getattr token ''token_id''),
        (''token_value'', getattr token ''token_value''),
        (''comment'', Inr (opt_str comment)),
        (''lifetime_seconds'', Inr (opt_int lifetime_seconds)),
        (''message'', Inr (PStr (''Personal access token created successfully''))),
        (''warning'', Inr (PStr ''Token value is only shown once. Please save it securely.''))]))))"

text \<open>\<^verbatim>\<open>revoke_token\<close> (lines 731--750)\<close>

definition revoke_token :: "world \<Rightarrow> string \<Rightarrow> outcome" where
  "revoke_token w token_id = try_except (with_client w (\<lambda>client.
     invoke client (''tokens.delete'', [PStr token_id], []) (\<lambda>answer.
     dict_lit [
        (''status'', success),
        (''token_id'', Inr (PStr token_id)),
        (''message'', Inr (PStr (''Personal access token '' @ token_id @ '' revoked successfully'')))])))"

text \<open>\<^verbatim>\<open>list_ip_access_lists\<close> (lines 755--786)\<close>

definition list_ip_access_lists :: "world \<Rightarrow> outcome" where
  "list_ip_access_lists w = try_except (with_client w (\<lambda>client.
     invoke client (''ip_access_lists.list'', [], []) (\<lambda>answer.
     bind_exn (py_list answer) (\<lambda>ip_lists.
     bind_exn (map_exn (\<lambda>ip_list. dict_lit [
          (''list_id'', getattr ip_list ''list_id''),
          (''label'', getattr ip_list ''label''),
          (''list_type'', attr_if ip_list ''list_type'' ''name''),
          (''enabled'', getattr ip_list ''enabled''),
          (''ip_addresses'', getattr ip_list ''ip_addresses''),
          (''created_at'', getattr ip_list ''created_at''),
          (''created_by'', getattr ip_list ''created_by''),
          (''updated_at'', getattr ip_list ''updated_at''),
          (''updated_by'', getattr ip_list ''updated_by'')]) ip_lists) (\<lambda>ip_list_info.
     dict_lit [
        (''status'', success),
        (''ip_access_lists'', Inr (PList ip_list_info)),
        (''count'', Inr (PInt (int (length ip_list_info))))])))))"

text \<open>\<^verbatim>\<open>get_ip_access_list\<close> (lines 789--817)\<close>

definition get_ip_access_list :: "world \<Rightarrow> string \<Rightarrow> outcome" where
  "get_ip_access_list w list_id = try_except (with_client w (\<lambda>client.
     invoke client (''ip_access_lists.get'', [PStr list_id], []) (\<lambda>ip_list.
     dict_lit [
        (''status'', success),
        (''ip_access_list'', dict_lit [
          (''list_id'', getattr ip_list ''list_id''),
          (''label'', getattr ip_list ''label''),
          (''list_type'', attr_if ip_list ''list_type'' ''name''),
          (''enabled'', getattr ip_list ''enabled''),
          (''ip_addresses'', getattr ip_list ''ip_addresses''),
          (''created_at'', getattr ip_list ''created_at''),
          (''created_by'', getattr ip_list ''created_by''),
          (''updated_at'', getattr ip_list ''updated_at''),
          (''updated_by'', getattr ip_list ''updated_by'')])])))"

text \<open>\<^verbatim>\<open>create_ip_access_list\<close> (lines 820--840)\<close>

definition create_ip_access_list :: "world \<Rightarrow> pydict \<Rightarrow> outcome" where
  "create_ip_access_list w ip_config = try_except (with_client w (\<lambda>client.
     invoke client (''ip_access_lists.create'', [], ip_config) (\<lambda>ip_list.
     dict_lit [
        (''status'', success),
        (''list_id'', getattr ip_list ''list_id''),
        (''label'', getattr ip_list ''label''),
        (''message'', bind_exn (getattr ip_list ''label'') (\<lambda>v0. Inr (PStr (''IP access list '' @ py_str w v0 @ '' created successfully''))))])))"

text \<open>
  \<^verbatim>\<open>update_ip_access_list\<close> (lines 843--867).  The handler assigns to the mapping the caller
  passed; the second component is that mapping when the handler returns.
\<close>

definition update_ip_access_list :: "world \<Rightarrow> string \<Rightarrow> pydict \<Rightarrow> outcome \<times> pydict" where
  "update_ip_access_list w list_id ip_config =
     (case get_workspace_client w of
        Inl e \<Rightarrow> (try_except (Inl e, []), ip_config)
      | Inr client \<Rightarrow>
          (let ip_config = setitem ip_config ''list_id'' (PStr list_id) in
           (try_except (invoke client (''ip_access_lists.replace'', [], ip_config) (\<lambda>answer.
              dict_lit [
                (''status'', success),
                (''list_id'', Inr (PStr list_id)),
                (''message'', Inr (PStr (''IP access list '' @ list_id @ '' updated successfully'')))])),
            ip_config)))"

text \<open>\<^verbatim>\<open>delete_ip_access_list\<close> (lines 870--889)\<close>

definition delete_ip_access_list :: "world \<Rightarrow> string \<Rightarrow> outcome" where
  "delete_ip_access_list w list_id = try_except (with_client w (\<lambda>client.
     invoke client (''ip_access_lists.delete'', [PStr list_id], []) (\<lambda>answer.
     dict_lit [
        (''status'', success),
        (''list_id'', Inr (PStr list_id)),
        (''message'', Inr (PStr (''IP access list '' @ list_id @ '' deleted successfully'')))])))"

text \<open>\<^verbatim>\<open>get_workspace_conf\<close> (lines 893--909)\<close>

definition get_workspace_conf :: "world \<Rightarrow> outcome" where
  "get_workspace_conf w = try_except (with_client w (\<lambda>client.
     invoke client (''workspace_conf.get_status'', [], []) (\<lambda>conf.
     dict_lit [
        (''status'', success),
        (''workspace_configuration'', if truthy conf then py_dict w conf else Inr (PDict []))])))"

text \<open>\<^verbatim>\<open>set_workspace_conf\<close> (lines 911--933)\<close>

definition set_workspace_conf :: "world \<Rightarrow> string \<Rightarrow> string \<Rightarrow> outcome" where
  "set_workspace_conf w config_key config_value = try_except (with_client w (\<lambda>client.
     invoke client (''workspace_conf.set_status'', [PDict [(config_key, PStr config_value)]], []) (\<lambda>answer.
     dict_lit [
        (''status'', success),
        (''config_key'', Inr (PStr config_key)),
        (''config_value'', Inr (PStr config_value)),
        (''message'', Inr (PStr (''Workspace configuration '' @ config_key @ '' set successfully'')))])))"

section \<open>Workspace tools (\<^verbatim>\<open>workspace.py\<close>)\<close>

text \<open>\<^verbatim>\<open>list_workspace_objects\<close> (lines 20--53)\<close>

definition list_workspace_objects :: "world \<Rightarrow> string \<Rightarrow> outcome" where
  "list_workspace_objects w path = try_except (with_client w (\<lambda>client.
     invoke client (''workspace.list'', [PStr path], []) (\<lambda>answer.
     bind_exn (py_list answer) (\<lambda>objects.
     bind_exn (map_exn (\<lambda>obj. dict_lit [
          (''object_type'', attr_if obj ''object_type'' ''name''),
          (''path'', getattr obj ''path''),
          (''language'', attr_if obj ''language'' ''name''),
          (''object_id'', getattr obj ''object_id''),
          (''size'', getattr obj ''size''),
          (''created_at'', getattr obj ''created_at''),
          (''modified_at'', getattr obj ''modified_at'')]) objects) (\<lambda>object_list.
     dict_lit [
        (''status'', success),
        (''path'', Inr (PStr path)),
        (''objects'', Inr (PList object_list)),
        (''count'', Inr (PInt (int (length object_list))))])))))"

text \<open>\<^verbatim>\<open>get_workspace_object\<close> (lines 56--82)\<close>

definition get_workspace_object :: "world \<Rightarrow> string \<Rightarrow> outcome" where
  "get_workspace_object w path = try_except (with_client w (\<lambda>client.
     invoke client (''workspace.get_status'', [PStr path], []) (\<lambda>obj.
     dict_lit [
        (''status'', success),
        (''object'', dict_lit [
          (''object_type'', attr_if obj ''object_type'' ''name''),
          (''path'', getattr obj ''path''),
          (''language'', attr_if obj ''language'' ''name''),
          (''object_id'', getattr obj ''object_id''),
          (''size'', getattr obj ''size''),
          (''created_at'', getattr obj ''created_at''),
          (''modified_at'', getattr obj ''modified_at'')])])))"

text \<open>
  \<^verbatim>\<open>export_workspace_object\<close> (lines 84--122).  The conversion of the content (lines
  102--111) stands in an inner \<^verbatim>\<open>try\<close> statement that catches \<^verbatim>\<open>UnicodeDecodeError\<close> only
  and falls back to the rendering of the bytes.
\<close>

definition export_content :: "world \<Rightarrow> pyval \<Rightarrow> string \<Rightarrow> exn + pyval \<times> pyval" where
  "export_content w export_response format =
     (case (if format = ''SOURCE''
            then bind_exn (getattr export_response ''content'') (\<lambda>c.
                 bind_exn (decode_utf8 c) (\<lambda>content. Inr (content, PStr ''text'')))
            else bind_exn (getattr export_response ''content'') (\<lambda>c.
                 Inr (PStr (py_str w c), PStr ''binary'')))
      of
        Inl e \<Rightarrow>
          (if exn_class e = ''UnicodeDecodeError''
           then bind_exn (getattr export_response ''content'') (\<lambda>c.
                Inr (PStr (py_str w c), PStr ''binary''))
           else Inl e)
      | Inr r \<Rightarrow> Inr r)"

definition export_workspace_object :: "world \<Rightarrow> string \<Rightarrow> string \<Rightarrow> outcome" where
  "export_workspace_object w path format = try_except (with_client w (\<lambda>client.
     invoke client (''workspace.export'', [PStr path], [(''format'', PStr format)]) (\<lambda>export_response.
     bind_exn (export_content w export_response format) (\<lambda>(content, content_type).
     dict_lit [
        (''status'', success),
        (''path'', Inr (PStr path)),
        (''format'', Inr (PStr format)),
        (''content'', Inr content),
        (''content_type'', Inr content_type),
        (''size'', bind_exn (getattr export_response ''content'') py_len)]))))"

text \<open>
  \<^verbatim>\<open>import_workspace_object\<close> (lines 124--163).  A string is represented by its UTF-8
  encoding, which is what \<^verbatim>\<open>content.encode('utf-8')\<close> returns.
\<close>

definition encode_utf8 :: "string \<Rightarrow> string" where
  "encode_utf8 s = s"

definition import_workspace_object :: "world \<Rightarrow> string \<Rightarrow> string \<Rightarrow> string \<Rightarrow> string \<Rightarrow> bool \<Rightarrow> outcome" where
  "import_workspace_object w path content language format overwrite = try_except (with_client w (\<lambda>client.
     (let content_bytes = encode_utf8 content
      in
     invoke client (''workspace.import_'', [], [
        (''path'', PStr path),
        (''content'', PBytes content_bytes),
        (''language'', PStr language),
        (''format'', PStr format),
        (''overwrite'', PBool overwrite)]) (\<lambda>answer.
     dict_lit [
        (''status'', success),
        (''path'', Inr (PStr path)),
        (''language'', Inr (PStr language)),
        (''format'', Inr (PStr format)),
        (''overwrite'', Inr (PBool overwrite)),
        (''content_size'', Inr (PInt (int (length content_bytes)))),
        (''message'', Inr (PStr (''Content imported successfully to '' @ path)))]))))"

text \<open>\<^verbatim>\<open>delete_workspace_object\<close> (lines 166--187)\<close>

definition delete_workspace_object :: "world \<Rightarrow> string \<Rightarrow> bool \<Rightarrow> outcome" where
  "delete_workspace_object w path recursive = try_except (with_client w (\<lambda>client.
     invoke client (''workspace.delete'', [PStr path], [(''recursive'', PBool recursive)]) (\<lambda>answer.
     dict_lit [
        (''status'', success),
        (''path'', Inr (PStr path)),
        (''recursive'', Inr (PBool recursive)),
        (''message'', Inr (PStr (''Workspace object '' @ path @ '' deleted successfully'')))])))"

text \<open>\<^verbatim>\<open>create_workspace_directory\<close> (lines 190--209)\<close>

definition create_workspace_directory :: "world \<Rightarrow> string \<Rightarrow> outcome" where
  "create_workspace_directory w path = try_except (with_client w (\<lambda>client.
     invoke client (''workspace.mkdirs'', [PStr path], []) (\<lambda>answer.
     dict_lit [
        (''status'', success),
        (''path'', Inr (PStr path)),
        (''message'', Inr (PStr (''Workspace directory '' @ path @ '' created successfully'')))])))"

text \<open>\<^verbatim>\<open>list_repos\<close> (lines 214--242)\<close>

definition list_repos :: "world \<Rightarrow> outcome" where
  "list_repos w = try_except (with_client w (\<lambda>client.
     invoke client (''repos.list'', [], []) (\<lambda>answer.
     bind_exn (py_list answer) (\<lambda>repos.
     bind_exn (map_exn (\<lambda>repo. dict_lit [
          (''id'', getattr repo ''id''),
          (''path'', getattr repo ''path''),
          (''url'', getattr repo ''url''),
          (''provider'', getattr repo ''provider''),
          (''branch'', getattr repo ''branch''),
          (''head_commit_id'', getattr repo ''head_commit_id'')]) repos) (\<lambda>repo_list.
     dict_lit [
        (''status'', success),
        (''repositories'', Inr (PList repo_list)),
        (''count'', Inr (PInt (int (length repo_list))))])))))"

text \<open>\<^verbatim>\<open>get_repo\<close> (lines 245--270)\<close>

definition get_repo :: "world \<Rightarrow> string \<Rightarrow> outcome" where
  "get_repo w repo_id = try_except (with_client w (\<lambda>client.
     invoke client (''repos.get'', [PStr repo_id], []) (\<lambda>repo.
     dict_lit [
        (''status'', success),
        (''repository'', dict_lit [
          (''id'', getattr repo ''id''),
          (''path'', getattr repo ''path''),
          (''url'', getattr repo ''url''),
          (''provider'', getattr repo ''provider''),
          (''branch'', getattr repo ''branch''),
          (''head_commit_id'', getattr repo ''head_commit_id'')])])))"

text \<open>\<^verbatim>\<open>create_repo\<close> (lines 273--296)\<close>

definition create_repo :: "world \<Rightarrow> pydict \<Rightarrow> outcome" where
  "create_repo w repo_config = try_except (with_client w (\<lambda>client.
     invoke client (''repos.create'', [], repo_config) (\<lambda>repo.
     dict_lit [
        (''status'', success),
        (''repository_id'', getattr repo ''id''),
        (''path'', getattr repo ''path''),
        (''url'', getattr repo ''url''),
        (''branch'', getattr repo ''branch''),
        (''message'', bind_exn (getattr repo ''path'') (\<lambda>v0. Inr (PStr (''Repository cloned successfully to '' @ py_str w v0))))])))"

text \<open>\<^verbatim>\<open>update_repo\<close> (lines 299--329)\<close>

definition update_repo :: "world \<Rightarrow> string \<Rightarrow> string option \<Rightarrow> string option \<Rightarrow> outcome" where
  "update_repo w repo_id branch tag = try_except (with_client w (\<lambda>client.
     (let update_config = [];
          update_config = (if truthy (opt_str branch) then setitem update_config ''branch'' (opt_str branch) else update_config);
          update_config = (if truthy (opt_str tag) then setitem update_config ''tag'' (opt_str tag) else update_config)
      in
     invoke client (''repos.update'', [PStr repo_id], update_config) (\<lambda>answer.
     dict_lit [
        (''status'', success),
        (''repository_id'', Inr (PStr repo_id)),
        (''branch'', Inr (opt_str branch)),
        (''tag'', Inr (opt_str tag)),
        (''message'', Inr (PStr (''Repository '' @ repo_id @ '' updated successfully'')))]))))"

text \<open>\<^verbatim>\<open>delete_repo\<close> (lines 332--351)\<close>

definition delete_repo :: "world \<Rightarrow> string \<Rightarrow> outcome" where
  "delete_repo w repo_id = try_except (with_client w (\<lambda>client.
     invoke client (''repos.delete'', [PStr repo_id], []) (\<lambda>answer.
     dict_lit [
        (''status'', success),
        (''repository_id'', Inr (PStr repo_id)),
        (''message'', Inr (PStr (''Repository '' @ repo_id @ '' deleted successfully'')))])))"

text \<open>\<^verbatim>\<open>get_repo_permissions\<close> (lines 354--387)\<close>

definition get_repo_permissions :: "world \<Rightarrow> string \<Rightarrow> outcome" where
  "get_repo_permissions w repo_id = try_except (with_client w (\<lambda>client.
     invoke client (''repo_permissions.get'', [PStr repo_id], []) (\<lambda>permissions.
     bind_exn (items_if permissions ''access_control_list'' (\<lambda>acl. dict_lit [
          (''user_name'', getattr acl ''user_name''),
          (''group_name'', getattr acl ''group_name''),
          (''service_principal_name'', getattr acl ''service_principal_name''),
          (''all_permissions'', dicts_if acl ''all_permissions'')])) (\<lambda>permission_list.
     dict_lit [
        (''status'', success),
        (''repository_id'', Inr (PStr repo_id)),
        (''object_id'', getattr permissions ''object_id''),
        (''object_type'', getattr permissions ''object_type''),
        (''permissions'', Inr (PList permission_list)),
        (''count'', Inr (PInt (int (length permission_list))))]))))"

text \<open>\<^verbatim>\<open>set_repo_permissions\<close> (lines 390--411)\<close>

definition set_repo_permissions :: "world \<Rightarrow> string \<Rightarrow> pyval list \<Rightarrow> outcome" where
  "set_repo_permissions w repo_id access_control_list = try_except (with_client w (\<lambda>client.
     invoke client (''repo_permissions.set'', [PStr repo_id], [(''access_control_list'', PList access_control_list)]) (\<lambda>answer.
     dict_lit [
        (''status'', success),
        (''repository_id'', Inr (PStr repo_id)),
        (''permissions_count'', Inr (PInt (int (length access_control_list)))),
        (''message'', Inr (PStr (''Permissions set successfully for repository '' @ repo_id)))])))"

text \<open>\<^verbatim>\<open>update_repo_permissions\<close> (lines 414--435)\<close>

definition update_repo_permissions :: "world \<Rightarrow> string \<Rightarrow> pyval list \<Rightarrow> outcome" where
  "update_repo_permissions w repo_id access_control_list = try_except (with_client w (\<lambda>client.
     invoke client (''repo_permissions.update'', [PStr repo_id], [(''access_control_list'', PList access_control_list)]) (\<lambda>answer.
     dict_lit [
        (''status'', success),
        (''repository_id'', Inr (PStr repo_id)),
        (''permissions_count'', Inr (PInt (int (length access_control_list)))),
        (''message'', Inr (PStr (''Permissions updated successfully for repository '' @ repo_id)))])))"

text \<open>\<^verbatim>\<open>get_workspace_permissions\<close> (lines 440--473)\<close>

definition get_workspace_permissions :: "world \<Rightarrow> string \<Rightarrow> string \<Rightarrow> outcome" where
  "get_workspace_permissions w workspace_object_type workspace_object_id = try_except (with_client w (\<lambda>client.
     invoke client (''permissions.get'', [PStr workspace_object_type, PStr workspace_object_id], []) (\<lambda>permissions.
     bind_exn (items_if permissions ''access_control_list'' (\<lambda>acl. dict_lit [
          (''user_name'', getattr acl ''user_name''),
          (''group_name'', getattr acl ''group_name''),
          (''service_principal_name'', getattr acl ''service_principal_name''),
          (''all_permissions'', dicts_if acl ''all_permissions'')])) (\<lambda>permission_list.
     dict_lit [
        (''status'', success),
        (''object_type'', Inr (PStr workspace_object_type)),
        (''object_id'', Inr (PStr workspace_object_id)),
        (''permissions'', Inr (PList permission_list)),
        (''count'', Inr (PInt (int (length permission_list))))]))))"

text \<open>\<^verbatim>\<open>set_workspace_permissions\<close> (lines 476--499)\<close>

definition set_workspace_permissions :: "world \<Rightarrow> string \<Rightarrow> string \<Rightarrow> pyval list \<Rightarrow> outcome" where
  "set_workspace_permissions w workspace_object_type workspace_object_id access_control_list = try_except (with_client w (\<lambda>client.
     invoke client (''permissions.set'', [PStr workspace_object_type, PStr workspace_object_id], [(''access_control_list'', PList access_control_list)]) (\<lambda>answer.
     dict_lit [
        (''status'', success),
        (''object_type'', Inr (PStr workspace_object_type)),
        (''object_id'', Inr (PStr workspace_object_id)),
        (''permissions_count'', Inr (PInt (int (length access_control_list)))),
        (''message'', Inr (PStr (''Permissions set successfully for '' @ workspace_object_type @ '' '' @ workspace_object_id)))])))"

text \<open>\<^verbatim>\<open>update_workspace_permissions\<close> (lines 502--525)\<close>

definition update_workspace_permissions :: "world \<Rightarrow> string \<Rightarrow> string \<Rightarrow> pyval list \<Rightarrow> outcome" where
  "update_workspace_permissions w workspace_object_type workspace_object_id access_control_list = try_except (with_client w (\<lambda>client.
     invoke client (''permissions.update'', [PStr workspace_object_type, PStr workspace_object_id], [(''access_control_list'', PList access_control_list)]) (\<lambda>answer.
     dict_lit [
        (''status'', success),
        (''object_type'', Inr (PStr workspace_object_type)),
        (''object_id'', Inr (PStr workspace_object_id)),
        (''permissions_count'', Inr (PInt (int (length access_control_list)))),
        (''message'', Inr (PStr (''Permissions updated successfully for '' @ workspace_object_type @ '' '' @ workspace_object_id)))])))"

text \<open>\<^verbatim>\<open>get_current_user\<close> (lines 530--553)\<close>

definition get_current_user :: "world \<Rightarrow> outcome" where
  "get_current_user w = try_except (with_client w (\<lambda>client.
     invoke client (''current_user.me'', [], []) (\<lambda>user.
     dict_lit [
        (''status'', success),
        (''current_user'', dict_lit [
          (''id'', getattr user ''id''),
          (''user_name'', getattr user ''user_name''),
          (''display_name'', getattr user ''display_name''),
          (''active'', getattr user ''active''),
          (''emails'', dicts_if user ''emails''),
          (''groups'', dicts_if user ''groups''),
          (''roles'', dicts_if user ''roles'')])])))"

text \<open>
  \<^verbatim>\<open>get_workspace_settings\<close> (lines 557--589).  Each of the two settings is read in an
  inner \<^verbatim>\<open>try\<close> statement with a bare \<^verbatim>\<open>except\<close> clause that stores \<^verbatim>\<open>None\<close>.
\<close>

definition setting_or_none :: "client \<Rightarrow> call \<Rightarrow> pyval" where
  "setting_or_none client k =
     (case bind_exn (client k) (\<lambda>settings. if truthy settings then call_method settings ''dict'' else Inr PNone)
      of Inl e \<Rightarrow> PNone | Inr v \<Rightarrow> v)"

definition get_workspace_settings :: "world \<Rightarrow> outcome" where
  "get_workspace_settings w = try_except (with_client w (\<lambda>client.
     (let settings = [];
          settings = setitem settings ''token_management''
            (setting_or_none client (''settings.get_token_management'', [], []));
          settings = setitem settings ''ip_access_list''
            (setting_or_none client (''settings.get_ip_access_list'', [], []))
      in
     (dict_lit [
        (''status'', success),
        (''workspace_settings'', Inr (PDict settings))],
      [(''settings.get_token_management'', [], []), (''settings.get_ip_access_list'', [], [])]))))"

text \<open>\<^verbatim>\<open>update_token_management_settings\<close> (lines 592--610)\<close>

definition update_token_management_settings :: "world \<Rightarrow> pydict \<Rightarrow> outcome" where
  "update_token_management_settings w token_config = try_except (with_client w (\<lambda>client.
     invoke client (''settings.update_token_management'', [], token_config) (\<lambda>answer.
     dict_lit [
        (''status'', success),
        (''message'', Inr (PStr ''Token management settings updated successfully''))])))"

text \<open>\<^verbatim>\<open>update_ip_access_list_settings\<close> (lines 613--631)\<close>

definition update_ip_access_list_settings :: "world \<Rightarrow> pydict \<Rightarrow> outcome" where
  "update_ip_access_list_settings w ip_config = try_except (with_client w (\<lambda>client.
     invoke client (''settings.update_ip_access_list'', [], ip_config) (\<lambda>answer.
     dict_lit [
        (''status'', success),
        (''message'', Inr (PStr ''IP access list settings updated successfully''))])))"

section \<open>Requests and dispatch\<close>

text \<open>
  A request names a tool and carries its arguments, typed as the handler declares them: a
  parameter with the default \<^verbatim>\<open>None\<close> is an option, and one with another default is the
  value the dispatcher passes.  \<open>handle\<close> is the dispatch: the handler of the tool, applied to
  the arguments, run in a world.
\<close>

datatype compute_request =
    List_clusters
  | Get_cluster string
  | Create_cluster pydict
  | Start_cluster string
  | Restart_cluster string
  | Terminate_cluster string
  | Delete_cluster string
  | Edit_cluster string pydict
  | Get_cluster_events string "int option" "int option" string int
  | List_instance_pools
  | Get_instance_pool string
  | Create_instance_pool pydict
  | Edit_instance_pool string pydict
  | Delete_instance_pool string
  | List_cluster_libraries string
  | Install_cluster_libraries string "pyval list"
  | Uninstall_cluster_libraries string "pyval list"
  | List_all_cluster_libraries
  | List_cluster_policies
  | Get_cluster_policy string
  | Create_cluster_policy pydict
  | Edit_cluster_policy string pydict
  | Delete_cluster_policy string
  | List_node_types
  | List_spark_versions

primrec handle_compute :: "compute_request \<Rightarrow> world \<Rightarrow> outcome" where
  "handle_compute List_clusters w = list_clusters w"
| "handle_compute (Get_cluster cluster_id) w = get_cluster w cluster_id"
| "handle_compute (Create_cluster cluster_config) w = create_cluster w cluster_config"
| "handle_compute (Start_cluster cluster_id) w = start_cluster w cluster_id"
| "handle_compute (Restart_cluster cluster_id) w = restart_cluster w cluster_id"
| "handle_compute (Terminate_cluster cluster_id) w = terminate_cluster w cluster_id"
| "handle_compute (Delete_cluster cluster_id) w = delete_cluster w cluster_id"
| "handle_compute (Edit_cluster cluster_id cluster_config) w = fst (edit_cluster w cluster_id cluster_config)"
| "handle_compute (Get_cluster_events cluster_id start_time end_time order limit) w = get_cluster_events w cluster_id start_time end_time order limit"
| "handle_compute List_instance_pools w = list_instance_pools w"
| "handle_compute (Get_instance_pool instance_pool_id) w = get_instance_pool w instance_pool_id"
| "handle_compute (Create_instance_pool pool_config) w = create_instance_pool w pool_config"
| "handle_compute (Edit_instance_pool instance_pool_id pool_config) w = fst (edit_instance_pool w instance_pool_id pool_config)"
| "handle_compute (Delete_instance_pool instance_pool_id) w = delete_instance_pool w instance_pool_id"
| "handle_compute (List_cluster_libraries cluster_id) w = list_cluster_libraries w cluster_id"
| "handle_compute (Install_cluster_libraries cluster_id libraries) w = install_cluster_libraries w cluster_id libraries"
| "handle_compute (Uninstall_cluster_libraries cluster_id libraries) w = uninstall_cluster_libraries w cluster_id libraries"
| "handle_compute List_all_cluster_libraries w = list_all_cluster_libraries w"
| "handle_compute List_cluster_policies w = list_cluster_policies w"
| "handle_compute (Get_cluster_policy policy_id) w = get_cluster_policy w policy_id"
| "handle_compute (Create_cluster_policy policy_config) w = create_cluster_policy w policy_config"
| "handle_compute (Edit_cluster_policy policy_id policy_config) w = fst (edit_cluster_policy w policy_id policy_config)"
| "handle_compute (Delete_cluster_policy policy_id) w = delete_cluster_policy w policy_id"
| "handle_compute List_node_types w = list_node_types w"
| "handle_compute List_spark_versions w = list_spark_versions w"

datatype governance_request =
    List_system_schemas
  | Query_audit_logs string string "string option" "string option" int
  | Query_table_lineage string bool bool
  | Query_column_lineage string "string option"
  | Query_table_usage string int
  | Query_workspace_objects "string option" int
  | Query_permissions_changes "string option" int
  | Query_compute_usage string string "string option"
  | Query_storage_usage string string
  | List_quality_monitors "string option"
  | Get_quality_monitor_status string

primrec handle_governance :: "governance_request \<Rightarrow> world \<Rightarrow> outcome" where
  "handle_governance List_system_schemas w = list_system_schemas w"
| "handle_governance (Query_audit_logs start_date end_date service_name action_name limit) w = query_audit_logs w start_date end_date service_name action_name limit"
| "handle_governance (Query_table_lineage table_name upstream downstream) w = query_table_lineage w table_name upstream downstream"
| "handle_governance (Query_column_lineage table_name column_name) w = query_column_lineage w table_name column_name"
| "handle_governance (Query_table_usage table_name days) w = query_table_usage w table_name days"
| "handle_governance (Query_workspace_objects object_type created_days) w = query_workspace_objects w object_type created_days"
| "handle_governance (Query_permissions_changes principal' days) w = query_permissions_changes w principal' days"
| "handle_governance (Query_compute_usage start_date end_date cluster_id) w = query_compute_usage w start_date end_date cluster_id"
| "handle_governance (Query_storage_usage start_date end_date) w = query_storage_usage w start_date end_date"
| "handle_governance (List_quality_monitors catalog_name) w = list_quality_monitors w catalog_name"
| "handle_governance (Get_quality_monitor_status table_name) w = get_quality_monitor_status w table_name"

datatype mlflow_request =
    List_models
  | Get_model string
  | Create_model string "string option" "pyval list option"
  | Update_model string "string option"
  | Delete_model string
  | List_model_versions string
  | Get_model_version string string
  | Create_model_version string string "string option" "string option" "pyval list option"
  | Update_model_version string string "string option" "string option"
  | Delete_model_version string string
  | Transition_model_version_stage string string string bool
  | List_experiments
  | Get_experiment string
  | Create_experiment string "string option" "pyval list option"
  | Update_experiment string "string option"
  | Delete_experiment string
  | Restore_experiment string
  | Search_runs "pyval list" "string option" string int
  | Get_run string
  | Delete_run string
  | Restore_run string

primrec handle_mlflow :: "mlflow_request \<Rightarrow> world \<Rightarrow> outcome" where
  "handle_mlflow List_models w = list_models w"
| "handle_mlflow (Get_model model_name) w = get_model w model_name"
| "handle_mlflow (Create_model model_name description tags) w = create_model w model_name description tags"
| "handle_mlflow (Update_model model_name description) w = update_model w model_name description"
| "handle_mlflow (Delete_model model_name) w = delete_model w model_name"
| "handle_mlflow (List_model_versions model_name) w = list_model_versions w model_name"
| "handle_mlflow (Get_model_version model_name version) w = get_model_version w model_name version"
| "handle_mlflow (Create_model_version model_name source run_id description tags) w = create_model_version w model_name source run_id description tags"
| "handle_mlflow (Update_model_version model_name version description stage) w = update_model_version w model_name version description stage"
| "handle_mlflow (Delete_model_version model_name version) w = delete_model_version w model_name version"
| "handle_mlflow (Transition_model_version_stage model_name version stage archive_existing_versions) w = transition_model_version_stage w model_name version stage archive_existing_versions"
| "handle_mlflow List_experiments w = list_experiments w"
| "handle_mlflow (Get_experiment experiment_id) w = get_experiment w experiment_id"
| "handle_mlflow (Create_experiment name artifact_location tags) w = create_experiment w name artifact_location tags"
| "handle_mlflow (Update_experiment experiment_id new_name) w = update_experiment w experiment_id new_name"
| "handle_mlflow (Delete_experiment experiment_id) w = delete_experiment w experiment_id"
| "handle_mlflow (Restore_experiment experiment_id) w = restore_experiment w experiment_id"
| "handle_mlflow (Search_runs experiment_ids filter_string run_view_type max_results) w = search_runs w experiment_ids filter_string run_view_type max_results"
| "handle_mlflow (Get_run run_id) w = get_run w run_id"
| "handle_mlflow (Delete_run run_id) w = delete_run w run_id"
| "handle_mlflow (Restore_run run_id) w = restore_run w run_id"

datatype security_request =
    List_secret_scopes
  | Create_secret_scope string string
  | Delete_secret_scope string
  | List_secrets string
  | Put_secret string string string
  | Delete_secret string string
  | Get_secret_acl string string
  | List_secret_acls string
  | Put_secret_acl string string string
  | Delete_secret_acl string string
  | List_users
  | Get_user string
  | Create_user pydict
  | Update_user string pydict
  | Delete_user string
  | List_groups
  | Get_group string
  | Create_group pydict
  | Update_group string pydict
  | Delete_group string
  | List_service_principals
  | Get_service_principal string
  | Create_service_principal pydict
  | Update_service_principal string pydict
  | Delete_service_principal string
  | List_tokens
  | Create_token "string option" "int option"
  | Revoke_token string
  | List_ip_access_lists
  | Get_ip_access_list string
  | Create_ip_access_list pydict
  | Update_ip_access_list string pydict
  | Delete_ip_access_list string
  | Get_workspace_conf
  | Set_workspace_conf string string

primrec handle_security :: "security_request \<Rightarrow> world \<Rightarrow> outcome" where
  "handle_security List_secret_scopes w = list_secret_scopes w"
| "handle_security (Create_secret_scope scope_name backend_type) w = create_secret_scope w scope_name backend_type"
| "handle_security (Delete_secret_scope scope_name) w = delete_secret_scope w scope_name"
| "handle_security (List_secrets scope_name) w = list_secrets w scope_name"
| "handle_security (Put_secret scope_name key value) w = put_secret w scope_name key value"
| "handle_security (Delete_secret scope_name key) w = delete_secret w scope_name key"
| "handle_security (Get_secret_acl scope_name principal') w = get_secret_acl w scope_name principal'"
| "handle_security (List_secret_acls scope_name) w = list_secret_acls w scope_name"
| "handle_security (Put_secret_acl scope_name principal' permission) w = put_secret_acl w scope_name principal' permission"
| "handle_security (Delete_secret_acl scope_name principal') w = delete_secret_acl w scope_name principal'"
| "handle_security List_users w = list_users w"
| "handle_security (Get_user user_id) w = get_user w user_id"
| "handle_security (Create_user user_config) w = create_user w user_config"
| "handle_security (Update_user user_id user_config) w = update_user w user_id user_config"
| "handle_security (Delete_user user_id) w = delete_user w user_id"
| "handle_security List_groups w = list_groups w"
| "handle_security (Get_group group_id) w = get_group w group_id"
| "handle_security (Create_group group_config) w = create_group w group_config"
| "handle_security (Update_group group_id group_config) w = update_group w group_id group_config"
| "handle_security (Delete_group group_id) w = delete_group w group_id"
| "handle_security List_service_principals w = list_service_principals w"
| "handle_security (Get_service_principal sp_id) w = get_service_principal w sp_id"
| "handle_security (Create_service_principal sp_config) w = create_service_principal w sp_config"
| "handle_security (Update_service_principal sp_id sp_config) w = update_service_principal w sp_id sp_config"
| "handle_security (Delete_service_principal sp_id) w = delete_service_principal w sp_id"
| "handle_security List_tokens w = list_tokens w"
| "handle_security (Create_token comment lifetime_seconds) w = create_token w comment lifetime_seconds"
| "handle_security (Revoke_token token_id) w = revoke_token w token_id"
| "handle_security List_ip_access_lists w = list_ip_access_lists w"
| "handle_security (Get_ip_access_list list_id) w = get_ip_access_list w list_id"
| "handle_security (Create_ip_access_list ip_config) w = create_ip_access_list w ip_config"
| "handle_security (Update_ip_access_list list_id ip_config) w = fst (update_ip_access_list w list_id ip_config)"
| "handle_security (Delete_ip_access_list list_id) w = delete_ip_access_list w list_id"
| "handle_security Get_workspace_conf w = get_workspace_conf w"
| "handle_security (Set_workspace_conf config_key config_value) w = set_workspace_conf w config_key config_value"

datatype workspace_request =
    List_workspace_objects string
  | Get_workspace_object string
  | Export_workspace_object string string
  | Import_workspace_object string string string string bool
  | Delete_workspace_object string bool
  | Create_workspace_directory string
  | List_repos
  | Get_repo string
  | Create_repo pydict
  | Update_repo string "string option" "string option"
  | Delete_repo string
  | Get_repo_permissions string
  | Set_repo_permissions string "pyval list"
  | Update_repo_permissions string "pyval list"
  | Get_workspace_permissions string string
  | Set_workspace_permissions string string "pyval list"
  | Update_workspace_permissions string string "pyval list"
  | Get_current_user
  | Get_workspace_settings
  | Update_token_management_settings pydict
  | Update_ip_access_list_settings pydict

primrec handle_workspace :: "workspace_request \<Rightarrow> world \<Rightarrow> outcome" where
  "handle_workspace (List_workspace_objects path) w = list_workspace_objects w path"
| "handle_workspace (Get_workspace_object path) w = get_workspace_object w path"
| "handle_workspace (Export_workspace_object path format) w = export_workspace_object w path format"
| "handle_workspace (Import_workspace_object path content language format overwrite) w = import_workspace_object w path content language format overwrite"
| "handle_workspace (Delete_workspace_object path recursive) w = delete_workspace_object w path recursive"
| "handle_workspace (Create_workspace_directory path) w = create_workspace_directory w path"
| "handle_workspace List_repos w = list_repos w"
| "handle_workspace (Get_repo repo_id) w = get_repo w repo_id"
| "handle_workspace (Create_repo repo_config) w = create_repo w repo_config"
| "handle_workspace (Update_repo repo_id branch tag) w = update_repo w repo_id branch tag"
| "handle_workspace (Delete_repo repo_id) w = delete_repo w repo_id"
| "handle_workspace (Get_repo_permissions repo_id) w = get_repo_permissions w repo_id"
| "handle_workspace (Set_repo_permissions repo_id access_control_list) w = set_repo_permissions w repo_id access_control_list"
| "handle_workspace (Update_repo_permissions repo_id access_control_list) w = update_repo_permissions w repo_id access_control_list"
| "handle_workspace (Get_workspace_permissions workspace_object_type workspace_object_id) w = get_workspace_permissions w workspace_object_type workspace_object_id"
| "handle_workspace (Set_workspace_permissions workspace_object_type workspace_object_id access_control_list) w = set_workspace_permissions w workspace_object_type workspace_object_id access_control_list"
| "handle_workspace (Update_workspace_permissions workspace_object_type workspace_object_id access_control_list) w = update_workspace_permissions w workspace_object_type workspace_object_id access_control_list"
| "handle_workspace Get_current_user w = get_current_user w"
| "handle_workspace Get_workspace_settings w = get_workspace_settings w"
| "handle_workspace (Update_token_management_settings token_config) w = update_token_management_settings w token_config"
| "handle_workspace (Update_ip_access_list_settings ip_config) w = update_ip_access_list_settings w ip_config"

datatype request =
    Compute compute_request
  | Governance governance_request
  | Mlflow mlflow_request
  | Security security_request
  | Workspace workspace_request

primrec handle :: "request \<Rightarrow> world \<Rightarrow> outcome" where
  "handle (Compute r) w = handle_compute r w"
| "handle (Governance r) w = handle_governance r w"
| "handle (Mlflow r) w = handle_mlflow r w"
| "handle (Security r) w = handle_security r w"
| "handle (Workspace r) w = handle_workspace r w"







text \<open>
  The list-returning handlers: those that collect a sequence of entries in a loop and return
  it together with its length.  \<open>sequence_key\<close> is the key under which the sequence is
  returned.
\<close>

primrec compute_sequence_key :: "compute_request \<Rightarrow> string option" where
  "compute_sequence_key List_clusters = Some ''clusters''"
| "compute_sequence_key (Get_cluster cluster_id) = None"
| "compute_sequence_key (Create_cluster cluster_config) = None"
| "compute_sequence_key (Start_cluster cluster_id) = None"
| "compute_sequence_key (Restart_cluster cluster_id) = None"
| "compute_sequence_key (Terminate_cluster cluster_id) = None"
| "compute_sequence_key (Delete_cluster cluster_id) = None"
| "compute_sequence_key (Edit_cluster cluster_id cluster_config) = None"
| "compute_sequence_key (Get_cluster_events cluster_id start_time end_time order limit) = Some ''events''"
| "compute_sequence_key List_instance_pools = Some ''instance_pools''"
| "compute_sequence_key (Get_instance_pool instance_pool_id) = None"
| "compute_sequence_key (Create_instance_pool pool_config) = None"
| "compute_sequence_key (Edit_instance_pool instance_pool_id pool_config) = None"
| "compute_sequence_key (Delete_instance_pool instance_pool_id) = None"
| "compute_sequence_key (List_cluster_libraries cluster_id) = Some ''libraries''"
| "compute_sequence_key (Install_cluster_libraries cluster_id libraries) = None"
| "compute_sequence_key (Uninstall_cluster_libraries cluster_id libraries) = None"
| "compute_sequence_key List_all_cluster_libraries = Some ''cluster_libraries''"
| "compute_sequence_key List_cluster_policies = Some ''policies''"
| "compute_sequence_key (Get_cluster_policy policy_id) = None"
| "compute_sequence_key (Create_cluster_policy policy_config) = None"
| "compute_sequence_key (Edit_cluster_policy policy_id policy_config) = None"
| "compute_sequence_key (Delete_cluster_policy policy_id) = None"
| "compute_sequence_key List_node_types = Some ''node_types''"
| "compute_sequence_key List_spark_versions = Some ''spark_versions''"

primrec governance_sequence_key :: "governance_request \<Rightarrow> string option" where
  "governance_sequence_key List_system_schemas = Some ''system_schemas''"
| "governance_sequence_key (Query_audit_logs start_date end_date service_name action_name limit) = None"
| "governance_sequence_key (Query_table_lineage table_name upstream downstream) = None"
| "governance_sequence_key (Query_column_lineage table_name column_name) = None"
| "governance_sequence_key (Query_table_usage table_name days) = None"
| "governance_sequence_key (Query_workspace_objects object_type created_days) = None"
| "governance_sequence_key (Query_permissions_changes principal' days) = None"
| "governance_sequence_key (Query_compute_usage start_date end_date cluster_id) = None"
| "governance_sequence_key (Query_storage_usage start_date end_date) = None"
| "governance_sequence_key (List_quality_monitors catalog_name) = Some ''monitors''"
| "governance_sequence_key (Get_quality_monitor_status table_name) = None"

primrec mlflow_sequence_key :: "mlflow_request \<Rightarrow> string option" where
  "mlflow_sequence_key List_models = Some ''models''"
| "mlflow_sequence_key (Get_model model_name) = None"
| "mlflow_sequence_key (Create_model model_name description tags) = None"
| "mlflow_sequence_key (Update_model model_name description) = None"
| "mlflow_sequence_key (Delete_model model_name) = None"
| "mlflow_sequence_key (List_model_versions model_name) = Some ''versions''"
| "mlflow_sequence_key (Get_model_version model_name version) = None"
| "mlflow_sequence_key (Create_model_version model_name source run_id description tags) = None"
| "mlflow_sequence_key (Update_model_version model_name version description stage) = None"
| "mlflow_sequence_key (Delete_model_version model_name version) = None"
| "mlflow_sequence_key (Transition_model_version_stage model_name version stage archive_existing_versions) = None"
| "mlflow_sequence_key List_experiments = Some ''experiments''"
| "mlflow_sequence_key (Get_experiment experiment_id) = None"
| "mlflow_sequence_key (Create_experiment name artifact_location tags) = None"
| "mlflow_sequence_key (Update_experiment experiment_id new_name) = None"
| "mlflow_sequence_key (Delete_experiment experiment_id) = None"
| "mlflow_sequence_key (Restore_experiment experiment_id) = None"
| "mlflow_sequence_key (Search_runs experiment_ids filter_string run_view_type max_results) = Some ''runs''"
| "mlflow_sequence_key (Get_run run_id) = None"
| "mlflow_sequence_key (Delete_run run_id) = None"
| "mlflow_sequence_key (Restore_run run_id) = None"

primrec security_sequence_key :: "security_request \<Rightarrow> string option" where
  "security_sequence_key List_secret_scopes = Some ''scopes''"
| "security_sequence_key (Create_secret_scope scope_name backend_type) = None"
| "security_sequence_key (Delete_secret_scope scope_name) = None"
| "security_sequence_key (List_secrets scope_name) = Some ''secrets''"
| "security_sequence_key (Put_secret scope_name key value) = None"
| "security_sequence_key (Delete_secret scope_name key) = None"
| "security_sequence_key (Get_secret_acl scope_name principal') = None"
| "security_sequence_key (List_secret_acls scope_name) = Some ''acls''"
| "security_sequence_key (Put_secret_acl scope_name principal' permission) = None"
| "security_sequence_key (Delete_secret_acl scope_name principal') = None"
| "security_sequence_key List_users = Some ''users''"
| "security_sequence_key (Get_user user_id) = None"
| "security_sequence_key (Create_user user_config) = None"
| "security_sequence_key (Update_user user_id user_config) = None"
| "security_sequence_key (Delete_user user_id) = None"
| "security_sequence_key List_groups = Some ''groups''"
| "security_sequence_key (Get_group group_id) = None"
| "security_sequence_key (Create_group group_config) = None"
| "security_sequence_key (Update_group group_id group_config) = None"
| "security_sequence_key (Delete_group group_id) = None"
| "security_sequence_key List_service_principals = Some ''service_principals''"
| "security_sequence_key (Get_service_principal sp_id) = None"
| "security_sequence_key (Create_service_principal sp_config) = None"
| "security_sequence_key (Update_service_principal sp_id sp_config) = None"
| "security_sequence_key (Delete_service_principal sp_id) = None"
| "security_sequence_key List_tokens = Some ''tokens''"
| "security_sequence_key (Create_token comment lifetime_seconds) = None"
| "security_sequence_key (Revoke_token token_id) = None"
| "security_sequence_key List_ip_access_lists = Some ''ip_access_lists''"
| "security_sequence_key (Get_ip_access_list list_id) = None"
| "security_sequence_key (Create_ip_access_list ip_config) = None"
| "security_sequence_key (Update_ip_access_list list_id ip_config) = None"
| "security_sequence_key (Delete_ip_access_list list_id) = None"
| "security_sequence_key Get_workspace_conf = None"
| "security_sequence_key (Set_workspace_conf config_key config_value) = None"

primrec workspace_sequence_key :: "workspace_request \<Rightarrow> string option" where
  "workspace_sequence_key (List_workspace_objects path) = Some ''objects''"
| "workspace_sequence_key (Get_workspace_object path) = None"
| "workspace_sequence_key (Export_workspace_object path format) = None"
| "workspace_sequence_key (Import_workspace_object path content language format overwrite) = None"
| "workspace_sequence_key (Delete_workspace_object path recursive) = None"
| "workspace_sequence_key (Create_workspace_directory path) = None"
| "workspace_sequence_key List_repos = Some ''repositories''"
| "workspace_sequence_key (Get_repo repo_id) = None"
| "workspace_sequence_key (Create_repo repo_config) = None"
| "workspace_sequence_key (Update_repo repo_id branch tag) = None"
| "workspace_sequence_key (Delete_repo repo_id) = None"
| "workspace_sequence_key (Get_repo_permissions repo_id) = Some ''permissions''"
| "workspace_sequence_key (Set_repo_permissions repo_id access_control_list) = None"
| "workspace_sequence_key (Update_repo_permissions repo_id access_control_list) = None"
| "workspace_sequence_key (Get_workspace_permissions workspace_object_type workspace_object_id) = Some ''permissions''"
| "workspace_sequence_key (Set_workspace_permissions workspace_object_type workspace_object_id access_control_list) = None"
| "workspace_sequence_key (Update_workspace_permissions workspace_object_type workspace_object_id access_control_list) = None"
| "workspace_sequence_key Get_current_user = None"
| "workspace_sequence_key Get_workspace_settings = None"
| "workspace_sequence_key (Update_token_management_settings token_config) = None"
| "workspace_sequence_key (Update_ip_access_list_settings ip_config) = None"

primrec sequence_key :: "request \<Rightarrow> string option" where
  "sequence_key (Compute r) = compute_sequence_key r"
| "sequence_key (Governance r) = governance_sequence_key r"
| "sequence_key (Mlflow r) = mlflow_sequence_key r"
| "sequence_key (Security r) = security_sequence_key r"
| "sequence_key (Workspace r) = workspace_sequence_key r"

section \<open>Observations on envelopes and calls\<close>

text \<open>The value under a key of a returned mapping, and the keys in their order.\<close>

definition lookup :: "pyval \<Rightarrow> string \<Rightarrow> pyval option" where
  "lookup v k = (case v of PDict d \<Rightarrow> map_of d k | _ \<Rightarrow> None)"


definition is_success :: "pyval \<Rightarrow> bool" where
  "is_success v = (lookup v ''status'' = Some (PStr ''success''))"

definition is_error :: "pyval \<Rightarrow> bool" where
  "is_error v = (lookup v ''status'' = Some (PStr ''error''))"

text \<open>The keyword arguments of a call, and the keywords among them.\<close>

definition kwargs :: "call \<Rightarrow> pydict" where
  "kwargs k = snd (snd k)"

definition keyword_set :: "call \<Rightarrow> string set" where
  "keyword_set k = fst ` set (kwargs k)"

text \<open>
  A property of what a computation returns, when it returns: \<open>yields P m\<close> holds when \<open>m\<close>
  raises, and when it returns a value with \<open>P\<close>.
\<close>

definition yields :: "('a \<Rightarrow> bool) \<Rightarrow> exn + 'a \<Rightarrow> bool" where
  "yields P m = (case m of Inl e \<Rightarrow> True | Inr v \<Rightarrow> P v)"



text \<open>
  A success envelope that holds a sequence under \<open>k\<close> and the length of that sequence under
  \<open>c\<close>; nothing is said of an error envelope.
\<close>

definition counted :: "string \<Rightarrow> string \<Rightarrow> pyval \<Rightarrow> bool" where
  "counted k c v =
     (if is_success v
      then (\<exists>xs. lookup v k = Some (PList xs) \<and> lookup v c = Some (PInt (int (length xs))))
      else True)"


text \<open>
  The optional parameters.  A parameter declared with the default \<^verbatim>\<open>None\<close> is unset when
  its value is \<^verbatim>\<open>None\<close>; \<open>unset_keywords\<close> lists, for a request, the keywords under which
  its handler forwards such parameters to the client and whose parameter is unset.  The
  governance handlers put their optional parameters into the text of a statement, and
  \<^verbatim>\<open>list_quality_monitors\<close> filters by its own; for them the keyword is the name of
  the parameter.
\<close>

definition unset :: "string \<Rightarrow> pyval \<Rightarrow> string list" where
  "unset keyword v = (if v = PNone then [keyword] else [])"

definition compute_unset :: "compute_request \<Rightarrow> string list" where
  "compute_unset r =
     (case r of
        Get_cluster_events cluster_id start_time end_time order limit \<Rightarrow>
          unset ''start_time'' (opt_int start_time) @ unset ''end_time'' (opt_int end_time)
      | _ \<Rightarrow> [])"

definition governance_unset :: "governance_request \<Rightarrow> string list" where
  "governance_unset r =
     (case r of
        Query_audit_logs start_date end_date service_name action_name limit \<Rightarrow>
          unset ''service_name'' (opt_str service_name) @ unset ''action_name'' (opt_str action_name)
      | Query_column_lineage table_name column_name \<Rightarrow>
          unset ''column_name'' (opt_str column_name)
      | Query_workspace_objects object_type created_days \<Rightarrow>
          unset ''object_type'' (opt_str object_type)
      | Query_permissions_changes principal' days \<Rightarrow>
          unset ''principal'' (opt_str principal')
      | Query_compute_usage start_date end_date cluster_id \<Rightarrow>
          unset ''cluster_id'' (opt_str cluster_id)
      | List_quality_monitors catalog_name \<Rightarrow>
          unset ''catalog_name'' (opt_str catalog_name)
      | _ \<Rightarrow> [])"

definition mlflow_unset :: "mlflow_request \<Rightarrow> string list" where
  "mlflow_unset r =
     (case r of
        Create_model model_name description tags \<Rightarrow>
          unset ''description'' (opt_str description) @ unset ''tags'' (opt_list tags)
      | Update_model model_name description \<Rightarrow>
          unset ''description'' (opt_str description)
      | Create_model_version model_name source run_id description tags \<Rightarrow>
          unset ''run_id'' (opt_str run_id) @ unset ''description'' (opt_str description)
          @ unset ''tags'' (opt_list tags)
      | Update_model_version model_name version description stage \<Rightarrow>
          unset ''description'' (opt_str description) @ unset ''stage'' (opt_str stage)
      | Create_experiment name artifact_location tags \<Rightarrow>
          unset ''artifact_location'' (opt_str artifact_location) @ unset ''tags'' (opt_list tags)
      | Update_experiment experiment_id new_name \<Rightarrow>
          unset ''new_name'' (opt_str new_name)
      | Search_runs experiment_ids filter_string run_view_type max_results \<Rightarrow>
          unset ''filter'' (opt_str filter_string)
      | _ \<Rightarrow> [])"

definition security_unset :: "security_request \<Rightarrow> string list" where
  "security_unset r =
     (case r of
        Create_token comment lifetime_seconds \<Rightarrow>
          unset ''comment'' (opt_str comment) @ unset ''lifetime_seconds'' (opt_int lifetime_seconds)
      | _ \<Rightarrow> [])"

definition workspace_unset :: "workspace_request \<Rightarrow> string list" where
  "workspace_unset r =
     (case r of
        Update_repo repo_id branch tag \<Rightarrow>
          unset ''branch'' (opt_str branch) @ unset ''tag'' (opt_str tag)
      | _ \<Rightarrow> [])"

primrec unset_keywords :: "request \<Rightarrow> string list" where
  "unset_keywords (Compute r) = compute_unset r"
| "unset_keywords (Governance r) = governance_unset r"
| "unset_keywords (Mlflow r) = mlflow_unset r"
| "unset_keywords (Security r) = security_unset r"
| "unset_keywords (Workspace r) = workspace_unset r"

text \<open>\<^verbatim>\<open>get_cluster_events\<close> hands its parameters to the client as it received them.\<close>

definition hands_over :: "request \<Rightarrow> bool" where
  "hands_over r =
     (case r of
        Compute (Get_cluster_events cluster_id start_time end_time order limit) \<Rightarrow> True
      | _ \<Rightarrow> False)"

text \<open>
  The governance tools by name, the statements a run submitted for execution, and the
  texts the caller supplied.
\<close>

primrec governance_tool :: "governance_request \<Rightarrow> string" where
  "governance_tool List_system_schemas = ''list_system_schemas''"
| "governance_tool (Query_audit_logs start_date end_date service_name action_name limit) = ''query_audit_logs''"
| "governance_tool (Query_table_lineage table_name upstream downstream) = ''query_table_lineage''"
| "governance_tool (Query_column_lineage table_name column_name) = ''query_column_lineage''"
| "governance_tool (Query_table_usage table_name days) = ''query_table_usage''"
| "governance_tool (Query_workspace_objects object_type created_days) = ''query_workspace_objects''"
| "governance_tool (Query_permissions_changes principal' days) = ''query_permissions_changes''"
| "governance_tool (Query_compute_usage start_date end_date cluster_id) = ''query_compute_usage''"
| "governance_tool (Query_storage_usage start_date end_date) = ''query_storage_usage''"
| "governance_tool (List_quality_monitors catalog_name) = ''list_quality_monitors''"
| "governance_tool (Get_quality_monitor_status table_name) = ''get_quality_monitor_status''"

definition statement_of :: "call \<Rightarrow> string list" where
  "statement_of k =
     (if fst k = ''statement_execution.execute_statement''
      then (case map_of (kwargs k) ''statement'' of Some (PStr q) \<Rightarrow> [q] | _ \<Rightarrow> [])
      else [])"

definition statements :: "outcome \<Rightarrow> string list" where
  "statements out = concat (map statement_of (calls out))"

definition given :: "string option \<Rightarrow> string list" where
  "given x = (case x of None \<Rightarrow> [] | Some s \<Rightarrow> [s])"

primrec supplied_texts :: "governance_request \<Rightarrow> string list" where
  "supplied_texts List_system_schemas = []"
| "supplied_texts (Query_audit_logs start_date end_date service_name action_name limit) =
     [start_date, end_date] @ given service_name @ given action_name"
| "supplied_texts (Query_table_lineage table_name upstream downstream) = [table_name]"
| "supplied_texts (Query_column_lineage table_name column_name) = [table_name] @ given column_name"
| "supplied_texts (Query_table_usage table_name days) = [table_name]"
| "supplied_texts (Query_workspace_objects object_type created_days) = given object_type"
| "supplied_texts (Query_permissions_changes principal' days) = given principal'"
| "supplied_texts (Query_compute_usage start_date end_date cluster_id) = [start_date, end_date] @ given cluster_id"
| "supplied_texts (Query_storage_usage start_date end_date) = [start_date, end_date]"
| "supplied_texts (List_quality_monitors catalog_name) = given catalog_name"
| "supplied_texts (Get_quality_monitor_status table_name) = [table_name]"

text \<open>
  A tool interpolates when it submits statements and every statement it submits holds every
  text the caller supplied, character by character as supplied.
\<close>

definition interpolates :: "string \<Rightarrow> bool" where
  "interpolates tool =
     ((\<exists>r w. governance_tool r = tool \<and> statements (handle_governance r w) \<noteq> []) \<and>
      (\<forall>r w q s. governance_tool r = tool \<and> q \<in> set (statements (handle_governance r w)) \<and> s \<in> set (supplied_texts r)
         \<longrightarrow> sublist s q))"

text \<open>
  The key under which a list-returning handler reports the length of its sequence
  (\<^verbatim>\<open>list_all_cluster_libraries\<close>, line 557 of \<^verbatim>\<open>compute.py\<close>, names it
  \<^verbatim>\<open>clusters_count\<close>).
\<close>

definition count_key :: "request \<Rightarrow> string" where
  "count_key r = (if r = Compute List_all_cluster_libraries then ''clusters_count'' else ''count'')"



definition every_call :: "(call \<Rightarrow> bool) \<Rightarrow> attempt \<Rightarrow> bool" where
  "every_call Q a = list_all Q (snd a)"

text \<open>The governance tools that submit statements, by name.\<close>

definition statement_tools :: "string set" where
  "statement_tools = {''query_audit_logs'', ''query_table_lineage'', ''query_column_lineage'',
     ''query_table_usage'', ''query_workspace_objects'', ''query_permissions_changes'',
     ''query_compute_usage'', ''query_storage_usage''}"

section \<open>Worlds for concrete runs\<close>

text \<open>
  Three simple worlds: one without credentials, where the construction of the client
  raises; one whose client raises the same exception at every call; and one whose client
  answers every call with the same value.
\<close>

definition no_credentials :: world where
  "no_credentials =
     \<lparr>WorkspaceClient = Inl (Exn ''ValueError'' ''default auth: cannot configure default credentials''),
      render = (\<lambda>v. ''<'' @ type_name v @ ''>''),
      dict_of_pairs = (\<lambda>xs. Inr (PDict []))\<rparr>"

definition refusing :: "exn \<Rightarrow> world" where
  "refusing e =
     \<lparr>WorkspaceClient = Inr (\<lambda>k. Inl e),
      render = (\<lambda>v. ''<'' @ type_name v @ ''>''),
      dict_of_pairs = (\<lambda>xs. Inr (PDict []))\<rparr>"

definition answering :: "pyval \<Rightarrow> world" where
  "answering v =
     \<lparr>WorkspaceClient = Inr (\<lambda>k. Inr v),
      render = (\<lambda>v. ''<'' @ type_name v @ ''>''),
      dict_of_pairs = (\<lambda>xs. Inr (PDict []))\<rparr>"



definition two_secrets :: pyval where
  "two_secrets = PList [
     PObj ''SecretMetadata'' [(''key'', PStr ''token''), (''last_updated_timestamp'', PInt 1700000000000)],
     PObj ''SecretMetadata'' [(''key'', PStr ''password''), (''last_updated_timestamp'', PNone)]]"

section \<open>Lemmas on the handler boundary\<close>

lemma yields_Inl [simp]: "yields P (Inl e)"
  by (simp add: yields_def)

lemma yields_Inr [simp]: "yields P (Inr v) = P v"
  by (simp add: yields_def)

lemma yields_bind: "(\<And>x. yields P (f x)) \<Longrightarrow> yields P (bind_exn m f)"
  by (cases m) (simp_all add: bind_exn_def)

lemma yields_if: "yields P a \<Longrightarrow> yields P b \<Longrightarrow> yields P (if c then a else b)"
  by simp

lemma yields_case_prod: "(\<And>a b. yields P (f a b)) \<Longrightarrow> yields P (case_prod f x)"
  by (cases x) simp

lemma envelope_try_except:
  "(\<And>e. P (error_envelope e)) \<Longrightarrow> yields P (fst a) \<Longrightarrow> P (envelope (try_except a))"
  by (cases "fst a") (simp_all add: try_except_def)

lemma fst_with_client:
  "(\<And>c. yields P (fst (body c))) \<Longrightarrow> yields P (fst (with_client w body))"
  by (simp add: with_client_def split: sum.splits)

lemma fst_invoke: "(\<And>x. yields P (post x)) \<Longrightarrow> yields P (fst (invoke c k post))"
  by (simp add: invoke_def yields_bind)

lemma fst_invoke_then:
  "(\<And>x. yields P (fst (rest x))) \<Longrightarrow> yields P (fst (invoke_then c k rest))"
  by (simp add: invoke_then_def split: sum.splits)

lemma fst_except_return:
  "P v \<Longrightarrow> yields P (fst a) \<Longrightarrow> yields P (fst (except_return a v))"
  by (cases "fst a") (simp_all add: except_return_def)

lemma fst_if: "yields P (fst a) \<Longrightarrow> yields P (fst b) \<Longrightarrow> yields P (fst (if c then a else b))"
  by simp

lemma fst_pair: "yields P m \<Longrightarrow> yields P (fst (m, ks))"
  by simp

lemmas flow_intros = fst_with_client fst_invoke fst_invoke_then fst_except_return fst_if fst_pair
  yields_bind yields_if yields_case_prod


lemma dict_items_lookup:
  "dict_items kvs = Inr d \<Longrightarrow> map_of kvs k = Some (Inr x) \<Longrightarrow> map_of d k = Some x"
  by (induction kvs arbitrary: d) (auto split: sum.splits if_splits)

lemma dict_lit_Inr: "dict_lit kvs = Inr v \<Longrightarrow> \<exists>d. v = PDict d \<and> dict_items kvs = Inr d"
  by (simp add: dict_lit_def split: sum.splits)


text \<open>The handlers that assign to the caller's mapping, seen through their envelope.\<close>

lemma fst_edit_cluster:
  "fst (edit_cluster w cluster_id cluster_config) = try_except (with_client w (\<lambda>client.
     invoke client (''clusters.edit'', [], setitem cluster_config ''cluster_id'' (PStr cluster_id)) (\<lambda>answer.
       dict_lit [
         (''status'', success),
         (''message'', Inr (PStr (''Cluster '' @ cluster_id @ '' configuration updated'')))])))"
  by (simp add: edit_cluster_def with_client_def Let_def split: sum.split)

lemma fst_edit_instance_pool:
  "fst (edit_instance_pool w instance_pool_id pool_config) = try_except (with_client w (\<lambda>client.
     invoke client (''instance_pools.edit'', [], setitem pool_config ''instance_pool_id'' (PStr instance_pool_id)) (\<lambda>answer.
       dict_lit [
         (''status'', success),
         (''message'', Inr (PStr (''Instance pool '' @ instance_pool_id @ '' updated successfully'')))])))"
  by (simp add: edit_instance_pool_def with_client_def Let_def split: sum.split)

lemma fst_edit_cluster_policy:
  "fst (edit_cluster_policy w policy_id policy_config) = try_except (with_client w (\<lambda>client.
     invoke client (''cluster_policies.edit'', [], setitem policy_config ''policy_id'' (PStr policy_id)) (\<lambda>answer.
       dict_lit [
         (''status'', success),
         (''message'', Inr (PStr (''Cluster policy '' @ policy_id @ '' updated successfully'')))])))"
  by (simp add: edit_cluster_policy_def with_client_def Let_def split: sum.split)

lemma fst_update_ip_access_list:
  "fst (update_ip_access_list w list_id ip_config) = try_except (with_client w (\<lambda>client.
     invoke client (''ip_access_lists.replace'', [], setitem ip_config ''list_id'' (PStr list_id)) (\<lambda>answer.
       dict_lit [
         (''status'', success),
         (''list_id'', Inr (PStr list_id)),
         (''message'', Inr (PStr (''IP access list '' @ list_id @ '' updated successfully'')))])))"
  by (simp add: update_ip_access_list_def with_client_def Let_def split: sum.split)

text \<open>The handlers of each module, unfolded to their bodies.\<close>

lemmas compute_unfold =
  list_clusters_def get_cluster_def create_cluster_def start_cluster_def restart_cluster_def
  terminate_cluster_def delete_cluster_def fst_edit_cluster get_cluster_events_def
  list_instance_pools_def get_instance_pool_def create_instance_pool_def fst_edit_instance_pool
  delete_instance_pool_def list_cluster_libraries_def install_cluster_libraries_def
  uninstall_cluster_libraries_def list_all_cluster_libraries_def list_cluster_policies_def
  get_cluster_policy_def create_cluster_policy_def fst_edit_cluster_policy
  delete_cluster_policy_def list_node_types_def list_spark_versions_def

lemmas governance_unfold =
  list_system_schemas_def query_audit_logs_def query_table_lineage_def query_column_lineage_def
  query_table_usage_def query_workspace_objects_def query_permissions_changes_def
  query_compute_usage_def query_storage_usage_def list_quality_monitors_def
  get_quality_monitor_status_def

lemmas mlflow_unfold =
  list_models_def get_model_def create_model_def update_model_def delete_model_def
  list_model_versions_def get_model_version_def create_model_version_def
  update_model_version_def delete_model_version_def transition_model_version_stage_def
  list_experiments_def get_experiment_def create_experiment_def update_experiment_def
  delete_experiment_def restore_experiment_def search_runs_def get_run_def delete_run_def
  restore_run_def

lemmas security_unfold =
  list_secret_scopes_def create_secret_scope_def delete_secret_scope_def list_secrets_def
  put_secret_def delete_secret_def get_secret_acl_def list_secret_acls_def put_secret_acl_def
  delete_secret_acl_def list_users_def get_user_def create_user_def update_user_def
  delete_user_def list_groups_def get_group_def create_group_def update_group_def
  delete_group_def list_service_principals_def get_service_principal_def
  create_service_principal_def update_service_principal_def delete_service_principal_def
  list_tokens_def create_token_def revoke_token_def list_ip_access_lists_def
  get_ip_access_list_def create_ip_access_list_def fst_update_ip_access_list
  delete_ip_access_list_def get_workspace_conf_def set_workspace_conf_def

lemmas workspace_unfold =
  list_workspace_objects_def get_workspace_object_def export_workspace_object_def
  import_workspace_object_def delete_workspace_object_def create_workspace_directory_def
  list_repos_def get_repo_def create_repo_def update_repo_def delete_repo_def
  get_repo_permissions_def set_repo_permissions_def update_repo_permissions_def
  get_workspace_permissions_def set_workspace_permissions_def update_workspace_permissions_def
  get_current_user_def get_workspace_settings_def update_token_management_settings_def
  update_ip_access_list_settings_def

subsection \<open>Every envelope has one of the two shapes\<close>












subsection \<open>The keys of a success envelope\<close>












subsection \<open>The count of a list-returning handler\<close>

lemma counted_error: "counted k c (error_envelope e)"
  by (simp add: counted_def is_success_def lookup_def error_envelope_def)

lemma counted_dict_lit:
  assumes "case map_of kvs k of
             Some (Inr (PList xs)) \<Rightarrow> map_of kvs c = Some (Inr (PInt (int (length xs))))
           | _ \<Rightarrow> False"
  shows "yields (counted k c) (dict_lit kvs)"
proof (cases "dict_lit kvs")
  case (Inr v)
  then obtain d where d: "v = PDict d" "dict_items kvs = Inr d"
    by (blast dest: dict_lit_Inr)
  from assms obtain xs where xs: "map_of kvs k = Some (Inr (PList xs))"
    "map_of kvs c = Some (Inr (PInt (int (length xs))))"
    by (auto split: option.splits sum.splits pyval.splits)
  from d(2) xs have "map_of d k = Some (PList xs)" "map_of d c = Some (PInt (int (length xs)))"
    by (auto dest: dict_items_lookup)
  with Inr d(1) show ?thesis
    by (auto simp: counted_def lookup_def)
qed simp

lemma counted_known: "counted ''system_schemas'' ''count'' known_system_schemas"
  by (simp add: counted_def is_success_def lookup_def known_system_schemas_def)

lemmas counted_intros = envelope_try_except [where P = "counted k c" for k c] flow_intros
  counted_dict_lit counted_error

lemma compute_counted:
  "compute_sequence_key r = Some k \<Longrightarrow> counted k (count_key (Compute r)) (envelope (handle_compute r w))"
  by (cases r; clarsimp simp: count_key_def; simp only: compute_unfold Let_def; intro counted_intros; simp)

lemma governance_counted:
  "governance_sequence_key r = Some k \<Longrightarrow> counted k (count_key (Governance r)) (envelope (handle_governance r w))"
  by (cases r; clarsimp simp: count_key_def; simp only: governance_unfold Let_def; intro counted_intros;
      simp add: counted_known)

lemma mlflow_counted:
  "mlflow_sequence_key r = Some k \<Longrightarrow> counted k (count_key (Mlflow r)) (envelope (handle_mlflow r w))"
  by (cases r; clarsimp simp: count_key_def; simp only: mlflow_unfold Let_def; intro counted_intros; simp)

lemma security_counted:
  "security_sequence_key r = Some k \<Longrightarrow> counted k (count_key (Security r)) (envelope (handle_security r w))"
  by (cases r; clarsimp simp: count_key_def; simp only: security_unfold Let_def; intro counted_intros; simp)

lemma workspace_counted:
  "workspace_sequence_key r = Some k \<Longrightarrow> counted k (count_key (Workspace r)) (envelope (handle_workspace r w))"
  by (cases r; clarsimp simp: count_key_def; simp only: workspace_unfold Let_def; intro counted_intros; simp)

lemma handle_counted:
  "sequence_key r = Some k \<Longrightarrow> counted k (count_key r) (envelope (handle r w))"
  by (cases r) (simp_all add: compute_counted governance_counted mlflow_counted security_counted
      workspace_counted)

subsection \<open>A failing client accessor\<close>









subsection \<open>A failing call\<close>














subsection \<open>What is forwarded to the client\<close>

lemma every_call_invoke: "Q k \<Longrightarrow> every_call Q (invoke c k post)"
  by (simp add: every_call_def invoke_def)

lemma every_call_invoke_then:
  "Q k \<Longrightarrow> (\<And>x. every_call Q (rest x)) \<Longrightarrow> every_call Q (invoke_then c k rest)"
  by (simp add: every_call_def invoke_then_def split: sum.splits)

lemma every_call_pair: "list_all Q ks \<Longrightarrow> every_call Q (m, ks)"
  by (simp add: every_call_def)

lemma every_call_if:
  "(t \<Longrightarrow> every_call Q a) \<Longrightarrow> (\<not> t \<Longrightarrow> every_call Q b) \<Longrightarrow> every_call Q (if t then a else b)"
  by simp

lemma every_call_except_return: "every_call Q a \<Longrightarrow> every_call Q (except_return a v)"
  by (simp add: every_call_def except_return_def split: sum.splits)

lemma calls_try_except:
  "(\<And>c. every_call Q (body c)) \<Longrightarrow> list_all Q (calls (try_except (with_client w body)))"
  by (simp add: every_call_def try_except_def with_client_def split: sum.splits)

lemmas every_call_intros = calls_try_except every_call_invoke every_call_invoke_then
  every_call_pair every_call_if every_call_except_return

lemma compute_unset_forwarded:
  "\<not> hands_over (Compute r) \<Longrightarrow>
   list_all (\<lambda>k. set (compute_unset r) \<inter> keyword_set k = {}) (calls (handle_compute r w))"
  by (cases r; simp add: hands_over_def compute_unset_def list.pred_True)

lemma governance_unset_forwarded:
  "list_all (\<lambda>k. set (governance_unset r) \<inter> keyword_set k = {}) (calls (handle_governance r w))"
  by (cases r; simp add: governance_unset_def list.pred_True; simp only: governance_unfold Let_def;
      intro every_call_intros;
      simp add: unset_def keyword_set_def kwargs_def execute_statement_def opt_str_def
        split: option.splits)

lemma mlflow_unset_forwarded:
  "list_all (\<lambda>k. set (mlflow_unset r) \<inter> keyword_set k = {}) (calls (handle_mlflow r w))"
  by (cases r; simp add: mlflow_unset_def list.pred_True; simp only: mlflow_unfold Let_def;
      intro every_call_intros;
      simp add: unset_def keyword_set_def kwargs_def setitem_def opt_str_def opt_list_def
        split: option.splits)

lemma security_unset_forwarded:
  "list_all (\<lambda>k. set (security_unset r) \<inter> keyword_set k = {}) (calls (handle_security r w))"
  by (cases r; simp add: security_unset_def list.pred_True; simp only: security_unfold Let_def;
      intro every_call_intros;
      simp add: unset_def keyword_set_def kwargs_def setitem_def opt_str_def opt_int_def
        split: option.splits)

lemma workspace_unset_forwarded:
  "list_all (\<lambda>k. set (workspace_unset r) \<inter> keyword_set k = {}) (calls (handle_workspace r w))"
  by (cases r; simp add: workspace_unset_def list.pred_True; simp only: workspace_unfold Let_def;
      intro every_call_intros;
      simp add: unset_def keyword_set_def kwargs_def setitem_def opt_str_def
        split: option.splits)

lemma handle_unset_forwarded:
  "\<not> hands_over r \<Longrightarrow>
   list_all (\<lambda>k. set (unset_keywords r) \<inter> keyword_set k = {}) (calls (handle r w))"
  by (cases r) (simp_all add: compute_unset_forwarded governance_unset_forwarded
      mlflow_unset_forwarded security_unset_forwarded workspace_unset_forwarded)


subsection \<open>The statements the governance tools submit\<close>

lemma sub_refl: "sublist s s"
  by simp

lemma sub_Cons: "sublist s b \<Longrightarrow> sublist s (c # b)"
  by (simp add: sublist_Cons_right)

lemma sub_app_l: "sublist s b \<Longrightarrow> sublist s (a @ b)"
  by (metis sublist_append)

lemma sub_app_r: "sublist s a \<Longrightarrow> sublist s (a @ b)"
  by (metis sublist_append)

lemma sub_quoted: "sublist s x \<Longrightarrow> sublist s (quoted x)"
  unfolding quoted_def by (intro sub_app_l sub_app_r)

lemma sub_join_hd: "sublist s x \<Longrightarrow> sublist s (py_join sep (x # xs))"
  by (cases xs) (simp_all add: sub_app_r)

lemma sub_join_tl: "sublist s (py_join sep xs) \<Longrightarrow> sublist s (py_join sep (x # xs))"
  by (cases xs) (simp_all add: sub_app_l)

lemma sub_lines: "sublist s (py_join [CHR 0x0A] ls) \<Longrightarrow> sublist s (text_lines ls)"
  by (simp add: text_lines_def)

lemmas sub_intros = sub_refl sub_Cons sub_app_l sub_app_r sub_quoted sub_join_hd sub_join_tl sub_lines

lemma given_cases:
  assumes "s \<in> set (given x)"
  obtains "s = []" | "x = Some s" "truthy (opt_str x)" "str_opt x = s"
  using assms by (cases x; cases "s = []") (simp_all add: given_def opt_str_def str_opt_def)

lemma audit_logs_start:
  "sublist start_date (audit_logs_query start_date end_date service_name action_name limit)"
  unfolding audit_logs_query_def audit_logs_conditions_def Let_def
  by (cases "truthy (opt_str service_name)"; cases "truthy (opt_str action_name)";
      simp only: if_True if_False append.simps)
     (fast intro: sub_intros)+

lemma audit_logs_end:
  "sublist end_date (audit_logs_query start_date end_date service_name action_name limit)"
  unfolding audit_logs_query_def audit_logs_conditions_def Let_def
  by (cases "truthy (opt_str service_name)"; cases "truthy (opt_str action_name)";
      simp only: if_True if_False append.simps)
     (fast intro: sub_intros)+

lemma audit_logs_service:
  assumes "s \<in> set (given service_name)"
  shows "sublist s (audit_logs_query start_date end_date service_name action_name limit)"
  using assms
proof (cases rule: given_cases)
  case 2
  then show ?thesis
    unfolding audit_logs_query_def audit_logs_conditions_def Let_def
    by (cases "truthy (opt_str action_name)"; simp only: if_True if_False append.simps)
       (fast intro: sub_intros)+
qed simp

lemma audit_logs_action:
  assumes "s \<in> set (given action_name)"
  shows "sublist s (audit_logs_query start_date end_date service_name action_name limit)"
  using assms
proof (cases rule: given_cases)
  case 2
  then show ?thesis
    unfolding audit_logs_query_def audit_logs_conditions_def Let_def
    by (cases "truthy (opt_str service_name)"; simp only: if_True if_False append.simps)
       (fast intro: sub_intros)+
qed simp

lemma table_lineage_table:
  assumes "lineage_conditions table_name upstream downstream \<noteq> []"
  shows "sublist table_name (table_lineage_query table_name upstream downstream)"
proof -
  from assms have "upstream \<or> downstream"
    by (auto simp: lineage_conditions_def Let_def split: if_splits)
  then show ?thesis
    unfolding table_lineage_query_def lineage_conditions_def Let_def
    by (cases upstream; cases downstream; simp only: if_True if_False append.simps simp_thms)
       (fast intro: sub_intros)+
qed

lemma column_lineage_table:
  "sublist table_name (column_lineage_query table_name column_name)"
  unfolding column_lineage_query_def column_lineage_conditions_def Let_def
  by (cases "truthy (opt_str column_name)"; simp only: if_True if_False append.simps)
     (fast intro: sub_intros)+

lemma column_lineage_column:
  assumes "s \<in> set (given column_name)"
  shows "sublist s (column_lineage_query table_name column_name)"
  using assms
proof (cases rule: given_cases)
  case 2
  then show ?thesis
    unfolding column_lineage_query_def column_lineage_conditions_def Let_def
    by (simp only: if_True append.simps) (fast intro: sub_intros)
qed simp

lemma table_usage_table: "sublist table_name (table_usage_query table_name days)"
  unfolding table_usage_query_def by (fast intro: sub_intros)

lemma workspace_objects_type:
  assumes "s \<in> set (given object_type)"
  shows "sublist s (workspace_objects_query object_type created_days)"
  using assms
proof (cases rule: given_cases)
  case 2
  then show ?thesis
    unfolding workspace_objects_query_def workspace_objects_conditions_def Let_def
    by (simp only: if_True append.simps) (fast intro: sub_intros)
qed simp

lemma permissions_changes_principal:
  assumes "s \<in> set (given principal')"
  shows "sublist s (permissions_changes_query principal' days)"
  using assms
proof (cases rule: given_cases)
  case 2
  then show ?thesis
    unfolding permissions_changes_query_def permissions_changes_conditions_def Let_def
    by (simp only: if_True append.simps) (fast intro: sub_intros)
qed simp

lemma compute_usage_start: "sublist start_date (compute_usage_query start_date end_date cluster_id)"
  unfolding compute_usage_query_def compute_usage_conditions_def Let_def
  by (cases "truthy (opt_str cluster_id)"; simp only: if_True if_False append.simps)
     (fast intro: sub_intros)+

lemma compute_usage_end: "sublist end_date (compute_usage_query start_date end_date cluster_id)"
  unfolding compute_usage_query_def compute_usage_conditions_def Let_def
  by (cases "truthy (opt_str cluster_id)"; simp only: if_True if_False append.simps)
     (fast intro: sub_intros)+

lemma compute_usage_cluster:
  assumes "s \<in> set (given cluster_id)"
  shows "sublist s (compute_usage_query start_date end_date cluster_id)"
  using assms
proof (cases rule: given_cases)
  case 2
  then show ?thesis
    unfolding compute_usage_query_def compute_usage_conditions_def Let_def
    by (simp only: if_True append.simps) (fast intro: sub_intros)
qed simp

lemma storage_usage_start: "sublist start_date (storage_usage_query start_date end_date)"
  unfolding storage_usage_query_def by (fast intro: sub_intros)

lemma storage_usage_end: "sublist end_date (storage_usage_query start_date end_date)"
  unfolding storage_usage_query_def by (fast intro: sub_intros)

lemmas embedded = audit_logs_start audit_logs_end audit_logs_service audit_logs_action
  table_lineage_table column_lineage_table column_lineage_column table_usage_table
  workspace_objects_type permissions_changes_principal compute_usage_start compute_usage_end
  compute_usage_cluster storage_usage_start storage_usage_end

lemma statement_of_execute [simp]: "statement_of (execute_statement q) = [q]"
  by (simp add: statement_of_def execute_statement_def kwargs_def)

lemma statements_submit:
  "statements (try_except (with_client w (\<lambda>client. invoke client (execute_statement q) (post client)))) =
     (case WorkspaceClient w of Inl e \<Rightarrow> [] | Inr c \<Rightarrow> [q])"
  by (simp add: statements_def try_except_def with_client_def get_workspace_client_def invoke_def
      split: sum.splits)

lemma statements_other:
  "fst k \<noteq> ''statement_execution.execute_statement'' \<Longrightarrow>
   statements (try_except (with_client w (\<lambda>client. invoke client k (post client)))) = []"
  by (simp add: statements_def try_except_def with_client_def get_workspace_client_def invoke_def
      statement_of_def split: sum.splits)

lemma statements_list_system_schemas: "statements (list_system_schemas w) = []"
  by (simp add: list_system_schemas_def statements_def try_except_def with_client_def
      get_workspace_client_def invoke_def except_return_def statement_of_def split: sum.splits)

lemma statements_query_table_lineage:
  "statements (query_table_lineage w table_name upstream downstream) =
     (case WorkspaceClient w of
        Inl e \<Rightarrow> []
      | Inr c \<Rightarrow>
          if lineage_conditions table_name upstream downstream = [] then []
          else [table_lineage_query table_name upstream downstream])"
  by (simp add: query_table_lineage_def statements_def try_except_def with_client_def
      get_workspace_client_def invoke_def split: sum.splits)

lemma governance_statements:
  "statements (handle_governance r w) =
     (case WorkspaceClient w of
        Inl e \<Rightarrow> []
      | Inr c \<Rightarrow>
         (case r of
            List_system_schemas \<Rightarrow> []
          | Query_audit_logs start_date end_date service_name action_name limit \<Rightarrow>
              [audit_logs_query start_date end_date service_name action_name limit]
          | Query_table_lineage table_name upstream downstream \<Rightarrow>
              if lineage_conditions table_name upstream downstream = [] then []
              else [table_lineage_query table_name upstream downstream]
          | Query_column_lineage table_name column_name \<Rightarrow> [column_lineage_query table_name column_name]
          | Query_table_usage table_name days \<Rightarrow> [table_usage_query table_name days]
          | Query_workspace_objects object_type created_days \<Rightarrow>
              [workspace_objects_query object_type created_days]
          | Query_permissions_changes principal' days \<Rightarrow> [permissions_changes_query principal' days]
          | Query_compute_usage start_date end_date cluster_id \<Rightarrow>
              [compute_usage_query start_date end_date cluster_id]
          | Query_storage_usage start_date end_date \<Rightarrow> [storage_usage_query start_date end_date]
          | List_quality_monitors catalog_name \<Rightarrow> []
          | Get_quality_monitor_status table_name \<Rightarrow> []))"
proof (cases r)
  case List_system_schemas
  then show ?thesis
    by (simp add: statements_list_system_schemas split: sum.splits)
next
  case (Query_table_lineage table_name upstream downstream)
  then show ?thesis
    by (simp add: statements_query_table_lineage split: sum.splits)
next
  case (List_quality_monitors catalog_name)
  then show ?thesis
    by (simp add: list_quality_monitors_def statements_other split: sum.splits)
next
  case (Get_quality_monitor_status table_name)
  then show ?thesis
    by (simp add: get_quality_monitor_status_def statements_other split: sum.splits)
qed (simp_all only: handle_governance.simps governance_unfold statements_submit
      governance_request.case)

lemma governance_embeds:
  "q \<in> set (statements (handle_governance r w)) \<Longrightarrow> s \<in> set (supplied_texts r) \<Longrightarrow> sublist s q"
  unfolding governance_statements
  by (cases r; cases "WorkspaceClient w") (auto split: if_splits intro: embedded)

lemma governance_submits:
  "statements (handle_governance r w) \<noteq> [] \<Longrightarrow> governance_tool r \<in> statement_tools"
  unfolding governance_statements
  by (cases r; cases "WorkspaceClient w") (auto simp: statement_tools_def split: if_splits)

subsection \<open>The tools that interpolate, and assignment to a key\<close>

lemma interpolates_iff: "interpolates tool \<longleftrightarrow> tool \<in> statement_tools"
proof
  assume "interpolates tool"
  then obtain r w where "governance_tool r = tool" "statements (handle_governance r w) \<noteq> []"
    by (auto simp: interpolates_def)
  then show "tool \<in> statement_tools"
    by (auto dest: governance_submits)
next
  let ?w = "answering PNone"
  have ok: "WorkspaceClient ?w = Inr (\<lambda>k. Inr PNone)"
    by (simp add: answering_def)
  assume "tool \<in> statement_tools"
  then have "\<exists>r. governance_tool r = tool \<and> statements (handle_governance r ?w) \<noteq> []"
    unfolding statement_tools_def
  proof (elim insertE emptyE)
    assume "tool = ''query_audit_logs''"
    then have "governance_tool (Query_audit_logs [] [] None None 0) = tool
      \<and> statements (handle_governance (Query_audit_logs [] [] None None 0) ?w) \<noteq> []"
      by (subst governance_statements) (simp add: ok)
    then show ?thesis by blast
  next
    assume "tool = ''query_table_lineage''"
    then have "governance_tool (Query_table_lineage [] True True) = tool
      \<and> statements (handle_governance (Query_table_lineage [] True True) ?w) \<noteq> []"
      by (subst governance_statements) (simp add: ok lineage_conditions_def)
    then show ?thesis by blast
  next
    assume "tool = ''query_column_lineage''"
    then have "governance_tool (Query_column_lineage [] None) = tool
      \<and> statements (handle_governance (Query_column_lineage [] None) ?w) \<noteq> []"
      by (subst governance_statements) (simp add: ok)
    then show ?thesis by blast
  next
    assume "tool = ''query_table_usage''"
    then have "governance_tool (Query_table_usage [] 0) = tool
      \<and> statements (handle_governance (Query_table_usage [] 0) ?w) \<noteq> []"
      by (subst governance_statements) (simp add: ok)
    then show ?thesis by blast
  next
    assume "tool = ''query_workspace_objects''"
    then have "governance_tool (Query_workspace_objects None 0) = tool
      \<and> statements (handle_governance (Query_workspace_objects None 0) ?w) \<noteq> []"
      by (subst governance_statements) (simp add: ok)
    then show ?thesis by blast
  next
    assume "tool = ''query_permissions_changes''"
    then have "governance_tool (Query_permissions_changes None 0) = tool
      \<and> statements (handle_governance (Query_permissions_changes None 0) ?w) \<noteq> []"
      by (subst governance_statements) (simp add: ok)
    then show ?thesis by blast
  next
    assume "tool = ''query_compute_usage''"
    then have "governance_tool (Query_compute_usage [] [] None) = tool
      \<and> statements (handle_governance (Query_compute_usage [] [] None) ?w) \<noteq> []"
      by (subst governance_statements) (simp add: ok)
    then show ?thesis by blast
  next
    assume "tool = ''query_storage_usage''"
    then have "governance_tool (Query_storage_usage [] []) = tool
      \<and> statements (handle_governance (Query_storage_usage [] []) ?w) \<noteq> []"
      by (subst governance_statements) (simp add: ok)
    then show ?thesis by blast
  qed
  then show "interpolates tool"
    unfolding interpolates_def by (blast intro: governance_embeds)
qed

lemma card_statement_tools: "card statement_tools = 8"
  by (simp add: statement_tools_def)

lemma setitem_same: "map_of (setitem d k v) k = Some v"
  by (simp add: setitem_def update_conv')

lemma setitem_other: "k' \<noteq> k \<Longrightarrow> map_of (setitem d k v) k' = map_of d k'"
  by (simp add: setitem_def update_conv')

section \<open>The claims\<close>

subsection \<open>C1: every handler returns an envelope\<close>


subsection \<open>C2: what an exception yields\<close>




subsection \<open>C3: the keys of a success envelope\<close>




subsection \<open>C4: optional parameters left unset\<close>

text \<open>
  Claim C4, as stated: an optional parameter left unset is omitted from the arguments
  forwarded to the external call.  It fails for \<^verbatim>\<open>get_cluster_events\<close> (lines 259--265 of
  \<^verbatim>\<open>compute.py\<close>): with \<^verbatim>\<open>start_time\<close> and \<^verbatim>\<open>end_time\<close> unset, the call carries both
  keywords with the value \<^verbatim>\<open>None\<close>.
\<close>

theorem unset_parameters_forwarded_as_none:
  "calls (handle (Compute (Get_cluster_events ''c1'' None None ''DESC'' 50)) (answering PNone)) =
     [(''clusters.get_events'', [],
       [(''cluster_id'', PStr ''c1''), (''start_time'', PNone), (''end_time'', PNone),
        (''order'', PStr ''DESC''), (''limit'', PInt 50)])]"
  by (simp add: get_cluster_events_def try_except_def with_client_def get_workspace_client_def
      answering_def invoke_def opt_int_def)

text \<open>
  Claim C4, amended.  For every handler other than \<^verbatim>\<open>get_cluster_events\<close> and every
  invocation, a parameter with the default \<^verbatim>\<open>None\<close> that is left unset does not occur
  among the keywords of any call the handler makes on the client.
  \<^verbatim>\<open>get_cluster_events\<close> forwards \<^verbatim>\<open>start_time\<close> and \<^verbatim>\<open>end_time\<close> as it received them,
  \<^verbatim>\<open>None\<close> when unset.
\<close>

theorem unset_parameters_omitted:
  "(\<not> hands_over r \<and> k \<in> set (calls (handle r w)) \<and> p \<in> set (unset_keywords r) \<longrightarrow> p \<notin> keyword_set k)
   \<and> calls (get_cluster_events w cluster_id start_time end_time order limit) =
       (case WorkspaceClient w of
          Inl e \<Rightarrow> []
        | Inr c \<Rightarrow>
            [(''clusters.get_events'', [],
              [(''cluster_id'', PStr cluster_id), (''start_time'', opt_int start_time),
               (''end_time'', opt_int end_time), (''order'', PStr order), (''limit'', PInt limit)])])"
proof (intro conjI impI)
  assume a: "\<not> hands_over r \<and> k \<in> set (calls (handle r w)) \<and> p \<in> set (unset_keywords r)"
  then have "list_all (\<lambda>k. set (unset_keywords r) \<inter> keyword_set k = {}) (calls (handle r w))"
    by (simp add: handle_unset_forwarded)
  with a have "set (unset_keywords r) \<inter> keyword_set k = {}"
    by (simp add: list_all_iff)
  with a show "p \<notin> keyword_set k"
    by blast
next
  show "calls (get_cluster_events w cluster_id start_time end_time order limit) =
       (case WorkspaceClient w of
          Inl e \<Rightarrow> []
        | Inr c \<Rightarrow>
            [(''clusters.get_events'', [],
              [(''cluster_id'', PStr cluster_id), (''start_time'', opt_int start_time),
               (''end_time'', opt_int end_time), (''order'', PStr order), (''limit'', PInt limit)])])"
    by (simp add: get_cluster_events_def try_except_def with_client_def get_workspace_client_def
        invoke_def split: sum.splits)
qed

text \<open>
  At a concrete input: \<^verbatim>\<open>create_model\<close> with a description and no tags forwards
  \<^verbatim>\<open>name\<close> and \<^verbatim>\<open>description\<close>, and not \<^verbatim>\<open>tags\<close>.
\<close>

theorem unset_parameters_omitted_witness:
  "calls (handle (Mlflow (Create_model ''churn'' (Some ''weekly'') None)) (answering PNone)) =
     [(''model_registry.create_model'', [], [(''name'', PStr ''churn''), (''description'', PStr ''weekly'')])]
   \<and> unset_keywords (Mlflow (Create_model ''churn'' (Some ''weekly'') None)) = [''tags'']
   \<and> ''tags'' \<notin> keyword_set
        (''model_registry.create_model'', [], [(''name'', PStr ''churn''), (''description'', PStr ''weekly'')])"
proof -
  let ?r = "Mlflow (Create_model ''churn'' (Some ''weekly'') None)"
  let ?k = "(''model_registry.create_model'', [], [(''name'', PStr ''churn''), (''description'', PStr ''weekly'')])"
  have run: "calls (handle ?r (answering PNone)) = [?k]"
    by (simp add: create_model_def try_except_def with_client_def get_workspace_client_def
        answering_def invoke_def opt_str_def opt_list_def setitem_def)
  have unset: "unset_keywords ?r = [''tags'']"
    by (simp add: mlflow_unset_def unset_def opt_str_def opt_list_def)
  have "\<not> hands_over ?r"
    by (simp add: hands_over_def)
  moreover from run have "?k \<in> set (calls (handle ?r (answering PNone)))"
    by simp
  moreover from unset have "''tags'' \<in> set (unset_keywords ?r)"
    by simp
  ultimately have "''tags'' \<notin> keyword_set ?k"
    using unset_parameters_omitted [where r = ?r and w = "answering PNone" and k = ?k and p = "''tags''"]
    by blast
  with run unset show ?thesis
    by simp
qed

subsection \<open>C5: the count of a list-returning handler\<close>

text \<open>
  Claim C5, as stated: for every list-returning handler the field \<^verbatim>\<open>count\<close> of the success
  envelope is the length of the returned sequence.  It fails for
  \<^verbatim>\<open>list_all_cluster_libraries\<close>, whose success envelope returns the sequence under
  \<^verbatim>\<open>cluster_libraries\<close> and has no field \<^verbatim>\<open>count\<close>.
\<close>

theorem list_without_count:
  "sequence_key (Compute List_all_cluster_libraries) = Some ''cluster_libraries''
   \<and> envelope (handle (Compute List_all_cluster_libraries) (answering (PList []))) =
       PDict [(''status'', PStr ''success''), (''cluster_libraries'', PList []), (''clusters_count'', PInt 0)]
   \<and> lookup (envelope (handle (Compute List_all_cluster_libraries) (answering (PList [])))) ''count'' = None"
  by (simp add: list_all_cluster_libraries_def try_except_def with_client_def get_workspace_client_def
      answering_def invoke_def bind_exn_def dict_lit_def success_def lookup_def)

text \<open>
  Claim C5, amended.  For every list-returning handler and every input, a success envelope
  holds the returned sequence under the handler's sequence key and the length of that
  sequence under \<^verbatim>\<open>count\<close>; for \<^verbatim>\<open>list_all_cluster_libraries\<close> the length is under
  \<^verbatim>\<open>clusters_count\<close> instead.
\<close>

theorem count_is_length:
  "sequence_key r = Some k \<Longrightarrow> is_success (envelope (handle r w)) \<Longrightarrow>
   \<exists>xs. lookup (envelope (handle r w)) k = Some (PList xs) \<and>
        lookup (envelope (handle r w)) (count_key r) = Some (PInt (int (length xs)))"
  using handle_counted [of r k w] by (simp add: counted_def)

text \<open>At concrete inputs: \<^verbatim>\<open>list_secrets\<close> with two secrets, and with none.\<close>

theorem count_is_length_witness:
  "lookup (envelope (handle (Security (List_secrets ''prod'')) (answering two_secrets))) ''count'' = Some (PInt 2)
   \<and> lookup (envelope (handle (Security (List_secrets ''prod'')) (answering (PList [])))) ''secrets'' = Some (PList [])
   \<and> lookup (envelope (handle (Security (List_secrets ''prod'')) (answering (PList [])))) ''count'' = Some (PInt 0)"
proof -
  let ?r = "Security (List_secrets ''prod'')"
  have key: "sequence_key ?r = Some ''secrets''" and count: "count_key ?r = ''count''"
    by (simp_all add: count_key_def)
  have two: "envelope (handle ?r (answering two_secrets)) = PDict [
       (''status'', PStr ''success''),
       (''scope_name'', PStr ''prod''),
       (''secrets'', PList [
          PDict [(''key'', PStr ''token''), (''last_updated_timestamp'', PInt 1700000000000)],
          PDict [(''key'', PStr ''password''), (''last_updated_timestamp'', PNone)]]),
       (''count'', PInt 2)]"
    by (simp add: list_secrets_def try_except_def with_client_def get_workspace_client_def
        answering_def invoke_def bind_exn_def dict_lit_def success_def two_secrets_def)
  have none: "envelope (handle ?r (answering (PList []))) = PDict [
       (''status'', PStr ''success''),
       (''scope_name'', PStr ''prod''),
       (''secrets'', PList []),
       (''count'', PInt 0)]"
    by (simp add: list_secrets_def try_except_def with_client_def get_workspace_client_def
        answering_def invoke_def bind_exn_def dict_lit_def success_def)
  from two have "is_success (envelope (handle ?r (answering two_secrets)))"
    by (simp add: is_success_def lookup_def)
  from count_is_length [OF key this] count two
  have "lookup (envelope (handle ?r (answering two_secrets))) ''count'' = Some (PInt 2)"
    by (auto simp: lookup_def)
  with none show ?thesis
    by (simp add: lookup_def)
qed

subsection \<open>C6: the handlers that interpolate their arguments into a statement\<close>

text \<open>
  Claim C6, as stated: exactly two handlers of the governance module build the statement
  they submit by putting caller-supplied values into a template, with no escaping and no
  parameter binding.  In the source, eight do, so the number of interpolating tools is not
  two.
\<close>

theorem not_two_interpolating_tools: "card {tool. interpolates tool} \<noteq> 2"
  by (simp add: interpolates_iff card_statement_tools)

text \<open>
  Claim C6, amended.  Exactly eight handlers of the governance module build the statement
  they submit by putting caller-supplied texts into a template as they are:
  \<^verbatim>\<open>query_audit_logs\<close>, \<^verbatim>\<open>query_table_lineage\<close>, \<^verbatim>\<open>query_column_lineage\<close>,
  \<^verbatim>\<open>query_table_usage\<close>, \<^verbatim>\<open>query_workspace_objects\<close>, \<^verbatim>\<open>query_permissions_changes\<close>,
  \<^verbatim>\<open>query_compute_usage\<close> and \<^verbatim>\<open>query_storage_usage\<close>.  Every statement one of them
  submits holds every text the caller supplied, character by character.
\<close>

theorem eight_interpolating_tools:
  "{tool. interpolates tool} = statement_tools \<and> card {tool. interpolates tool} = 8"
  by (simp add: interpolates_iff card_statement_tools)

text \<open>
  At a concrete input: a table name that closes the quotation and adds a condition of its
  own reaches the statement of \<^verbatim>\<open>query_table_usage\<close> unchanged.
\<close>

theorem eight_interpolating_tools_witness:
  "interpolates ''query_table_usage''
   \<and> \<not> interpolates ''list_system_schemas''
   \<and> statements (handle_governance (Query_table_usage (''t'' @ quoted '' OR '' @ ''1=1'') 30) (answering PNone)) =
       [table_usage_query (''t'' @ quoted '' OR '' @ ''1=1'') 30]
   \<and> sublist (''t'' @ quoted '' OR '' @ ''1=1'') (table_usage_query (''t'' @ quoted '' OR '' @ ''1=1'') 30)"
proof -
  from eight_interpolating_tools have eq: "{tool. interpolates tool} = statement_tools"
    by (rule conjunct1)
  have "''query_table_usage'' \<in> statement_tools" "''list_system_schemas'' \<notin> statement_tools"
    by (simp_all add: statement_tools_def)
  with eq have "interpolates ''query_table_usage''" "\<not> interpolates ''list_system_schemas''"
    by blast+
  moreover have "statements (handle_governance (Query_table_usage (''t'' @ quoted '' OR '' @ ''1=1'') 30) (answering PNone)) =
       [table_usage_query (''t'' @ quoted '' OR '' @ ''1=1'') 30]"
    by (subst governance_statements) (simp add: answering_def)
  ultimately show ?thesis
    by (simp add: table_usage_table)
qed

subsection \<open>C7: the audit log query without filters\<close>

text \<open>
  Claim C7.  For every date range and every limit, \<^verbatim>\<open>query_audit_logs\<close> with
  \<^verbatim>\<open>service_name\<close> and \<^verbatim>\<open>action_name\<close> unset builds exactly the template without filters:
  the \<^verbatim>\<open>WHERE\<close> line holds the two date conditions joined by \<^verbatim>\<open>AND\<close> and nothing else.
  That text is the statement the handler submits, in its only call.
\<close>

theorem audit_logs_unfiltered:
  "audit_logs_query start_date end_date None None limit =
     text_lines [
       '''',
       ''            SELECT '',
       ''                event_time,'',
       ''                event_date,'',
       ''                workspace_id,'',
       ''                account_id,'',
       ''                user_identity,'',
       ''                service_name,'',
       ''                action_name,'',
       ''                request_id,'',
       ''                response,'',
       ''                source_ip_address,'',
       ''                user_agent'',
       ''            FROM system.access.audit'',
       ''            WHERE event_date >= '' @ quoted start_date @ '' AND event_date <= '' @ quoted end_date,
       ''            ORDER BY event_time DESC'',
       ''            LIMIT '' @ str_int limit,
       ''            '']
   \<and> calls (query_audit_logs w start_date end_date None None limit) =
       (case WorkspaceClient w of
          Inl e \<Rightarrow> []
        | Inr c \<Rightarrow>
            [(''statement_execution.execute_statement'', [],
              [(''statement'', PStr (audit_logs_query start_date end_date None None limit)),
               (''warehouse_id'', PNone)])])"
proof
  show "audit_logs_query start_date end_date None None limit =
     text_lines [
       '''',
       ''            SELECT '',
       ''                event_time,'',
       ''                event_date,'',
       ''                workspace_id,'',
       ''                account_id,'',
       ''                user_identity,'',
       ''                service_name,'',
       ''                action_name,'',
       ''                request_id,'',
       ''                response,'',
       ''                source_ip_address,'',
       ''                user_agent'',
       ''            FROM system.access.audit'',
       ''            WHERE event_date >= '' @ quoted start_date @ '' AND event_date <= '' @ quoted end_date,
       ''            ORDER BY event_time DESC'',
       ''            LIMIT '' @ str_int limit,
       ''            '']"
    by (simp add: audit_logs_query_def audit_logs_conditions_def opt_str_def)
next
  show "calls (query_audit_logs w start_date end_date None None limit) =
       (case WorkspaceClient w of
          Inl e \<Rightarrow> []
        | Inr c \<Rightarrow>
            [(''statement_execution.execute_statement'', [],
              [(''statement'', PStr (audit_logs_query start_date end_date None None limit)),
               (''warehouse_id'', PNone)])])"
    by (simp add: query_audit_logs_def try_except_def with_client_def get_workspace_client_def
        invoke_def execute_statement_def split: sum.splits)
qed

text \<open>
  At a concrete input: January 2024 with the limit 100.  The statement is the template
  with the two dates and the limit in place, and the handler submits it in one call.
\<close>

theorem audit_logs_unfiltered_witness:
  "calls (query_audit_logs (answering PNone) ''2024-01-01'' ''2024-01-31'' None None 100) =
     [(''statement_execution.execute_statement'', [],
       [(''statement'', PStr (text_lines [
           '''',
           ''            SELECT '',
           ''                event_time,'',
           ''                event_date,'',
           ''                workspace_id,'',
           ''                account_id,'',
           ''                user_identity,'',
           ''                service_name,'',
           ''                action_name,'',
           ''                request_id,'',
           ''                response,'',
           ''                source_ip_address,'',
           ''                user_agent'',
           ''            FROM system.access.audit'',
           ''            WHERE event_date >= '' @ quoted ''2024-01-01'' @ '' AND event_date <= '' @ quoted ''2024-01-31'',
           ''            ORDER BY event_time DESC'',
           ''            LIMIT 100'',
           ''            ''])),
        (''warehouse_id'', PNone)])]"
proof -
  have "str_int 100 = ''100''"
    by (simp add: str_int_def)
  moreover have "WorkspaceClient (answering PNone) = Inr (\<lambda>k. Inr PNone)"
    by (simp add: answering_def)
  ultimately show ?thesis
    using audit_logs_unfiltered [where w = "answering PNone" and start_date = "''2024-01-01''"
        and end_date = "''2024-01-31''" and limit = 100]
    by simp
qed

subsection \<open>C8: the fallback of \<^verbatim>\<open>list_system_schemas\<close>\<close>

text \<open>
  Claim C8.  When the call that lists the schemas of the catalog \<^verbatim>\<open>system\<close> raises,
  \<^verbatim>\<open>list_system_schemas\<close> returns no error envelope: it returns a success envelope with a
  fixed list of six schemas and the count 6.
\<close>

theorem system_schemas_fallback:
  assumes "WorkspaceClient w = Inr c"
    and "c (''schemas.list'', [], [(''catalog_name'', PStr ''system'')]) = Inl e"
  shows "envelope (handle (Governance List_system_schemas) w) = known_system_schemas
    \<and> is_success known_system_schemas
    \<and> \<not> is_error known_system_schemas
    \<and> lookup known_system_schemas ''system_schemas'' = Some (PList [
         PDict [(''name'', PStr ''access''), (''description'', PStr ''Audit logs and access information'')],
         PDict [(''name'', PStr ''billing''), (''description'', PStr ''Billing and usage information'')],
         PDict [(''name'', PStr ''compute''), (''description'', PStr ''Compute resource information'')],
         PDict [(''name'', PStr ''storage''), (''description'', PStr ''Storage usage information'')],
         PDict [(''name'', PStr ''marketplace''), (''description'', PStr ''Marketplace information'')],
         PDict [(''name'', PStr ''information_schema''), (''description'', PStr ''Information schema metadata'')]])
    \<and> lookup known_system_schemas ''count'' = Some (PInt 6)"
proof -
  from assms have "envelope (handle (Governance List_system_schemas) w) = known_system_schemas"
    by (simp add: list_system_schemas_def try_except_def with_client_def get_workspace_client_def
        invoke_def except_return_def bind_exn_def)
  then show ?thesis
    by (simp add: known_system_schemas_def is_success_def is_error_def lookup_def)
qed

text \<open>
  At a concrete input: a client every call of which raises \<^verbatim>\<open>NotFound\<close>.
\<close>

theorem system_schemas_fallback_witness:
  "envelope (handle (Governance List_system_schemas) (refusing (Exn ''NotFound'' ''catalog system does not exist''))) =
     known_system_schemas
   \<and> lookup known_system_schemas ''count'' = Some (PInt 6)"
proof -
  let ?e = "Exn ''NotFound'' ''catalog system does not exist''"
  have "WorkspaceClient (refusing ?e) = Inr (\<lambda>k. Inl ?e)"
    by (simp add: refusing_def)
  with system_schemas_fallback [of "refusing ?e" "\<lambda>k. Inl ?e" ?e] show ?thesis
    by simp
qed

subsection \<open>C9: the handlers that assign to the caller's mapping\<close>

text \<open>
  Claim C9.  \<^verbatim>\<open>edit_cluster\<close>, \<^verbatim>\<open>edit_instance_pool\<close>, \<^verbatim>\<open>edit_cluster_policy\<close> and
  \<^verbatim>\<open>update_ip_access_list\<close> assign the identifier to its key in the mapping the caller
  passed, and forward that mapping as the keyword arguments of their call; every other key
  of the caller's mapping keeps its value.  (The assignment follows the construction of the
  client: without a client there is no call, and the mapping is as the caller passed it.)
\<close>

theorem identifier_assigned_in_place:
  "snd (edit_cluster w cluster_id cluster_config) =
     (case WorkspaceClient w of
        Inl e \<Rightarrow> cluster_config
      | Inr c \<Rightarrow> setitem cluster_config ''cluster_id'' (PStr cluster_id))
   \<and> calls (fst (edit_cluster w cluster_id cluster_config)) =
     (case WorkspaceClient w of
        Inl e \<Rightarrow> []
      | Inr c \<Rightarrow> [(''clusters.edit'', [], snd (edit_cluster w cluster_id cluster_config))])
   \<and> snd (edit_instance_pool w instance_pool_id pool_config) =
     (case WorkspaceClient w of
        Inl e \<Rightarrow> pool_config
      | Inr c \<Rightarrow> setitem pool_config ''instance_pool_id'' (PStr instance_pool_id))
   \<and> calls (fst (edit_instance_pool w instance_pool_id pool_config)) =
     (case WorkspaceClient w of
        Inl e \<Rightarrow> []
      | Inr c \<Rightarrow> [(''instance_pools.edit'', [], snd (edit_instance_pool w instance_pool_id pool_config))])
   \<and> snd (edit_cluster_policy w policy_id policy_config) =
     (case WorkspaceClient w of
        Inl e \<Rightarrow> policy_config
      | Inr c \<Rightarrow> setitem policy_config ''policy_id'' (PStr policy_id))
   \<and> calls (fst (edit_cluster_policy w policy_id policy_config)) =
     (case WorkspaceClient w of
        Inl e \<Rightarrow> []
      | Inr c \<Rightarrow> [(''cluster_policies.edit'', [], snd (edit_cluster_policy w policy_id policy_config))])
   \<and> snd (update_ip_access_list w list_id ip_config) =
     (case WorkspaceClient w of
        Inl e \<Rightarrow> ip_config
      | Inr c \<Rightarrow> setitem ip_config ''list_id'' (PStr list_id))
   \<and> calls (fst (update_ip_access_list w list_id ip_config)) =
     (case WorkspaceClient w of
        Inl e \<Rightarrow> []
      | Inr c \<Rightarrow> [(''ip_access_lists.replace'', [], snd (update_ip_access_list w list_id ip_config))])
   \<and> map_of (setitem d k v) k = Some v
   \<and> (k' \<noteq> k \<longrightarrow> map_of (setitem d k v) k' = map_of d k')"
  by (simp add: edit_cluster_def edit_instance_pool_def edit_cluster_policy_def
      update_ip_access_list_def get_workspace_client_def try_except_def invoke_def Let_def
      setitem_same setitem_other split: sum.splits)

text \<open>
  At a concrete input: \<^verbatim>\<open>edit_cluster\<close> on a mapping with two keys.  After the call the
  caller's mapping has \<^verbatim>\<open>cluster_id\<close> as a third key, and the two keys keep their values.
\<close>

theorem identifier_assigned_in_place_witness:
  "snd (edit_cluster (answering PNone) ''c1'' [(''num_workers'', PInt 4), (''spark_version'', PStr ''15.4'')]) =
     [(''num_workers'', PInt 4), (''spark_version'', PStr ''15.4''), (''cluster_id'', PStr ''c1'')]
   \<and> calls (fst (edit_cluster (answering PNone) ''c1'' [(''num_workers'', PInt 4), (''spark_version'', PStr ''15.4'')])) =
     [(''clusters.edit'', [],
       [(''num_workers'', PInt 4), (''spark_version'', PStr ''15.4''), (''cluster_id'', PStr ''c1'')])]
   \<and> map_of (setitem [(''num_workers'', PInt 4), (''spark_version'', PStr ''15.4'')] ''cluster_id'' (PStr ''c1''))
        ''num_workers'' = Some (PInt 4)"
proof -
  let ?cfg = "[(''num_workers'', PInt 4), (''spark_version'', PStr ''15.4'')]"
  have "''num_workers'' \<noteq> ''cluster_id''"
    by simp
  with identifier_assigned_in_place [where w = "answering PNone" and cluster_id = "''c1''"
      and cluster_config = ?cfg and d = ?cfg and k = "''cluster_id''" and v = "PStr ''c1''"
      and k' = "''num_workers''"]
  show ?thesis
    by (simp add: answering_def setitem_def)
qed

subsection \<open>C10: lineage with neither direction\<close>

text \<open>
  Claim C10, as stated: for every table name, \<^verbatim>\<open>query_table_lineage\<close> with
  \<^verbatim>\<open>upstream\<close> and \<^verbatim>\<open>downstream\<close> false returns the error envelope with the message
  \<^verbatim>\<open>Must specify upstream or downstream lineage\<close>.  The handler constructs the client
  first (line 150); where that raises, the message is the text of that exception.
\<close>

theorem lineage_without_client:
  "envelope (handle (Governance (Query_table_lineage ''main.sales.orders'' False False)) no_credentials) =
     PDict [(''status'', PStr ''error''),
            (''message'', PStr ''default auth: cannot configure default credentials'')]
   \<and> envelope (handle (Governance (Query_table_lineage ''main.sales.orders'' False False)) no_credentials) \<noteq>
     PDict [(''status'', PStr ''error''),
            (''message'', PStr ''Must specify upstream or downstream lineage'')]"
  by (simp add: query_table_lineage_def try_except_def with_client_def get_workspace_client_def
      no_credentials_def error_envelope_def)

text \<open>
  Claim C10, amended.  For every table name, when the client accessor succeeds,
  \<^verbatim>\<open>query_table_lineage\<close> with \<^verbatim>\<open>upstream\<close> and \<^verbatim>\<open>downstream\<close> false returns the error
  envelope with the message \<^verbatim>\<open>Must specify upstream or downstream lineage\<close> and makes no
  call on the client.
\<close>

theorem lineage_needs_direction:
  "WorkspaceClient w = Inr c \<Longrightarrow>
   handle (Governance (Query_table_lineage table_name False False)) w =
     \<lparr>envelope = PDict [(''status'', PStr ''error''),
                        (''message'', PStr ''Must specify upstream or downstream lineage'')],
      calls = []\<rparr>"
  by (simp add: query_table_lineage_def try_except_def with_client_def get_workspace_client_def
      lineage_conditions_def)

text \<open>
  At a concrete input: the table \<^verbatim>\<open>main.sales.orders\<close>, with a client that is never called.
\<close>

theorem lineage_needs_direction_witness:
  "handle (Governance (Query_table_lineage ''main.sales.orders'' False False)) (answering PNone) =
     \<lparr>envelope = PDict [(''status'', PStr ''error''),
                        (''message'', PStr ''Must specify upstream or downstream lineage'')],
      calls = []\<rparr>"
proof -
  have "WorkspaceClient (answering PNone) = Inr (\<lambda>k. Inr PNone)"
    by (simp add: answering_def)
  then show ?thesis
    by (rule lineage_needs_direction)
qed

end
